theory Spec2Isabelle
  imports Main "HOL-Library.Word"
begin

section \<open>Machine integers, strings and error codes\<close>

text \<open>
  \<open>size_t\<close>, \<open>uint64_t\<close>, \<open>int64_t\<close> and pointers are 64-bit words (LP64);
  \<open>uint32_t\<close> is a 32-bit word. A \<open>cf_str_t\<close> is its byte sequence; the
  borrowed/owned bit of the length field is a matter of memory ownership and is left out.
\<close>

type_synonym u64 = "64 word"
type_synonym u32 = "32 word"
type_synonym u8 = "8 word"

datatype errno = ENOENT | ENOMEM | EACCES | ERANGE | EILSEQ | EMLINK | ENOTSUP | EINVAL
  | SQLITE_ERR

section \<open>Query parser: numeric conversion (parse.c)\<close>

definition is_digit :: "char \<Rightarrow> bool" where
  "is_digit c = (48 \<le> (of_char c :: nat) \<and> (of_char c :: nat) \<le> 57)"

definition char2int :: "char \<Rightarrow> u8 option" where
  "char2int c = (if \<not> is_digit c then None else Some (of_nat (of_char c) - 48))"

text \<open>\<open>__builtin_mul_overflow(val, 10, &val)\<close>: the flag and the wrapped product.\<close>

definition mul_overflow :: "u64 \<Rightarrow> u64 \<Rightarrow> bool \<times> u64" where
  "mul_overflow a b = (2 ^ 64 \<le> unat a * unat b, a * b)"

text \<open>
  The loop body of \<open>str2uint64\<close>: the multiplication is checked, the digit is
  checked, the addition \<open>val += ones\<close> is a plain 64-bit addition.
\<close>

fun str2uint64_loop :: "u64 \<Rightarrow> string \<Rightarrow> u64 option" where
  "str2uint64_loop val [] = Some val"
| "str2uint64_loop val (c # cs) =
     (case mul_overflow val 10 of
        (True, _) \<Rightarrow> None
      | (False, val') \<Rightarrow>
          (case char2int c of
             None \<Rightarrow> None
           | Some ones \<Rightarrow> str2uint64_loop (val' + ucast ones) cs))"

definition str2uint64 :: "string \<Rightarrow> u64 option" where
  "str2uint64 str = (if length str = 0 then None else str2uint64_loop 0 str)"

text \<open>The value a string of decimal digits denotes.\<close>

fun digits_value :: "nat \<Rightarrow> string \<Rightarrow> nat" where
  "digits_value acc [] = acc"
| "digits_value acc (c # cs) = digits_value (acc * 10 + (of_char c - 48)) cs"

section \<open>Allocator and vectors (cf_alloc.c, cf_vector.c, cf_string.c)\<close>

text \<open>
  The allocator is the only source of failure of the in-memory store. Its behaviour is
  an explicit script: the outcomes of the coming \<open>cf_malloc\<close>/\<open>cf_realloc\<close>
  calls, in order; when the script is used up every further allocation succeeds.
  \<open>stale_loc\<close> is what a freshly reserved, not yet written location slot holds.
\<close>

record heap =
  script :: "bool list"
  stale_loc :: "u64 \<times> u64 \<times> u32 \<times> u32 \<times> u32"

definition cf_malloc :: "heap \<Rightarrow> bool \<times> heap" where
  "cf_malloc h = (case script h of [] \<Rightarrow> (True, h) | b # bs \<Rightarrow> (b, h\<lparr>script := bs\<rparr>))"

text \<open>
  A \<open>cf_vec_t\<close>: the committed elements and the capacity (counted in elements; the
  source counts bytes, a multiple of the stride). The reservation and iteration flag bits
  packed into the data pointer are bookkeeping for assertions and are left out.
\<close>

record 'a cf_vec =
  items :: "'a list"
  capacity :: nat

definition cf_vec_make :: "'a cf_vec" where
  "cf_vec_make = \<lparr>items = [], capacity = 0\<rparr>"

definition cf_vec_len :: "'a cf_vec \<Rightarrow> nat" where
  "cf_vec_len v = length (items v)"

text \<open>
  \<open>cf_vec_reserve\<close>: a full vector grows by 8 elements through \<open>cf_realloc\<close>;
  \<open>None\<close> is the NULL return. The grown capacity stays when the insertion is
  aborted later.
\<close>

definition cf_vec_reserve :: "heap \<Rightarrow> 'a cf_vec \<Rightarrow> 'a cf_vec option \<times> heap" where
  "cf_vec_reserve h v =
     (if length (items v) = capacity v then
        (case cf_malloc h of
           (False, h') \<Rightarrow> (None, h')
         | (True, h') \<Rightarrow> (Some (v\<lparr>capacity := capacity v + 8\<rparr>), h'))
      else (Some v, h))"

text \<open>\<open>cf_vec_commit\<close> makes the reserved slot, holding \<open>x\<close>, part of the vector.\<close>

definition cf_vec_commit :: "'a cf_vec \<Rightarrow> 'a \<Rightarrow> 'a cf_vec" where
  "cf_vec_commit v x = v\<lparr>items := items v @ [x]\<rparr>"

definition cf_vec_abort :: "'a cf_vec \<Rightarrow> 'a cf_vec" where
  "cf_vec_abort v = v"

definition CF_STR_MAX_LEN :: nat where
  "CF_STR_MAX_LEN = 2147483647"

definition cf_str_dup :: "heap \<Rightarrow> string \<Rightarrow> (errno + string) \<times> heap" where
  "cf_str_dup h str =
     (if length str = 0 then (Inr [], h)
      else if length str > CF_STR_MAX_LEN then (Inl ERANGE, h)
      else (case cf_malloc h of
              (False, h') \<Rightarrow> (Inl ENOMEM, h')
            | (True, h') \<Rightarrow> (Inr str, h')))"

text \<open>
  \<open>strncmp(s1, s2, n) == 0\<close> for two buffers of \<open>n\<close> bytes each: the comparison
  stops at the first difference, at a NUL byte, or after \<open>n\<close> bytes.
\<close>

fun strncmp_eq :: "string \<Rightarrow> string \<Rightarrow> nat \<Rightarrow> bool" where
  "strncmp_eq s1 s2 0 = True"
| "strncmp_eq (a # as) (b # bs) (Suc n) =
     (if a \<noteq> b then False else if of_char a = (0::nat) then True else strncmp_eq as bs n)"
| "strncmp_eq [] s2 (Suc n) = False"
| "strncmp_eq s1 [] (Suc n) = False"

text \<open>The name test both stores use: equal lengths, then \<open>strncmp\<close>.\<close>

definition name_matches :: "string \<Rightarrow> string \<Rightarrow> bool" where
  "name_matches key name =
     (if length key \<noteq> length name then False else strncmp_eq key name (length name))"

section \<open>Database entry types (db_types.h)\<close>

text \<open>
  \<open>file_ref_t\<close>, \<open>type_ref_t\<close> and \<open>func_ref_t\<close> are unions of a 64-bit row
  identifier, a 64-bit index and (for types) a pointer: one 64-bit word. C enumerations
  are stored and read back as 32-bit integers, so a kind field is a \<open>u32\<close> and the
  enumerators are constants.
\<close>

record loc_ctx =
  loc_file :: u64
  loc_func :: u64
  loc_scope :: u32
  loc_line :: u32
  loc_column :: u32

definition type_kind_struct :: u32 where "type_kind_struct = 1"
definition type_kind_union :: u32 where "type_kind_union = 2"
definition type_kind_enum :: u32 where "type_kind_enum = 3"

definition name_kind_direct :: u32 where "name_kind_direct = 1"
definition name_kind_typedef :: u32 where "name_kind_typedef = 2"
definition name_kind_var :: u32 where "name_kind_var = 3"

definition type_use_decl :: u32 where "type_use_decl = 1"

record db_type_entry =
  te_kind :: u32
  te_complete :: bool

record db_typename =
  tn_kind :: u32
  tn_base_type :: u64
  tn_name :: string

record db_member =
  mb_parent :: u64
  mb_base_type :: u64
  mb_name :: string

record db_type_use =
  tu_base_type :: u64
  tu_kind :: u32

text \<open>
  The outcome of a call that can fail or trap: \<open>Ok\<close> (return value 0, with the
  output), \<open>Err\<close> (a non-zero error code) or \<open>Panic\<close> (\<open>cf_assert\<close> or
  \<open>cf_panic\<close> trapped).
\<close>

datatype 'a res = Ok 'a | Err errno | Panic

section \<open>In-memory store (mem_db.c)\<close>

text \<open>The four location vectors \<open>locs[type_idx .. type_use_idx]\<close> are four fields.\<close>

record mem_db =
  files :: "string cf_vec"
  user_types :: "db_type_entry cf_vec"
  typenames :: "db_typename cf_vec"
  members :: "db_member cf_vec"
  type_uses :: "db_type_use cf_vec"
  locs_type :: "loc_ctx cf_vec"
  locs_typename :: "loc_ctx cf_vec"
  locs_member :: "loc_ctx cf_vec"
  locs_type_use :: "loc_ctx cf_vec"

definition mem_db_open :: mem_db where
  "mem_db_open = \<lparr>files = cf_vec_make, user_types = cf_vec_make, typenames = cf_vec_make,
     members = cf_vec_make, type_uses = cf_vec_make, locs_type = cf_vec_make,
     locs_typename = cf_vec_make, locs_member = cf_vec_make, locs_type_use = cf_vec_make\<rparr>"

text \<open>
  \<open>mem_db_add_file\<close>: reserve, duplicate the path, commit; the handle is the new
  length (indices of file entries are 1-based). No search for an earlier entry is made.
\<close>

definition mem_db_add_file :: "heap \<Rightarrow> mem_db \<Rightarrow> string \<Rightarrow> u64 res \<times> mem_db \<times> heap" where
  "mem_db_add_file h db path =
     (case cf_vec_reserve h (files db) of
        (None, h1) \<Rightarrow> (Err ENOMEM, db, h1)
      | (Some fv, h1) \<Rightarrow>
          (case cf_str_dup h1 path of
             (Inl e, h2) \<Rightarrow> (Err e, db\<lparr>files := cf_vec_abort fv\<rparr>, h2)
           | (Inr file, h2) \<Rightarrow>
               (let fv' = cf_vec_commit fv file
                in (Ok (of_nat (cf_vec_len fv')), db\<lparr>files := fv'\<rparr>, h2))))"

text \<open>
  \<open>cf_vec_at\<close> asserts that the index is in range.
\<close>

definition cf_vec_at :: "'a cf_vec \<Rightarrow> nat \<Rightarrow> 'a option" where
  "cf_vec_at v i = (if i < length (items v) then Some (items v ! i) else None)"

text \<open>
  The loop of \<open>mem_db_typename_lookup\<close> from entry \<open>i\<close> on: the name is compared
  (length, then \<open>strncmp\<close>), then the file of the location at the same index. The kind
  of the entry is not read. On a match the index \<open>i\<close> of the typename entry is the
  output.
\<close>

function typename_lookup_loop ::
  "db_typename cf_vec \<Rightarrow> loc_ctx cf_vec \<Rightarrow> loc_ctx \<Rightarrow> db_typename \<Rightarrow> nat \<Rightarrow> u64 res" where
  "typename_lookup_loop tv lv loc name i =
     (if i < length (items tv) then
        (let entry = items tv ! i in
         if length (tn_name name) \<noteq> length (tn_name entry) then
           typename_lookup_loop tv lv loc name (Suc i)
         else if \<not> strncmp_eq (tn_name name) (tn_name entry) (length (tn_name entry)) then
           typename_lookup_loop tv lv loc name (Suc i)
         else
           (case cf_vec_at lv i of
              None \<Rightarrow> Panic
            | Some loc2 \<Rightarrow>
                if loc_file loc \<noteq> loc_file loc2 then
                  typename_lookup_loop tv lv loc name (Suc i)
                else Ok (of_nat i)))
      else Err ENOENT)"
  by pat_completeness auto
termination
  by (relation "measure (\<lambda>(tv, lv, loc, name, i). length (items tv) - i)") auto

declare typename_lookup_loop.simps [simp del]

definition mem_db_typename_lookup :: "mem_db \<Rightarrow> loc_ctx \<Rightarrow> db_typename \<Rightarrow> u64 res" where
  "mem_db_typename_lookup db loc name =
     (if cf_vec_len (typenames db) = 0 then Err ENOENT
      else typename_lookup_loop (typenames db) (locs_typename db) loc name 0)"

definition mem_db_type_insert ::
  "heap \<Rightarrow> mem_db \<Rightarrow> loc_ctx \<Rightarrow> db_type_entry \<Rightarrow> u64 res \<times> mem_db \<times> heap" where
  "mem_db_type_insert h db loc entry =
     (case cf_vec_reserve h (user_types db) of
        (None, h1) \<Rightarrow> (Err ENOMEM, db, h1)
      | (Some ev, h1) \<Rightarrow>
          (case cf_vec_reserve h1 (locs_type db) of
             (None, h2) \<Rightarrow> (Err ENOMEM, db\<lparr>user_types := cf_vec_abort ev\<rparr>, h2)
           | (Some lv, h2) \<Rightarrow>
               (let ev' = cf_vec_commit ev entry; lv' = cf_vec_commit lv loc
                in (Ok (of_nat (cf_vec_len ev')),
                    db\<lparr>user_types := ev', locs_type := lv'\<rparr>, h2))))"

definition mem_db_typename_insert ::
  "heap \<Rightarrow> mem_db \<Rightarrow> loc_ctx \<Rightarrow> db_typename \<Rightarrow> unit res \<times> mem_db \<times> heap" where
  "mem_db_typename_insert h db loc entry =
     (case cf_vec_reserve h (typenames db) of
        (None, h1) \<Rightarrow> (Err ENOMEM, db, h1)
      | (Some ev, h1) \<Rightarrow>
          (case cf_vec_reserve h1 (locs_typename db) of
             (None, h2) \<Rightarrow> (Err ENOMEM, db\<lparr>typenames := cf_vec_abort ev\<rparr>, h2)
           | (Some lv, h2) \<Rightarrow>
               (case cf_str_dup h2 (tn_name entry) of
                  (Inl e, h3) \<Rightarrow>
                    (Err e, db\<lparr>typenames := cf_vec_abort ev,
                                locs_typename := cf_vec_abort lv\<rparr>, h3)
                | (Inr nm, h3) \<Rightarrow>
                    (Ok (),
                     db\<lparr>typenames := cf_vec_commit ev
                           \<lparr>tn_kind = tn_kind entry, tn_base_type = tn_base_type entry,
                            tn_name = nm\<rparr>,
                        locs_typename := cf_vec_commit lv loc\<rparr>, h3))))"

definition unwritten_slot :: "heap \<Rightarrow> loc_ctx" where
  "unwritten_slot h =
     (case stale_loc h of (f, fn, s, l, c) \<Rightarrow>
        \<lparr>loc_file = f, loc_func = fn, loc_scope = s, loc_line = l, loc_column = c\<rparr>)"

text \<open>
  \<open>mem_db_member_insert\<close>. When the copy of the name fails, the label
  \<open>fail_copy\<close> calls \<open>loc_vec_commit\<close> (not \<open>loc_vec_abort\<close>) on the reserved
  location slot, whose bytes were never written.
\<close>

definition mem_db_member_insert ::
  "heap \<Rightarrow> mem_db \<Rightarrow> loc_ctx \<Rightarrow> db_member \<Rightarrow> unit res \<times> mem_db \<times> heap" where
  "mem_db_member_insert h db loc entry =
     (case cf_vec_reserve h (members db) of
        (None, h1) \<Rightarrow> (Err ENOMEM, db, h1)
      | (Some ev, h1) \<Rightarrow>
          (case cf_vec_reserve h1 (locs_member db) of
             (None, h2) \<Rightarrow> (Err ENOMEM, db\<lparr>members := cf_vec_abort ev\<rparr>, h2)
           | (Some lv, h2) \<Rightarrow>
               (case cf_str_dup h2 (mb_name entry) of
                  (Inl e, h3) \<Rightarrow>
                    (Err e, db\<lparr>members := cf_vec_abort ev,
                                locs_member := cf_vec_commit lv (unwritten_slot h3)\<rparr>, h3)
                | (Inr nm, h3) \<Rightarrow>
                    (Ok (),
                     db\<lparr>members := cf_vec_commit ev
                           \<lparr>mb_parent = mb_parent entry, mb_base_type = mb_base_type entry,
                            mb_name = nm\<rparr>,
                        locs_member := cf_vec_commit lv loc\<rparr>, h3))))"

definition mem_db_type_use_insert ::
  "heap \<Rightarrow> mem_db \<Rightarrow> loc_ctx \<Rightarrow> db_type_use \<Rightarrow> unit res \<times> mem_db \<times> heap" where
  "mem_db_type_use_insert h db loc entry =
     (case cf_vec_reserve h (type_uses db) of
        (None, h1) \<Rightarrow> (Err ENOMEM, db, h1)
      | (Some ev, h1) \<Rightarrow>
          (case cf_vec_reserve h1 (locs_type_use db) of
             (None, h2) \<Rightarrow> (Err ENOMEM, db\<lparr>type_uses := cf_vec_abort ev\<rparr>, h2)
           | (Some lv, h2) \<Rightarrow>
               (Ok (), db\<lparr>type_uses := cf_vec_commit ev entry,
                           locs_type_use := cf_vec_commit lv loc\<rparr>, h2)))"

text \<open>\<open>mem_db_type_lookup\<close>: the handle is 1-based; \<open>id - 1\<close> is computed in 64 bits.\<close>

definition mem_db_type_lookup :: "mem_db \<Rightarrow> u64 \<Rightarrow> (db_type_entry \<times> loc_ctx) res" where
  "mem_db_type_lookup db ident =
     (if ident = 0 then Panic
      else let index = unat (ident - 1) in
        if index \<ge> cf_vec_len (user_types db) then Err ENOENT
        else (case (cf_vec_at (user_types db) index, cf_vec_at (locs_type db) index) of
                (Some entry, Some loc) \<Rightarrow> Ok (entry, loc)
              | _ \<Rightarrow> Panic))"

text \<open>
  The typename iterator: the current index (a \<open>size_t\<close>, initially \<open>SIZE_MAX\<close>)
  and the key.
\<close>

record mem_db_typename_iter =
  it_i :: u64
  it_key :: string

definition mem_db_typename_find :: "mem_db \<Rightarrow> string \<Rightarrow> mem_db_typename_iter" where
  "mem_db_typename_find db name = \<lparr>it_i = - 1, it_key = name\<rparr>"

text \<open>
  The loop \<open>for (i = it->i + 1; i < vec_len; ++i)\<close> of
  \<open>mem_db_typename_iter_next\<close>, from index \<open>i\<close> on.
\<close>

function iter_next_loop :: "db_typename list \<Rightarrow> string \<Rightarrow> nat \<Rightarrow> nat option" where
  "iter_next_loop tns key i =
     (if i < length tns then
        (if length (tn_name (tns ! i)) \<noteq> length key then iter_next_loop tns key (Suc i)
         else if \<not> strncmp_eq key (tn_name (tns ! i)) (length key) then
           iter_next_loop tns key (Suc i)
         else Some i)
      else None)"
  by pat_completeness auto
termination
  by (relation "measure (\<lambda>(tns, key, i). length tns - i)") auto

declare iter_next_loop.simps [simp del]

definition mem_db_typename_iter_next ::
  "mem_db \<Rightarrow> mem_db_typename_iter \<Rightarrow> bool \<times> mem_db_typename_iter" where
  "mem_db_typename_iter_next db it =
     (case iter_next_loop (items (typenames db)) (it_key it) (unat (it_i it + 1)) of
        None \<Rightarrow> (False, it)
      | Some i \<Rightarrow> (True, it\<lparr>it_i := of_nat i\<rparr>))"

definition mem_db_typename_iter_peek ::
  "mem_db \<Rightarrow> mem_db_typename_iter \<Rightarrow> (db_typename \<times> loc_ctx) option" where
  "mem_db_typename_iter_peek db it =
     (case (cf_vec_at (typenames db) (unat (it_i it)),
            cf_vec_at (locs_typename db) (unat (it_i it))) of
        (Some entry, Some loc) \<Rightarrow> Some (entry, loc)
      | _ \<Rightarrow> None)"

section \<open>The relational engine as the store sees it\<close>

text \<open>
  The embedded SQL engine is an external collaborator. What the store relies on is
  modelled directly: a table is the list of its rows in insertion order, a row is the
  list of its column values, a \<open>SELECT ... WHERE\<close> yields the rows that satisfy the
  condition in table order, an \<open>INSERT\<close> appends one row, and a statement that has
  returned \<open>SQLITE_DONE\<close> keeps returning it. The engine itself is taken not to fail.
  Integers are 64-bit two's complement.
\<close>

datatype sql_val = SqlNull | SqlInt u64 | SqlText string

type_synonym sql_row = "sql_val list"

text \<open>
  Column order as in sql_schema.h:
  file_table (id, path); type_table (typeid, kind, complete, file, func, scope, line,
  column); typename (name, kind, base_type, file, func, scope, line, column);
  type_use (base_type, kind, file, line, column); members (parent, base_type, name, file,
  line, column).
\<close>

record sqlite3 =
  file_table :: "sql_row list"
  type_table :: "sql_row list"
  typename_table :: "sql_row list"
  type_use_table :: "sql_row list"
  member_table :: "sql_row list"

definition sql_col :: "sql_row \<Rightarrow> nat \<Rightarrow> sql_val" where
  "sql_col r i = (if i < length r then r ! i else SqlNull)"

text \<open>The SQL comparison \<open>==\<close>: never true on NULL.\<close>

definition sql_eq :: "sql_val \<Rightarrow> sql_val \<Rightarrow> bool" where
  "sql_eq a b = (a \<noteq> SqlNull \<and> b \<noteq> SqlNull \<and> a = b)"

definition ascii_lower :: "char \<Rightarrow> nat" where
  "ascii_lower c =
     (if 65 \<le> (of_char c :: nat) \<and> (of_char c :: nat) \<le> 90 then of_char c + 32 else of_char c)"

text \<open>
  The SQL operator \<open>LIKE\<close> (pattern first): \<open>%\<close> matches any run of characters,
  \<open>_\<close> one character, anything else itself, ASCII letters without regard to case.
\<close>

fun sql_like :: "string \<Rightarrow> string \<Rightarrow> bool" where
  "sql_like [] [] = True"
| "sql_like [] (c # cs) = False"
| "sql_like (p # ps) [] = (if of_char p = (37::nat) then sql_like ps [] else False)"
| "sql_like (p # ps) (c # cs) =
     (if of_char p = (37::nat) then (sql_like ps (c # cs) \<or> sql_like (p # ps) cs)
      else if of_char p = (95::nat) \<or> ascii_lower p = ascii_lower c then sql_like ps cs
      else False)"

text \<open>
  The row identifier the engine assigns to a row inserted with a NULL
  \<open>INTEGER PRIMARY KEY\<close>: one more than the largest in the table, 1 in an empty table.
\<close>

definition rowid_of :: "sql_row \<Rightarrow> u64" where
  "rowid_of r = (case sql_col r 0 of SqlInt i \<Rightarrow> i | _ \<Rightarrow> 0)"

definition max_rowid :: "sql_row list \<Rightarrow> u64" where
  "max_rowid rows = fold (\<lambda>r m. if m <s rowid_of r then rowid_of r else m) rows 0"

definition next_rowid :: "sql_row list \<Rightarrow> u64" where
  "next_rowid rows = max_rowid rows + 1"

section \<open>Typed binding and selection (sql_types.h, query_desc.h, sql_query.c)\<close>

datatype column_kind = column_null | column_uint32 | column_uint64 | column_str

text \<open>
  A \<open>column_val_t\<close> is a union: its integer members share the low bytes (little
  endian), so an integer value is one 64-bit word of which \<open>uint32_val\<close> reads the low
  32 bits; the string member is separate.
\<close>

datatype column_val = IntVal u64 | StrVal string

definition INT_MAX :: nat where "INT_MAX = 2147483647"
definition INT64_MAX :: nat where "INT64_MAX = 9223372036854775807"

definition uint32_val :: "column_val \<Rightarrow> u32" where
  "uint32_val v = (case v of IntVal w \<Rightarrow> ucast w | StrVal s \<Rightarrow> 0)"

definition uint64_val :: "column_val \<Rightarrow> u64" where
  "uint64_val v = (case v of IntVal w \<Rightarrow> w | StrVal s \<Rightarrow> 0)"

definition str_val :: "column_val \<Rightarrow> string" where
  "str_val v = (case v of StrVal s \<Rightarrow> s | IntVal w \<Rightarrow> [])"

text \<open>
  \<open>bind_one_column\<close>. A \<open>cf_str_t\<close> of length 0 made by \<open>cf_str_dup\<close> has a
  NULL data pointer, which \<open>sqlite3_bind_text\<close> binds as SQL NULL.
\<close>

definition bind_one_column :: "column_kind \<Rightarrow> column_val \<Rightarrow> errno + sql_val" where
  "bind_one_column kind val =
     (case kind of
        column_null \<Rightarrow> Inr SqlNull
      | column_uint32 \<Rightarrow>
          (if unat (uint32_val val) > INT_MAX then Inl ERANGE
           else Inr (SqlInt (ucast (uint32_val val))))
      | column_uint64 \<Rightarrow>
          (if unat (uint64_val val) > INT64_MAX then Inl ERANGE
           else Inr (SqlInt (uint64_val val)))
      | column_str \<Rightarrow>
          (if str_val val = [] then Inr SqlNull else Inr (SqlText (str_val val))))"

text \<open>\<open>bind_serial_row\<close>: column by column, stopping at the first error.\<close>

fun bind_serial_row :: "column_kind list \<Rightarrow> column_val list \<Rightarrow> errno + sql_row" where
  "bind_serial_row (k # ks) (v # vs) =
     (case bind_one_column k v of
        Inl e \<Rightarrow> Inl e
      | Inr x \<Rightarrow> (case bind_serial_row ks vs of Inl e \<Rightarrow> Inl e | Inr xs \<Rightarrow> Inr (x # xs)))"
| "bind_serial_row ks vs = Inr []"

datatype log_event = LogCorrupt | LogErr | LogInfo

text \<open>
  \<open>select_one_column\<close>: the engine's column type must be the expected one; integers
  are converted even when negative (a corrupt message is printed); a text of no bytes
  becomes the null string. \<open>sqlite3_column_int\<close> yields the low 32 bits.
\<close>

definition select_one_column ::
  "column_kind \<Rightarrow> sql_val \<Rightarrow> (errno + column_val) \<times> log_event list" where
  "select_one_column expected v =
     (case (expected, v) of
        (column_null, SqlNull) \<Rightarrow> (Inr (IntVal 1), [])
      | (column_uint32, SqlInt i) \<Rightarrow>
          (Inr (IntVal (ucast (ucast i :: u32))),
           if (ucast i :: u32) <s 0 then [LogCorrupt] else [])
      | (column_uint64, SqlInt i) \<Rightarrow>
          (Inr (IntVal i), if i <s 0 then [LogCorrupt] else [])
      | (column_str, SqlText s) \<Rightarrow>
          (if length s = 0 then (Inr (StrVal []), [LogCorrupt]) else (Inr (StrVal s), [LogInfo]))
      | _ \<Rightarrow> (Inl EILSEQ, [LogCorrupt]))"

text \<open>The loop of \<open>select_serial_row\<close> over the output columns.\<close>

fun select_columns ::
  "column_kind list \<Rightarrow> sql_row \<Rightarrow> (errno + column_val list) \<times> log_event list" where
  "select_columns (k # ks) (v # vs) =
     (case select_one_column k v of
        (Inl e, l) \<Rightarrow> (Inl e, l @ [LogErr])
      | (Inr x, l) \<Rightarrow>
          (case select_columns ks vs of
             (Inl e, l') \<Rightarrow> (Inl e, l @ l')
           | (Inr xs, l') \<Rightarrow> (Inr (x # xs), l @ l')))"
| "select_columns ks vs = (Inr [], [])"

definition select_serial_row ::
  "column_kind list \<Rightarrow> sql_row \<Rightarrow> (errno + column_val list) \<times> log_event list" where
  "select_serial_row kinds row =
     (if length row = 0 \<or> length row \<noteq> length kinds then (Inl EILSEQ, [LogErr])
      else select_columns kinds row)"

text \<open>
  \<open>lookup_one_row\<close>: one step of the statement (\<open>ENOENT\<close> when it has no row), then
  the first row is deserialised; further rows are not looked at.
\<close>

definition lookup_one_row :: "column_kind list \<Rightarrow> sql_row list \<Rightarrow> errno + column_val list" where
  "lookup_one_row kinds result =
     (case result of
        [] \<Rightarrow> Inl ENOENT
      | row # _ \<Rightarrow> fst (select_serial_row kinds row))"

definition nth_val :: "column_val list \<Rightarrow> nat \<Rightarrow> column_val" where
  "nth_val vs i = (if i < length vs then vs ! i else IntVal 0)"

section \<open>Queries (query_desc.h, sql_query.c)\<close>

text \<open>
  \<open>lookup_file\<close>: \<open>SELECT id FROM file_table WHERE path == ?1\<close>, first row.
  \<open>cf_assert(len)\<close> traps on an empty path.
\<close>

definition lookup_file :: "sqlite3 \<Rightarrow> string \<Rightarrow> u64 res" where
  "lookup_file db path =
     (if length path = 0 then Panic
      else case bind_serial_row [column_str] [StrVal path] of
        Inl e \<Rightarrow> Err e
      | Inr bound \<Rightarrow>
          (case lookup_one_row [column_uint64]
                  (map (\<lambda>r. [sql_col r 0])
                     (filter (\<lambda>r. sql_eq (sql_col r 1) (sql_col bound 0)) (file_table db))) of
             Inl e \<Rightarrow> Err e
           | Inr vals \<Rightarrow> Ok (uint64_val (nth_val vals 0))))"

text \<open>
  \<open>insert_file\<close>: \<open>INSERT INTO file_table (id, path) VALUES (NULL, ?2)\<close>; the new
  row identifier is asserted positive.
\<close>

definition insert_file :: "sqlite3 \<Rightarrow> string \<Rightarrow> u64 res \<times> sqlite3" where
  "insert_file db path =
     (if length path = 0 then (Panic, db)
      else case bind_serial_row [column_null, column_str] [IntVal 1, StrVal path] of
        Inl e \<Rightarrow> (Err e, db)
      | Inr bound \<Rightarrow>
          (let rowid = next_rowid (file_table db);
               db' = db\<lparr>file_table := file_table db @ [[SqlInt rowid, sql_col bound 1]]\<rparr>
           in if 0 <s rowid then (Ok rowid, db') else (Panic, db')))"

definition loc_cols8 :: "loc_ctx \<Rightarrow> column_val list" where
  "loc_cols8 loc = [IntVal (loc_file loc), IntVal (loc_func loc), IntVal (ucast (loc_scope loc)),
     IntVal (ucast (loc_line loc)), IntVal (ucast (loc_column loc))]"

text \<open>\<open>insert_complete_type\<close> with the column kinds of \<open>type_insert_query\<close>.\<close>

definition insert_complete_type ::
  "sqlite3 \<Rightarrow> loc_ctx \<Rightarrow> db_type_entry \<Rightarrow> u64 res \<times> sqlite3" where
  "insert_complete_type db loc entry =
     (case bind_serial_row
             [column_null, column_uint32, column_uint32, column_uint64, column_uint64,
              column_uint32, column_uint32, column_uint32]
             ([IntVal 1, IntVal (ucast (te_kind entry)),
               IntVal (if te_complete entry then 1 else 0)] @ loc_cols8 loc) of
        Inl e \<Rightarrow> (Err e, db)
      | Inr bound \<Rightarrow>
          (let rowid = next_rowid (type_table db);
               db' = db\<lparr>type_table := type_table db @ [SqlInt rowid # tl bound]\<rparr>
           in if 0 <s rowid then (Ok rowid, db') else (Panic, db')))"

text \<open>
  \<open>insert_typename\<close>. \<open>typename_insert_query\<close> declares the third placeholder
  (\<open>base_type\<close>) as \<open>column_uint32\<close> while \<open>bind_typename_insert\<close> stores it through
  \<open>uint64_val\<close>: the low 32 bits are bound.
\<close>

definition insert_typename :: "sqlite3 \<Rightarrow> loc_ctx \<Rightarrow> db_typename \<Rightarrow> unit res \<times> sqlite3" where
  "insert_typename db loc name =
     (case bind_serial_row
             [column_str, column_uint32, column_uint32, column_uint64, column_uint64,
              column_uint32, column_uint32, column_uint32]
             ([StrVal (tn_name name), IntVal (ucast (tn_kind name)),
               IntVal (tn_base_type name)] @ loc_cols8 loc) of
        Inl e \<Rightarrow> (Err e, db)
      | Inr bound \<Rightarrow> (Ok (), db\<lparr>typename_table := typename_table db @ [bound]\<rparr>))"

definition insert_type_use :: "sqlite3 \<Rightarrow> loc_ctx \<Rightarrow> db_type_use \<Rightarrow> unit res \<times> sqlite3" where
  "insert_type_use db loc entry =
     (case bind_serial_row
             [column_uint64, column_uint32, column_uint64, column_uint32, column_uint32]
             [IntVal (tu_base_type entry), IntVal (ucast (tu_kind entry)), IntVal (loc_file loc),
              IntVal (ucast (loc_line loc)), IntVal (ucast (loc_column loc))] of
        Inl e \<Rightarrow> (Err e, db)
      | Inr bound \<Rightarrow> (Ok (), db\<lparr>type_use_table := type_use_table db @ [bound]\<rparr>))"

definition insert_member :: "sqlite3 \<Rightarrow> loc_ctx \<Rightarrow> db_member \<Rightarrow> unit res \<times> sqlite3" where
  "insert_member db loc entry =
     (case bind_serial_row
             [column_uint64, column_uint64, column_str, column_uint64, column_uint32,
              column_uint32]
             [IntVal (mb_parent entry), IntVal (mb_base_type entry), StrVal (mb_name entry),
              IntVal (loc_file loc), IntVal (ucast (loc_line loc)),
              IntVal (ucast (loc_column loc))] of
        Inl e \<Rightarrow> (Err e, db)
      | Inr bound \<Rightarrow> (Ok (), db\<lparr>member_table := member_table db @ [bound]\<rparr>))"

text \<open>
  \<open>lookup_typename\<close>:
  \<open>SELECT base_type,kind FROM typename WHERE (file == ?1) AND (name == ?2) AND (scope == 0)\<close>.
  Only the first row of the result is read; its kind is then compared with the kind
  asked for, and a difference is \<open>ENOENT\<close>.
\<close>

definition lookup_typename :: "sqlite3 \<Rightarrow> loc_ctx \<Rightarrow> db_typename \<Rightarrow> u64 res" where
  "lookup_typename db loc name =
     (case bind_serial_row [column_uint64, column_str]
             [IntVal (loc_file loc), StrVal (tn_name name)] of
        Inl e \<Rightarrow> Err e
      | Inr bound \<Rightarrow>
          (case lookup_one_row [column_uint64, column_uint32]
                  (map (\<lambda>r. [sql_col r 2, sql_col r 1])
                     (filter (\<lambda>r. sql_eq (sql_col r 3) (sql_col bound 0)
                                  \<and> sql_eq (sql_col r 0) (sql_col bound 1)
                                  \<and> sql_eq (sql_col r 5) (SqlInt 0))
                        (typename_table db))) of
             Inl e \<Rightarrow> Err e
           | Inr vals \<Rightarrow>
               (if uint32_val (nth_val vals 1) \<noteq> tn_kind name then Err ENOENT
                else Ok (uint64_val (nth_val vals 0)))))"

text \<open>
  The prepared statement of \<open>find_typenames\<close>,
  \<open>SELECT name, kind, base_type, file, func, scope, line, column FROM typename
  WHERE (name LIKE ?1)\<close>: the value bound to \<open>?1\<close> and, while the statement is
  being stepped through, the rows it has yet to return. \<open>st_pending = None\<close> is a
  statement that is not running: it was just prepared, or its last step returned
  \<open>SQLITE_DONE\<close>.
\<close>

record sqlite3_stmt =
  st_pattern :: sql_val
  st_pending :: "sql_row list option"

definition run_find_typenames :: "sqlite3 \<Rightarrow> sql_val \<Rightarrow> sql_row list" where
  "run_find_typenames db pat =
     filter (\<lambda>r. case (pat, sql_col r 0) of
                   (SqlText p, SqlText nm) \<Rightarrow> sql_like p nm
                 | _ \<Rightarrow> False)
       (typename_table db)"

text \<open>\<open>find_typenames\<close> prepares the statement and binds the name; it does not step.\<close>

definition find_typenames :: "sqlite3 \<Rightarrow> string \<Rightarrow> sqlite3_stmt res" where
  "find_typenames db name =
     (case bind_serial_row [column_str] [StrVal name] of
        Inl e \<Rightarrow> Err e
      | Inr bound \<Rightarrow> Ok \<lparr>st_pattern = sql_col bound 0, st_pending = None\<rparr>)"

text \<open>
  \<open>sqlite3_step\<close> on that statement. A statement that is not running is run: the
  query is evaluated on the table as it is now. This includes the statement whose last
  step returned \<open>SQLITE_DONE\<close>: the library resets it by itself and runs it again
  (the code calls neither \<open>sqlite3_reset\<close> nor keeps a flag). The engine itself
  does not fail here.
\<close>

datatype step_result = SQLITE_ROW sql_row | SQLITE_DONE

definition stmt_rows :: "sqlite3 \<Rightarrow> sqlite3_stmt \<Rightarrow> sql_row list" where
  "stmt_rows db st =
     (case st_pending st of
        None \<Rightarrow> run_find_typenames db (st_pattern st)
      | Some rows \<Rightarrow> rows)"

definition sqlite3_step :: "sqlite3 \<Rightarrow> sqlite3_stmt \<Rightarrow> step_result \<times> sqlite3_stmt" where
  "sqlite3_step db st =
     (case stmt_rows db st of
        [] \<Rightarrow> (SQLITE_DONE, st\<lparr>st_pending := None\<rparr>)
      | row # rest \<Rightarrow> (SQLITE_ROW row, st\<lparr>st_pending := Some rest\<rparr>))"

text \<open>
  \<open>exec_find_typename_query\<close>: deserialise the current row. The final assertion
  (the name must be a borrowed string) traps when the name column was an empty text,
  which \<open>select_one_column\<close> turns into the null string.
\<close>

definition exec_find_typename_query ::
  "sql_row \<Rightarrow> (db_typename \<times> loc_ctx) res \<times> log_event list" where
  "exec_find_typename_query row =
     (case select_serial_row
             [column_str, column_uint32, column_uint64, column_uint64, column_uint64,
              column_uint32, column_uint32, column_uint32] row of
        (Inl e, l) \<Rightarrow> (Err e, l)
      | (Inr vals, l) \<Rightarrow>
          (if str_val (nth_val vals 0) = [] then (Panic, l)
           else (Ok (\<lparr>tn_kind = uint32_val (nth_val vals 1),
                       tn_base_type = uint64_val (nth_val vals 2),
                       tn_name = str_val (nth_val vals 0)\<rparr>,
                     \<lparr>loc_file = uint64_val (nth_val vals 3),
                       loc_func = uint64_val (nth_val vals 4),
                       loc_scope = uint32_val (nth_val vals 5),
                       loc_line = uint32_val (nth_val vals 6),
                       loc_column = uint32_val (nth_val vals 7)\<rparr>), l)))"

section \<open>On-disk store (sql_db.c)\<close>

text \<open>
  The file system calls of \<open>sql_db_add_file\<close>: \<open>realpath(3)\<close> (its result, a
  NUL-terminated string) and \<open>access(path, F_OK)\<close> (the error, if any).
\<close>

record filesys =
  fs_realpath :: "string \<Rightarrow> errno + string"
  fs_access :: "string \<Rightarrow> errno option"

record sqlite_db =
  sql :: sqlite3
  readonly :: bool
  buf_len :: nat

definition c_string :: "string \<Rightarrow> string" where
  "c_string bytes = takeWhile (\<lambda>c. of_char c \<noteq> (0::nat)) bytes"

definition clean_path :: "filesys \<Rightarrow> sqlite_db \<Rightarrow> string \<Rightarrow> errno + string" where
  "clean_path fs db path_in =
     (if length path_in \<ge> buf_len db then Inl ERANGE
      else fs_realpath fs (c_string path_in))"

definition sql_db_add_file ::
  "filesys \<Rightarrow> sqlite_db \<Rightarrow> string \<Rightarrow> u64 res \<times> sqlite_db" where
  "sql_db_add_file fs db path_in =
     (if \<not> length path_in < INT_MAX then (Panic, db)
      else if readonly db then (Err EACCES, db)
      else case clean_path fs db path_in of
        Inl e \<Rightarrow> (Err e, db)
      | Inr cleaned \<Rightarrow>
          (let path = take (buf_len db) (c_string cleaned) in
           case fs_access fs (c_string cleaned) of
             Some e \<Rightarrow> (Err e, db)
           | None \<Rightarrow>
               (case lookup_file (sql db) path of
                  Ok rowid \<Rightarrow> (Ok rowid, db)
                | Panic \<Rightarrow> (Panic, db)
                | Err e \<Rightarrow>
                    (if e \<noteq> ENOENT then (Err e, db)
                     else case insert_file (sql db) path of
                       (r, s') \<Rightarrow> (r, db\<lparr>sql := s'\<rparr>)))))"

definition sql_db_typename_lookup :: "sqlite_db \<Rightarrow> loc_ctx \<Rightarrow> db_typename \<Rightarrow> u64 res" where
  "sql_db_typename_lookup db loc name =
     (if tn_name name = [] then Panic else lookup_typename (sql db) loc name)"

definition sql_db_type_insert ::
  "sqlite_db \<Rightarrow> loc_ctx \<Rightarrow> db_type_entry \<Rightarrow> u64 res \<times> sqlite_db" where
  "sql_db_type_insert db loc entry =
     (if \<not> te_complete entry then (Panic, db)
      else if readonly db then (Err EACCES, db)
      else case insert_complete_type (sql db) loc entry of (r, s') \<Rightarrow> (r, db\<lparr>sql := s'\<rparr>))"

definition sql_db_typename_insert ::
  "sqlite_db \<Rightarrow> loc_ctx \<Rightarrow> db_typename \<Rightarrow> unit res \<times> sqlite_db" where
  "sql_db_typename_insert db loc entry =
     (if readonly db then (Err EACCES, db)
      else case insert_typename (sql db) loc entry of (r, s') \<Rightarrow> (r, db\<lparr>sql := s'\<rparr>))"

definition sql_db_type_use_insert ::
  "sqlite_db \<Rightarrow> loc_ctx \<Rightarrow> db_type_use \<Rightarrow> unit res \<times> sqlite_db" where
  "sql_db_type_use_insert db loc entry =
     (if readonly db then (Err EACCES, db)
      else case insert_type_use (sql db) loc entry of (r, s') \<Rightarrow> (r, db\<lparr>sql := s'\<rparr>))"

definition sql_db_member_insert ::
  "sqlite_db \<Rightarrow> loc_ctx \<Rightarrow> db_member \<Rightarrow> unit res \<times> sqlite_db" where
  "sql_db_member_insert db loc entry =
     (if readonly db then (Err EACCES, db)
      else case insert_member (sql db) loc entry of (r, s') \<Rightarrow> (r, db\<lparr>sql := s'\<rparr>))"

text \<open>The typename iterator of the on-disk store.\<close>

record sqlite_db_typename_iter =
  stmt :: sqlite3_stmt
  cur_name :: db_typename
  cur_loc :: loc_ctx

definition zero_typename :: db_typename where
  "zero_typename = \<lparr>tn_kind = 0, tn_base_type = 0, tn_name = []\<rparr>"

definition zero_loc :: loc_ctx where
  "zero_loc = \<lparr>loc_file = 0, loc_func = 0, loc_scope = 0, loc_line = 0, loc_column = 0\<rparr>"

definition sql_db_typename_find :: "sqlite_db \<Rightarrow> string \<Rightarrow> sqlite_db_typename_iter res" where
  "sql_db_typename_find db name =
     (case find_typenames (sql db) name of
        Ok st \<Rightarrow> Ok \<lparr>stmt = st, cur_name = zero_typename, cur_loc = zero_loc\<rparr>
      | Err e \<Rightarrow> Err e
      | Panic \<Rightarrow> Panic)"

definition sanitize_typename_kind :: "u32 \<Rightarrow> bool" where
  "sanitize_typename_kind kind =
     (kind = name_kind_direct \<or> kind = name_kind_typedef \<or> kind = name_kind_var)"

definition sanitize_rowid :: "u64 \<Rightarrow> bool" where
  "sanitize_rowid rowid = (0 <s rowid \<and> rowid <s 0x7FFFFFFFFFFFFFFF)"

definition sanitize_typename :: "db_typename \<Rightarrow> bool \<times> log_event list" where
  "sanitize_typename name =
     (if \<not> sanitize_typename_kind (tn_kind name) then (False, [LogInfo])
      else if \<not> sanitize_rowid (tn_base_type name) then (False, [LogInfo])
      else if tn_name name = [] then (False, [LogInfo])
      else (True, []))"

text \<open>
  \<open>sql_db_typename_iter_next\<close>: one step of the statement (\<open>query_step_one\<close>
  maps \<open>SQLITE_DONE\<close> to \<open>ENOENT\<close>); a statement that is done, a row that cannot
  be deserialised and a row that fails sanitisation all end in \<open>return false\<close>.
  \<open>None\<close> is the trap of the assertion in \<open>exec_find_typename_query\<close>. The
  statement belongs to the connection of the store the cursor was made on.
\<close>

definition sql_db_typename_iter_next ::
  "sqlite_db \<Rightarrow> sqlite_db_typename_iter
     \<Rightarrow> (bool \<times> sqlite_db_typename_iter \<times> log_event list) option" where
  "sql_db_typename_iter_next db it =
     (case sqlite3_step (sql db) (stmt it) of
        (SQLITE_DONE, st') \<Rightarrow> Some (False, it\<lparr>stmt := st'\<rparr>, [LogInfo])
      | (SQLITE_ROW row, st') \<Rightarrow>
          (case exec_find_typename_query row of
             (Panic, l) \<Rightarrow> None
           | (Err e, l) \<Rightarrow> Some (False, it\<lparr>stmt := st'\<rparr>, l @ [LogErr])
           | (Ok (name, loc), l) \<Rightarrow>
               (let it' = it\<lparr>stmt := st', cur_name := name, cur_loc := loc\<rparr> in
                case sanitize_typename name of
                  (False, l') \<Rightarrow> Some (False, it', l @ l' @ [LogCorrupt])
                | (True, l') \<Rightarrow> Some (True, it', l @ l'))))"

definition sql_db_typename_iter_peek :: "sqlite_db_typename_iter \<Rightarrow> db_typename \<times> loc_ctx" where
  "sql_db_typename_iter_peek it = (cur_name it, cur_loc it)"

section \<open>No-op store (nop_db.c)\<close>

record nop_db =
  file_id :: u64
  type_id :: u64

definition nop_db_add_file :: "nop_db \<Rightarrow> u64 res \<times> nop_db" where
  "nop_db_add_file db = (Ok (file_id db + 1), db\<lparr>file_id := file_id db + 1\<rparr>)"

definition nop_db_type_insert :: "nop_db \<Rightarrow> u64 res \<times> nop_db" where
  "nop_db_type_insert db = (Ok (type_id db + 1), db\<lparr>type_id := type_id db + 1\<rparr>)"

section \<open>Store interface (cf_db.c)\<close>

datatype cf_db = db_kind_nop nop_db | db_kind_mem mem_db | db_kind_sql sqlite_db

definition cf_db_add_file ::
  "filesys \<Rightarrow> heap \<Rightarrow> cf_db \<Rightarrow> string \<Rightarrow> u64 res \<times> cf_db \<times> heap" where
  "cf_db_add_file fs h db path =
     (case db of
        db_kind_nop d \<Rightarrow> (case nop_db_add_file d of (r, d') \<Rightarrow> (r, db_kind_nop d', h))
      | db_kind_mem d \<Rightarrow>
          (case mem_db_add_file h d path of (r, d', h') \<Rightarrow> (r, db_kind_mem d', h'))
      | db_kind_sql d \<Rightarrow>
          (case sql_db_add_file fs d path of (r, d') \<Rightarrow> (r, db_kind_sql d', h)))"

definition cf_db_typename_lookup :: "cf_db \<Rightarrow> loc_ctx \<Rightarrow> db_typename \<Rightarrow> u64 res" where
  "cf_db_typename_lookup db loc name =
     (case db of
        db_kind_nop d \<Rightarrow> Err ENOENT
      | db_kind_mem d \<Rightarrow> mem_db_typename_lookup d loc name
      | db_kind_sql d \<Rightarrow> sql_db_typename_lookup d loc name)"

definition cf_db_type_insert ::
  "heap \<Rightarrow> cf_db \<Rightarrow> loc_ctx \<Rightarrow> db_type_entry \<Rightarrow> u64 res \<times> cf_db \<times> heap" where
  "cf_db_type_insert h db loc entry =
     (case db of
        db_kind_nop d \<Rightarrow> (case nop_db_type_insert d of (r, d') \<Rightarrow> (r, db_kind_nop d', h))
      | db_kind_mem d \<Rightarrow>
          (case mem_db_type_insert h d loc entry of (r, d', h') \<Rightarrow> (r, db_kind_mem d', h'))
      | db_kind_sql d \<Rightarrow>
          (case sql_db_type_insert d loc entry of (r, d') \<Rightarrow> (r, db_kind_sql d', h)))"

definition cf_db_typename_insert ::
  "heap \<Rightarrow> cf_db \<Rightarrow> loc_ctx \<Rightarrow> db_typename \<Rightarrow> unit res \<times> cf_db \<times> heap" where
  "cf_db_typename_insert h db loc entry =
     (case db of
        db_kind_nop d \<Rightarrow> (Ok (), db, h)
      | db_kind_mem d \<Rightarrow>
          (case mem_db_typename_insert h d loc entry of (r, d', h') \<Rightarrow> (r, db_kind_mem d', h'))
      | db_kind_sql d \<Rightarrow>
          (case sql_db_typename_insert d loc entry of (r, d') \<Rightarrow> (r, db_kind_sql d', h)))"

definition cf_db_member_insert ::
  "heap \<Rightarrow> cf_db \<Rightarrow> loc_ctx \<Rightarrow> db_member \<Rightarrow> unit res \<times> cf_db \<times> heap" where
  "cf_db_member_insert h db loc entry =
     (case db of
        db_kind_nop d \<Rightarrow> (Ok (), db, h)
      | db_kind_mem d \<Rightarrow>
          (case mem_db_member_insert h d loc entry of (r, d', h') \<Rightarrow> (r, db_kind_mem d', h'))
      | db_kind_sql d \<Rightarrow>
          (case sql_db_member_insert d loc entry of (r, d') \<Rightarrow> (r, db_kind_sql d', h)))"

definition cf_db_type_use_insert ::
  "heap \<Rightarrow> cf_db \<Rightarrow> loc_ctx \<Rightarrow> db_type_use \<Rightarrow> unit res \<times> cf_db \<times> heap" where
  "cf_db_type_use_insert h db loc entry =
     (case db of
        db_kind_nop d \<Rightarrow> (Ok (), db, h)
      | db_kind_mem d \<Rightarrow>
          (case mem_db_type_use_insert h d loc entry of (r, d', h') \<Rightarrow> (r, db_kind_mem d', h'))
      | db_kind_sql d \<Rightarrow>
          (case sql_db_type_use_insert d loc entry of (r, d') \<Rightarrow> (r, db_kind_sql d', h)))"

text \<open>
  \<open>db_typename_iter_t\<close>: the backend's iterator; the parent store is passed along
  with it. The iterator functions of the no-op store trap.
\<close>

datatype db_typename_iter = iter_mem mem_db_typename_iter | iter_sql sqlite_db_typename_iter

definition cf_db_typename_find :: "cf_db \<Rightarrow> string \<Rightarrow> db_typename_iter res" where
  "cf_db_typename_find db name =
     (case db of
        db_kind_nop d \<Rightarrow> Err ENOTSUP
      | db_kind_mem d \<Rightarrow> Ok (iter_mem (mem_db_typename_find d name))
      | db_kind_sql d \<Rightarrow>
          (case sql_db_typename_find d name of
             Ok it \<Rightarrow> Ok (iter_sql it) | Err e \<Rightarrow> Err e | Panic \<Rightarrow> Panic))"

definition db_typename_iter_next ::
  "cf_db \<Rightarrow> db_typename_iter \<Rightarrow> (bool \<times> db_typename_iter) option" where
  "db_typename_iter_next db it =
     (case (db, it) of
        (db_kind_mem d, iter_mem i) \<Rightarrow>
          (case mem_db_typename_iter_next d i of (b, i') \<Rightarrow> Some (b, iter_mem i'))
      | (db_kind_sql d, iter_sql i) \<Rightarrow>
          (case sql_db_typename_iter_next d i of
             None \<Rightarrow> None
           | Some (b, i', l) \<Rightarrow> Some (b, iter_sql i'))
      | _ \<Rightarrow> None)"

definition db_typename_iter_peek ::
  "cf_db \<Rightarrow> db_typename_iter \<Rightarrow> (db_typename \<times> loc_ctx) option" where
  "db_typename_iter_peek db it =
     (case (db, it) of
        (db_kind_mem d, iter_mem i) \<Rightarrow> mem_db_typename_iter_peek d i
      | (db_kind_sql d, iter_sql i) \<Rightarrow> Some (sql_db_typename_iter_peek i)
      | _ \<Rightarrow> None)"

section \<open>Query executor: resolving a plain name (search.c)\<close>

text \<open>
  The loop \<open>while (db_typename_iter_next(&iter))\<close> of \<open>find_one_type\<close> over the
  remaining entries. \<open>fuel\<close> bounds the number of \<open>next\<close> calls; \<open>None\<close> is
  "fuel used up" . A trap is \<open>Some Panic\<close>.
\<close>

fun find_one_type_loop ::
  "nat \<Rightarrow> cf_db \<Rightarrow> db_typename_iter \<Rightarrow> u64 \<Rightarrow> (u64 res) option" where
  "find_one_type_loop 0 db it ident = None"
| "find_one_type_loop (Suc fuel) db it ident =
     (case db_typename_iter_next db it of
        None \<Rightarrow> Some Panic
      | Some (False, it') \<Rightarrow> Some (Ok ident)
      | Some (True, it') \<Rightarrow>
          (case db_typename_iter_peek db it' of
             None \<Rightarrow> Some Panic
           | Some (entry, loc) \<Rightarrow>
               if tn_base_type entry \<noteq> ident then Some (Err EMLINK)
               else find_one_type_loop fuel db it' ident))"

text \<open>
  \<open>find_one_type\<close> for a plain name (\<open>name->kind == name_none\<close>; an elaborated
  name is handed to \<open>find_elab_type\<close> before anything else is done).
\<close>

definition find_one_type :: "nat \<Rightarrow> cf_db \<Rightarrow> string \<Rightarrow> (u64 res) option" where
  "find_one_type fuel db name =
     (case cf_db_typename_find db name of
        Err e \<Rightarrow> Some (Err e)
      | Panic \<Rightarrow> Some Panic
      | Ok it \<Rightarrow>
          (case db_typename_iter_next db it of
             None \<Rightarrow> Some Panic
           | Some (False, it') \<Rightarrow> Some (Err ENOENT)
           | Some (True, it') \<Rightarrow>
               (case db_typename_iter_peek db it' of
                  None \<Rightarrow> Some Panic
                | Some (entry, loc) \<Rightarrow> find_one_type_loop fuel db it' (tn_base_type entry))))"

section \<open>The compiler front-end as the indexer sees it\<close>

text \<open>
  The C front-end is an external collaborator; the indexer reads a cursor through the
  accessor functions below. A \<open>CXType\<close> is its kind, the kind of its canonical type
  and the pointer identifying the canonical type (\<open>clang::Type *\<close>), with the flag
  "alignment query reports an incomplete type".
\<close>

datatype cursor_kind =
    CXCursor_StructDecl | CXCursor_UnionDecl | CXCursor_EnumDecl | CXCursor_TypedefDecl
  | CXCursor_VarDecl | CXCursor_FieldDecl | CXCursor_FunctionDecl
  | CXCursor_EnumConstantDecl | CXCursor_UnexposedDecl | CXCursor_MemberRefExpr
  | CXCursor_OtherKind

datatype cxtype_kind = CXType_Invalid | CXType_Record | CXType_Enum | CXType_OtherKind

record cxtype =
  ty_kind :: cxtype_kind
  ty_canon_kind :: cxtype_kind
  ty_canon_id :: u64
  ty_incomplete :: bool

text \<open>
  A \<open>CXCursor\<close>: the identity of the node (\<open>clang_equalCursors\<close> compares
  cursors), its kind, \<open>clang_getCursorType\<close>, \<open>clang_getTypedefDeclUnderlyingType\<close>,
  \<open>clang_getCursorSpelling\<close> (also the typedef name of a typedef declaration),
  \<open>clang_Cursor_isAnonymousRecordDecl\<close>, the text \<open>clang_getCursorPrettyPrinted\<close>
  gives under the policy of \<open>get_struct_name_kind\<close>, and the expansion location of the
  start of its extent.
\<close>

record cxcursor =
  c_id :: nat
  c_kind :: cursor_kind
  c_type :: cxtype
  c_underlying :: cxtype
  c_spelling :: string
  c_anonymous :: bool
  c_pretty :: string
  c_file :: u64
  c_line :: u32
  c_column :: u32

datatype ast = Node cxcursor "ast list"

definition clang_getCanonicalType :: "cxtype \<Rightarrow> cxtype" where
  "clang_getCanonicalType ct = ct\<lparr>ty_kind := ty_canon_kind ct\<rparr>"

datatype visit_result = CXChildVisit_Break | CXChildVisit_Continue | CXChildVisit_Recurse

text \<open>
  \<open>clang_visitChildren\<close> over the children \<open>cs\<close> of \<open>parent\<close>: the visitor is
  called on each child in order; \<open>Recurse\<close> visits the child's children before its
  next sibling, \<open>Break\<close> ends the traversal. The result says whether the traversal
  was broken off; \<open>None\<close> is a trap inside the visitor.
\<close>

fun clang_visitChildren ::
  "(ast \<Rightarrow> cxcursor \<Rightarrow> 's \<Rightarrow> (visit_result \<times> 's) option) \<Rightarrow> cxcursor \<Rightarrow> ast list \<Rightarrow> 's
     \<Rightarrow> (bool \<times> 's) option" where
  "clang_visitChildren visitor parent [] s = Some (False, s)"
| "clang_visitChildren visitor parent (Node c kids # rest) s =
     (case visitor (Node c kids) parent s of
        None \<Rightarrow> None
      | Some (CXChildVisit_Break, s') \<Rightarrow> Some (True, s')
      | Some (CXChildVisit_Continue, s') \<Rightarrow> clang_visitChildren visitor parent rest s'
      | Some (CXChildVisit_Recurse, s') \<Rightarrow>
          (case clang_visitChildren visitor c kids s' of
             None \<Rightarrow> None
           | Some (True, s'') \<Rightarrow> Some (True, s'')
           | Some (False, s'') \<Rightarrow> clang_visitChildren visitor parent rest s''))"

section \<open>Indexer state (index_types.h, cf_map.c)\<close>

text \<open>
  A \<open>cf_map8_t\<close> is a vector of key/value pairs; lookup and removal act on the first
  entry with the key, insertion appends. The vectors the indexer keeps for itself (maps,
  cursor stacks, the staged records) are lists here: the indexer does not recover from an
  allocation failure in them. A cursor stack has its top at the head of the list.
\<close>

type_synonym cf_map8 = "(u64 \<times> u64) list"

fun cf_map8_lookup :: "cf_map8 \<Rightarrow> u64 \<Rightarrow> u64 option" where
  "cf_map8_lookup [] key = None"
| "cf_map8_lookup ((k, v) # m) key = (if k = key then Some v else cf_map8_lookup m key)"

fun cf_map8_remove :: "cf_map8 \<Rightarrow> u64 \<Rightarrow> cf_map8" where
  "cf_map8_remove [] key = []"
| "cf_map8_remove ((k, v) # m) key = (if k = key then m else (k, v) # cf_map8_remove m key)"

definition cf_map8_insert :: "cf_map8 \<Rightarrow> u64 \<Rightarrow> u64 \<Rightarrow> cf_map8" where
  "cf_map8_insert m key val = m @ [(key, val)]"

record ast_path =
  parent_stack :: "cxcursor list"
  path_count :: u32

record struct_pkg =
  pk_type_id :: u64
  pk_entry :: db_type_entry
  pk_name :: db_typename
  pk_loc0 :: loc_ctx
  pk_loc1 :: loc_ctx

record member_pkg =
  mp_parent :: u64
  mp_entry :: db_member
  mp_loc :: loc_ctx

record type_use_pkg =
  up_where :: u64
  up_entry :: db_type_use
  up_loc :: loc_ctx

record struct_scoreboard =
  sb_path :: ast_path
  current_parent_stack :: "cxcursor list"
  sb_loc :: loc_ctx
  new_types :: "struct_pkg list"
  sb_members :: "member_pkg list"
  sb_type_uses :: "type_use_pkg list"
  unnamed_types :: cf_map8

text \<open>
  \<open>index_ctx_t\<close>, with the store it points to and the allocator the store draws on.
\<close>

record index_ctx =
  ctx_db :: cf_db
  ctx_heap :: heap
  file_map :: cf_map8
  type_map :: cf_map8
  ctx_path :: ast_path
  ctx_loc :: loc_ctx
  struct_sb :: struct_scoreboard
  last_struct :: u64

definition empty_path :: ast_path where
  "empty_path = \<lparr>parent_stack = [], path_count = 0\<rparr>"

definition reset_struct_scoreboard :: "struct_scoreboard \<Rightarrow> struct_scoreboard" where
  "reset_struct_scoreboard sb =
     sb\<lparr>sb_path := empty_path, current_parent_stack := [], new_types := [],
        sb_members := [], sb_type_uses := [], unnamed_types := []\<rparr>"

section \<open>Committing the scoreboard (cf_index.c)\<close>

text \<open>From here on \<open>None\<close> is a trap: a failed \<open>cf_assert\<close> or a \<open>cf_panic\<close>.\<close>

definition type_map_insert :: "cf_map8 \<Rightarrow> u64 \<Rightarrow> u64 \<Rightarrow> cf_map8 option" where
  "type_map_insert m ct type_ref =
     (if ct = 0 then None else if type_ref = 0 then None
      else Some (cf_map8_insert m ct type_ref))"

definition translate_struct_type :: "cf_map8 \<Rightarrow> u64 \<Rightarrow> u64 option" where
  "translate_struct_type m old = cf_map8_lookup m old"

definition translate_member_type :: "cf_map8 \<Rightarrow> cf_map8 \<Rightarrow> u64 \<Rightarrow> u64 option" where
  "translate_member_type map_1 map_2 old =
     (if old = 0 then Some 0
      else case translate_struct_type map_1 old of
        Some r \<Rightarrow> Some r
      | None \<Rightarrow> translate_struct_type map_2 old)"

text \<open>
  \<open>commit_one_struct\<close>: the typename lookup decides. Found: the reference goes into
  the type map of the translation unit. Not found: the type row, then the typename row are
  inserted and the reference goes into the scratch map \<open>new_type_map\<close>. Any other
  outcome leaves both maps alone; a failed typename insertion leaves the type row behind.
\<close>

definition commit_one_struct ::
  "struct_pkg \<Rightarrow> cf_map8 \<Rightarrow> index_ctx \<Rightarrow> (cf_map8 \<times> index_ctx) option" where
  "commit_one_struct pkg new_type_map ctx =
     (case cf_db_typename_lookup (ctx_db ctx) (pk_loc1 pkg) (pk_name pkg) of
        Panic \<Rightarrow> None
      | Ok struct_ref \<Rightarrow>
          (case type_map_insert (type_map ctx) (pk_type_id pkg) struct_ref of
             None \<Rightarrow> None
           | Some tm \<Rightarrow> Some (new_type_map, ctx\<lparr>type_map := tm\<rparr>))
      | Err e \<Rightarrow>
          (if e \<noteq> ENOENT then Some (new_type_map, ctx)
           else case cf_db_type_insert (ctx_heap ctx) (ctx_db ctx) (pk_loc0 pkg) (pk_entry pkg) of
             (Panic, db1, h1) \<Rightarrow> None
           | (Err e1, db1, h1) \<Rightarrow> Some (new_type_map, ctx\<lparr>ctx_db := db1, ctx_heap := h1\<rparr>)
           | (Ok struct_ref, db1, h1) \<Rightarrow>
               (case cf_db_typename_insert h1 db1 (pk_loc1 pkg)
                       ((pk_name pkg)\<lparr>tn_base_type := struct_ref\<rparr>) of
                  (Panic, db2, h2) \<Rightarrow> None
                | (Err e2, db2, h2) \<Rightarrow>
                    Some (new_type_map, ctx\<lparr>ctx_db := db2, ctx_heap := h2\<rparr>)
                | (Ok u, db2, h2) \<Rightarrow>
                    (case type_map_insert new_type_map (pk_type_id pkg) struct_ref of
                       None \<Rightarrow> None
                     | Some nm \<Rightarrow> Some (nm, ctx\<lparr>ctx_db := db2, ctx_heap := h2\<rparr>)))))"

text \<open>The first loop of \<open>commit_struct_scoreboard\<close>, over \<open>sb->new_types\<close>.\<close>

fun commit_new_types ::
  "cf_map8 \<Rightarrow> struct_pkg list \<Rightarrow> cf_map8 \<Rightarrow> index_ctx \<Rightarrow> (cf_map8 \<times> index_ctx) option" where
  "commit_new_types unnamed [] new_type_map ctx = Some (new_type_map, ctx)"
| "commit_new_types unnamed (pkg # pkgs) new_type_map ctx =
     (if pk_type_id pkg = 0 then None
      else case cf_map8_lookup unnamed (pk_type_id pkg) of
        Some dummy \<Rightarrow> commit_new_types unnamed pkgs new_type_map ctx
      | None \<Rightarrow>
          (case commit_one_struct pkg new_type_map ctx of
             None \<Rightarrow> None
           | Some (nm, ctx') \<Rightarrow> commit_new_types unnamed pkgs nm ctx'))"

text \<open>
  \<open>commit_one_member\<close> after the two translations: the assertion on the parent, then
  the insertion, whose error code is dropped.
\<close>

definition commit_one_member :: "member_pkg \<Rightarrow> index_ctx \<Rightarrow> index_ctx option" where
  "commit_one_member pkg ctx =
     (if mb_parent (mp_entry pkg) = 0 then None
      else case cf_db_member_insert (ctx_heap ctx) (ctx_db ctx) (mp_loc pkg) (mp_entry pkg) of
        (Panic, db', h') \<Rightarrow> None
      | (r, db', h') \<Rightarrow> Some (ctx\<lparr>ctx_db := db', ctx_heap := h'\<rparr>))"

text \<open>The second loop, over \<open>sb->members\<close>.\<close>

fun commit_members :: "cf_map8 \<Rightarrow> member_pkg list \<Rightarrow> index_ctx \<Rightarrow> index_ctx option" where
  "commit_members new_type_map [] ctx = Some ctx"
| "commit_members new_type_map (pkg # pkgs) ctx =
     (case translate_struct_type new_type_map (mp_parent pkg) of
        None \<Rightarrow> commit_members new_type_map pkgs ctx
      | Some parent_ref \<Rightarrow>
          (case translate_member_type (type_map ctx) new_type_map
                  (mb_base_type (mp_entry pkg)) of
             None \<Rightarrow> commit_members new_type_map pkgs ctx
           | Some base_ref \<Rightarrow>
               (case commit_one_member
                       (pkg\<lparr>mp_entry := (mp_entry pkg)\<lparr>mb_parent := parent_ref,
                                                          mb_base_type := base_ref\<rparr>\<rparr>) ctx of
                  None \<Rightarrow> None
                | Some ctx' \<Rightarrow> commit_members new_type_map pkgs ctx')))"

definition commit_one_type_use :: "type_use_pkg \<Rightarrow> index_ctx \<Rightarrow> index_ctx option" where
  "commit_one_type_use pkg ctx =
     (if tu_base_type (up_entry pkg) = 0 then None
      else if tu_kind (up_entry pkg) = 0 then None
      else case cf_db_type_use_insert (ctx_heap ctx) (ctx_db ctx) (up_loc pkg) (up_entry pkg) of
        (Panic, db', h') \<Rightarrow> None
      | (r, db', h') \<Rightarrow> Some (ctx\<lparr>ctx_db := db', ctx_heap := h'\<rparr>))"

text \<open>The third loop, over \<open>sb->type_uses\<close>.\<close>

fun commit_type_uses :: "cf_map8 \<Rightarrow> type_use_pkg list \<Rightarrow> index_ctx \<Rightarrow> index_ctx option" where
  "commit_type_uses new_type_map [] ctx = Some ctx"
| "commit_type_uses new_type_map (pkg # pkgs) ctx =
     (case translate_struct_type new_type_map (up_where pkg) of
        None \<Rightarrow> commit_type_uses new_type_map pkgs ctx
      | Some dummy \<Rightarrow>
          (case translate_member_type new_type_map (type_map ctx)
                  (tu_base_type (up_entry pkg)) of
             None \<Rightarrow> commit_type_uses new_type_map pkgs ctx
           | Some base_ref \<Rightarrow>
               (case commit_one_type_use
                       (pkg\<lparr>up_entry := (up_entry pkg)\<lparr>tu_base_type := base_ref\<rparr>\<rparr>) ctx of
                  None \<Rightarrow> None
                | Some ctx' \<Rightarrow> commit_type_uses new_type_map pkgs ctx')))"

text \<open>The last loop: the scratch map is merged into the type map.\<close>

fun merge_type_map :: "cf_map8 \<Rightarrow> cf_map8 \<Rightarrow> cf_map8 option" where
  "merge_type_map [] tm = Some tm"
| "merge_type_map ((k, v) # nm) tm =
     (case type_map_insert tm k v of
        None \<Rightarrow> None
      | Some tm' \<Rightarrow> merge_type_map nm tm')"

text \<open>
  \<open>commit_struct_scoreboard\<close>. The scoreboard is read only: the references written
  into its staged records are not read again, as both callers reset it right after.
\<close>

definition commit_struct_scoreboard :: "struct_scoreboard \<Rightarrow> index_ctx \<Rightarrow> index_ctx option" where
  "commit_struct_scoreboard sb ctx =
     (case commit_new_types (unnamed_types sb) (new_types sb) [] ctx of
        None \<Rightarrow> None
      | Some (new_type_map, ctx1) \<Rightarrow>
          (case commit_members new_type_map (sb_members sb) ctx1 of
             None \<Rightarrow> None
           | Some ctx2 \<Rightarrow>
               (case commit_type_uses new_type_map (sb_type_uses sb) ctx2 of
                  None \<Rightarrow> None
                | Some ctx3 \<Rightarrow>
                    (case merge_type_map new_type_map (type_map ctx3) of
                       None \<Rightarrow> None
                     | Some tm \<Rightarrow> Some (ctx3\<lparr>type_map := tm\<rparr>)))))"

section \<open>Traversal of a translation unit (cf_index.c)\<close>

definition type_is_indexable :: "cxtype \<Rightarrow> bool" where
  "type_is_indexable ct = (ty_kind ct = CXType_Record \<or> ty_kind ct = CXType_Enum)"

text \<open>\<open>get_clang_type\<close>: the pointer of the canonical type; both kinds are asserted valid.\<close>

definition get_clang_type :: "cxtype \<Rightarrow> u64 option" where
  "get_clang_type ct =
     (if ty_kind ct = CXType_Invalid then None
      else if ty_canon_kind ct = CXType_Invalid then None
      else Some (ty_canon_id ct))"

definition user_type_is_indexable :: "cxcursor \<Rightarrow> bool option" where
  "user_type_is_indexable cursor =
     (if \<not> type_is_indexable (c_type cursor) then None
      else Some (\<not> ty_incomplete (c_type cursor)))"

definition typedef_is_indexable :: "cxcursor \<Rightarrow> bool" where
  "typedef_is_indexable cursor = type_is_indexable (clang_getCanonicalType (c_underlying cursor))"

definition var_is_indexable :: "cxcursor \<Rightarrow> bool" where
  "var_is_indexable cursor = type_is_indexable (clang_getCanonicalType (c_type cursor))"

definition cursor_is_indexable :: "cxcursor \<Rightarrow> bool option" where
  "cursor_is_indexable cursor =
     (case c_kind cursor of
        CXCursor_StructDecl \<Rightarrow> user_type_is_indexable cursor
      | CXCursor_UnionDecl \<Rightarrow> user_type_is_indexable cursor
      | CXCursor_EnumDecl \<Rightarrow> user_type_is_indexable cursor
      | CXCursor_TypedefDecl \<Rightarrow> Some (typedef_is_indexable cursor)
      | CXCursor_VarDecl \<Rightarrow> Some (var_is_indexable cursor)
      | _ \<Rightarrow> Some False)"

text \<open>
  \<open>update_location\<close>: a file missing from the file map leaves the location as it is.
\<close>

definition update_location :: "index_ctx \<Rightarrow> cxcursor \<Rightarrow> index_ctx" where
  "update_location ctx cursor =
     (case cf_map8_lookup (file_map ctx) (c_file cursor) of
        None \<Rightarrow> ctx
      | Some file_ref \<Rightarrow>
          ctx\<lparr>ctx_loc := (ctx_loc ctx)\<lparr>loc_file := file_ref, loc_line := c_line cursor,
                                      loc_column := c_column cursor\<rparr>\<rparr>)"

definition extract_type_kind :: "cursor_kind \<Rightarrow> u32 option" where
  "extract_type_kind kind =
     (case kind of
        CXCursor_StructDecl \<Rightarrow> Some type_kind_struct
      | CXCursor_UnionDecl \<Rightarrow> Some type_kind_union
      | CXCursor_EnumDecl \<Rightarrow> Some type_kind_enum
      | _ \<Rightarrow> None)"

datatype struct_name_kind = struct_name_direct | struct_name_unnamed | struct_name_anon

text \<open>
  \<open>get_struct_name_kind\<close>: the front-end's predicate for C11 anonymous records, then
  the comparison of the start of the pretty-printed declaration with the bare keyword
  followed by an opening brace.
\<close>

definition get_struct_name_kind :: "cxcursor \<Rightarrow> struct_name_kind option" where
  "get_struct_name_kind cursor =
     (case c_kind cursor of
        CXCursor_StructDecl \<Rightarrow>
          Some (if c_anonymous cursor then struct_name_anon
                else if take 8 (c_pretty cursor) = ''struct {'' then struct_name_unnamed
                else struct_name_direct)
      | CXCursor_UnionDecl \<Rightarrow>
          Some (if c_anonymous cursor then struct_name_anon
                else if take 7 (c_pretty cursor) = ''union {'' then struct_name_unnamed
                else struct_name_direct)
      | CXCursor_EnumDecl \<Rightarrow>
          Some (if c_anonymous cursor then struct_name_anon
                else if take 6 (c_pretty cursor) = ''enum {'' then struct_name_unnamed
                else struct_name_direct)
      | _ \<Rightarrow> None)"

text \<open>
  The indexer copies a name with \<open>cf_str_dup\<close> into a zeroed \<open>cf_str_t\<close> and does
  not look at the result. The allocations the indexer makes for itself (these copies and
  its vectors) are taken to succeed; what remains of a failed copy is the length check,
  after which the name is still the null string.
\<close>

definition own_name :: "string \<Rightarrow> string" where
  "own_name str = (if length str > CF_STR_MAX_LEN then [] else str)"

text \<open>
  \<open>index_struct_record\<close>: stage the record of one struct, union or enum declaration.
  An anonymous record is not staged. A directly named record gets its name and the
  location of the declaration for it; an unnamed one is staged without a name and entered
  into \<open>unnamed_types\<close> with its index in \<open>new_types\<close>.
\<close>

definition index_struct_record :: "cxcursor \<Rightarrow> struct_scoreboard \<Rightarrow> struct_scoreboard option" where
  "index_struct_record struct_decl sb =
     (let ct = clang_getCanonicalType (c_type struct_decl) in
      if \<not> type_is_indexable ct then None
      else case get_clang_type ct of
        None \<Rightarrow> None
      | Some tid \<Rightarrow>
          (case extract_type_kind (c_kind struct_decl) of
             None \<Rightarrow> None
           | Some entry_kind \<Rightarrow>
               (case get_struct_name_kind struct_decl of
                  None \<Rightarrow> None
                | Some struct_name_anon \<Rightarrow>
                    if length (current_parent_stack sb) = 0 then None else Some sb
                | Some struct_name_direct \<Rightarrow>
                    Some (sb\<lparr>new_types := new_types sb @
                       [\<lparr>pk_type_id = tid,
                         pk_entry = \<lparr>te_kind = entry_kind, te_complete = True\<rparr>,
                         pk_name = \<lparr>tn_kind = name_kind_direct, tn_base_type = 0,
                                    tn_name = own_name (c_spelling struct_decl)\<rparr>,
                         pk_loc0 = sb_loc sb, pk_loc1 = sb_loc sb\<rparr>]\<rparr>)
                | Some struct_name_unnamed \<Rightarrow>
                    Some (sb\<lparr>new_types := new_types sb @
                       [\<lparr>pk_type_id = tid,
                         pk_entry = \<lparr>te_kind = entry_kind, te_complete = True\<rparr>,
                         pk_name = zero_typename,
                         pk_loc0 = sb_loc sb, pk_loc1 = zero_loc\<rparr>],
                       unnamed_types := cf_map8_insert (unnamed_types sb) tid
                           (of_nat (length (new_types sb)))\<rparr>))))"

text \<open>\<open>build_member_record\<close>: the parent is the canonical type of the given parent cursor.\<close>

definition build_member_record ::
  "cxcursor \<Rightarrow> cxcursor \<Rightarrow> struct_scoreboard \<Rightarrow> struct_scoreboard option" where
  "build_member_record cursor parent sb =
     (let parent_type = clang_getCanonicalType (c_type parent);
          member_type = clang_getCanonicalType (c_type cursor) in
      case (if type_is_indexable member_type then get_clang_type member_type else Some 0) of
        None \<Rightarrow> None
      | Some member_clang_type \<Rightarrow>
          (case get_clang_type parent_type of
             None \<Rightarrow> None
           | Some parent_id \<Rightarrow>
               Some (sb\<lparr>sb_members := sb_members sb @
                  [\<lparr>mp_parent = parent_id,
                    mp_entry = \<lparr>mb_parent = parent_id, mb_base_type = member_clang_type,
                                mb_name = own_name (c_spelling cursor)\<rparr>,
                    mp_loc = sb_loc sb\<rparr>]\<rparr>)))"

text \<open>
  \<open>maybe_build_typename\<close>: a member whose type is a staged unnamed record names that
  record (kind var) and takes it out of \<open>unnamed_types\<close>.
\<close>

definition maybe_build_typename :: "cxcursor \<Rightarrow> struct_scoreboard \<Rightarrow> struct_scoreboard option" where
  "maybe_build_typename cursor sb =
     (if c_kind cursor \<noteq> CXCursor_FieldDecl then None
      else case get_clang_type (clang_getCanonicalType (c_type cursor)) of
        None \<Rightarrow> None
      | Some clang_type_id \<Rightarrow>
          (case cf_map8_lookup (unnamed_types sb) clang_type_id of
             None \<Rightarrow> Some sb
           | Some struct_index \<Rightarrow>
               if \<not> unat struct_index < length (new_types sb) then None
               else Some (sb\<lparr>unnamed_types := cf_map8_remove (unnamed_types sb) clang_type_id,
                            new_types := (new_types sb)[unat struct_index :=
                               (new_types sb ! unat struct_index)
                                 \<lparr>pk_name := \<lparr>tn_kind = name_kind_var, tn_base_type = 0,
                                              tn_name = own_name (c_spelling cursor)\<rparr>,
                                  pk_loc1 := sb_loc sb\<rparr>]\<rparr>)))"

definition build_member_type_use ::
  "cxcursor \<Rightarrow> cxcursor \<Rightarrow> struct_scoreboard \<Rightarrow> struct_scoreboard option" where
  "build_member_type_use cursor parent sb =
     (if \<not> var_is_indexable cursor then Some sb
      else case get_clang_type (clang_getCanonicalType (c_type parent)) of
        None \<Rightarrow> None
      | Some where_id \<Rightarrow>
          (case get_clang_type (clang_getCanonicalType (c_type cursor)) of
             None \<Rightarrow> None
           | Some use_id \<Rightarrow>
               Some (sb\<lparr>sb_type_uses := sb_type_uses sb @
                  [\<lparr>up_where = where_id,
                    up_entry = \<lparr>tu_base_type = use_id, tu_kind = type_use_decl\<rparr>,
                    up_loc = sb_loc sb\<rparr>]\<rparr>)))"

definition index_member ::
  "cxcursor \<Rightarrow> cxcursor \<Rightarrow> struct_scoreboard \<Rightarrow> struct_scoreboard option" where
  "index_member cursor parent sb =
     (if c_kind cursor = CXCursor_EnumConstantDecl then Some sb
      else if c_kind cursor \<noteq> CXCursor_FieldDecl then None
      else case build_member_record cursor parent sb of
        None \<Rightarrow> None
      | Some sb1 \<Rightarrow>
          (case maybe_build_typename cursor sb1 of
             None \<Rightarrow> None
           | Some sb2 \<Rightarrow> build_member_type_use cursor parent sb2))"

text \<open>
  \<open>index_type_children_cb2\<close>: a nested struct or union is staged and descended into;
  a field is attributed to the top of \<open>current_parent_stack\<close>; nothing else is looked at.
\<close>

definition index_type_children_cb2 ::
  "cxcursor \<Rightarrow> struct_scoreboard \<Rightarrow> (visit_result \<times> struct_scoreboard) option" where
  "index_type_children_cb2 cursor sb =
     (case c_kind cursor of
        CXCursor_StructDecl \<Rightarrow>
          (case index_struct_record cursor sb of
             None \<Rightarrow> None | Some sb' \<Rightarrow> Some (CXChildVisit_Recurse, sb'))
      | CXCursor_UnionDecl \<Rightarrow>
          (case index_struct_record cursor sb of
             None \<Rightarrow> None | Some sb' \<Rightarrow> Some (CXChildVisit_Recurse, sb'))
      | CXCursor_FieldDecl \<Rightarrow>
          (case current_parent_stack sb of
             [] \<Rightarrow> None
           | parent_type # below \<Rightarrow>
               (case index_member cursor parent_type sb of
                  None \<Rightarrow> None | Some sb' \<Rightarrow> Some (CXChildVisit_Continue, sb')))
      | _ \<Rightarrow> Some (CXChildVisit_Continue, sb))"

text \<open>
  \<open>index_type_children_cb\<close>: the location is refreshed and copied into the scoreboard;
  after the real work, a record that is descended into and is not a C11 anonymous record
  becomes the current parent. For an anonymous record the message printed evaluates
  \<open>get_clang_type\<close>, with its assertions.
\<close>

definition index_type_children_cb ::
  "ast \<Rightarrow> cxcursor \<Rightarrow> index_ctx \<Rightarrow> (visit_result \<times> index_ctx) option" where
  "index_type_children_cb node parent ctx =
     (case node of Node cursor kids \<Rightarrow>
        (let ctx1 = update_location ctx cursor;
             sb1 = (struct_sb ctx1)\<lparr>sb_loc := ctx_loc ctx1\<rparr> in
         case index_type_children_cb2 cursor sb1 of
           None \<Rightarrow> None
         | Some (ret, sb2) \<Rightarrow>
             if ty_kind (c_type cursor) \<noteq> CXType_Invalid \<and> type_is_indexable (c_type cursor)
                \<and> c_anonymous cursor \<and> get_clang_type (c_type cursor) = None then None
             else
             (let new_parent = (ty_kind (c_type cursor) \<noteq> CXType_Invalid
                                \<and> type_is_indexable (c_type cursor)
                                \<and> \<not> c_anonymous cursor);
                  sb3 = (if ret = CXChildVisit_Recurse \<and> new_parent
                         then sb2\<lparr>current_parent_stack := cursor # current_parent_stack sb2\<rparr>
                         else sb2)
              in Some (ret, ctx1\<lparr>struct_sb := sb3\<rparr>))))"

text \<open>
  \<open>index_struct_finalizer\<close>: when the traversal has left a record that is the current
  parent, it is popped.
\<close>

definition index_struct_finalizer :: "cxcursor \<Rightarrow> index_ctx \<Rightarrow> index_ctx" where
  "index_struct_finalizer cursor ctx =
     (case current_parent_stack (struct_sb ctx) of
        [] \<Rightarrow> ctx
      | tp # below \<Rightarrow>
          if cursor = tp
          then ctx\<lparr>struct_sb := (struct_sb ctx)\<lparr>current_parent_stack := below\<rparr>\<rparr>
          else ctx)"

text \<open>
  The loop of \<open>iterate_children_cb\<close> that pops the path stack until its top is the
  parent of the node at hand, calling the finaliser on every cursor popped. Reading the
  top of an empty stack is a NULL dereference.
\<close>

fun ascend ::
  "(cxcursor \<Rightarrow> index_ctx \<Rightarrow> index_ctx) \<Rightarrow> cxcursor \<Rightarrow> cxcursor list \<Rightarrow> index_ctx
     \<Rightarrow> (cxcursor list \<times> index_ctx) option" where
  "ascend final parent [] ctx = None"
| "ascend final parent (tp # below) ctx =
     (if tp = parent then Some (tp # below, ctx)
      else ascend final parent below (final tp ctx))"

text \<open>
  \<open>iterate_children_cb\<close> and \<open>iterate_children\<close> for the path kept in the scoreboard
  (the traversal of one record) ...
\<close>

definition sb_iterate_children_cb ::
  "ast \<Rightarrow> cxcursor \<Rightarrow> index_ctx \<Rightarrow> (visit_result \<times> index_ctx) option" where
  "sb_iterate_children_cb node parent ctx =
     (case node of Node cursor kids \<Rightarrow>
        (case ascend index_struct_finalizer parent
                (parent_stack (sb_path (struct_sb ctx))) ctx of
           None \<Rightarrow> None
         | Some (stack, ctx1) \<Rightarrow>
             (let ctx2 = ctx1\<lparr>struct_sb := (struct_sb ctx1)
                           \<lparr>sb_path := \<lparr>parent_stack = stack,
                                        path_count = path_count (sb_path (struct_sb ctx)) + 1\<rparr>\<rparr>\<rparr>
              in case index_type_children_cb node parent ctx2 of
                None \<Rightarrow> None
              | Some (ret, ctx3) \<Rightarrow>
                  Some (ret,
                    if ret = CXChildVisit_Recurse
                    then ctx3\<lparr>struct_sb := (struct_sb ctx3)
                           \<lparr>sb_path := (sb_path (struct_sb ctx3))
                              \<lparr>parent_stack := cursor # parent_stack (sb_path (struct_sb ctx3))\<rparr>\<rparr>\<rparr>
                    else ctx3))))"

definition index_struct_children :: "ast \<Rightarrow> index_ctx \<Rightarrow> index_ctx option" where
  "index_struct_children node ctx =
     (case node of Node struct_cursor kids \<Rightarrow>
        (let sb = struct_sb ctx;
             ctx1 = ctx\<lparr>struct_sb := sb
                      \<lparr>current_parent_stack := struct_cursor # current_parent_stack sb,
                       sb_path := (sb_path sb)
                          \<lparr>parent_stack := struct_cursor # parent_stack (sb_path sb)\<rparr>\<rparr>\<rparr>
         in case clang_visitChildren sb_iterate_children_cb struct_cursor kids ctx1 of
           None \<Rightarrow> None
         | Some (broken, ctx2) \<Rightarrow>
             (case parent_stack (sb_path (struct_sb ctx2)) of
                [] \<Rightarrow> None
              | tp # below \<Rightarrow>
                  Some (ctx2\<lparr>struct_sb := (struct_sb ctx2)
                          \<lparr>sb_path := (sb_path (struct_sb ctx2))\<lparr>parent_stack := below\<rparr>\<rparr>\<rparr>))))"

text \<open>
  \<open>index_struct\<close>: stage the record and its subtree; a record that is still in
  \<open>unnamed_types\<close> waits for its name (result true), any other is committed at once.
\<close>

definition index_struct :: "ast \<Rightarrow> index_ctx \<Rightarrow> (bool \<times> index_ctx) option" where
  "index_struct node ctx =
     (case node of Node cursor kids \<Rightarrow>
        (if length (new_types (struct_sb ctx)) \<noteq> 0 then None
         else
           (let cursor_type = clang_getCanonicalType (c_type cursor) in
            (case get_clang_type cursor_type of
               None \<Rightarrow> None
             | Some tid \<Rightarrow>
                 (if \<not> type_is_indexable cursor_type then None
                  else
                    (case index_struct_record cursor
                            ((struct_sb ctx)\<lparr>sb_loc := ctx_loc ctx\<rparr>) of
                       None \<Rightarrow> None
                     | Some sb1 \<Rightarrow>
                         (case index_struct_children node (ctx\<lparr>struct_sb := sb1\<rparr>) of
                            None \<Rightarrow> None
                          | Some ctx2 \<Rightarrow>
                              (case new_types (struct_sb ctx2) of
                                 [] \<Rightarrow> None
                               | first # others \<Rightarrow>
                                   (if pk_type_id first \<noteq> tid then None
                                    else
                                      (case cf_map8_lookup (unnamed_types (struct_sb ctx2))
                                              tid of
                                         Some index \<Rightarrow>
                                           (if index \<noteq> 0 then None else Some (True, ctx2))
                                       | None \<Rightarrow>
                                           (case commit_struct_scoreboard (struct_sb ctx2)
                                                   ctx2 of
                                              None \<Rightarrow> None
                                            | Some ctx3 \<Rightarrow>
                                                Some (False, ctx3\<lparr>struct_sb :=
                                                   reset_struct_scoreboard
                                                     (struct_sb ctx3)\<rparr>))))))))))))"

text \<open>
  \<open>struct_scoreboard_add_name\<close>: the typedef or variable declaration names the first
  staged record, which must be unnamed.
\<close>

definition struct_scoreboard_add_name :: "cxcursor \<Rightarrow> index_ctx \<Rightarrow> index_ctx option" where
  "struct_scoreboard_add_name cursor ctx =
     (let sb = struct_sb ctx in
      case new_types sb of
        [] \<Rightarrow> None
      | entry # others \<Rightarrow>
          (case cf_map8_lookup (unnamed_types sb) (pk_type_id entry) of
             None \<Rightarrow> None
           | Some index \<Rightarrow>
               if index \<noteq> 0 then None
               else if c_kind cursor \<noteq> CXCursor_VarDecl \<and> c_kind cursor \<noteq> CXCursor_TypedefDecl
               then Some ctx
               else Some (ctx\<lparr>struct_sb := sb
                   \<lparr>new_types :=
                      entry\<lparr>pk_name :=
                              \<lparr>tn_kind = (if c_kind cursor = CXCursor_VarDecl then name_kind_var
                                          else name_kind_typedef),
                               tn_base_type = 0, tn_name = own_name (c_spelling cursor)\<rparr>,
                            pk_loc1 := ctx_loc ctx\<rparr> # others,
                    unnamed_types := cf_map8_remove (unnamed_types sb) (pk_type_id entry)\<rparr>\<rparr>)))"

text \<open>
  \<open>special_index_struct_name\<close>: is the node after an unnamed record a typedef or a
  variable of exactly that record type? Then it is taken as the record's name.
\<close>

definition special_index_struct_name :: "cxcursor \<Rightarrow> index_ctx \<Rightarrow> (bool \<times> index_ctx) option" where
  "special_index_struct_name cursor ctx =
     (if last_struct ctx = 0 then None
      else if c_kind cursor \<noteq> CXCursor_VarDecl \<and> c_kind cursor \<noteq> CXCursor_TypedefDecl
      then Some (False, ctx)
      else
        (case get_clang_type (clang_getCanonicalType
                (if c_kind cursor = CXCursor_VarDecl then c_type cursor
                 else c_underlying cursor)) of
           None \<Rightarrow> None
         | Some cursor_type \<Rightarrow>
             (if last_struct ctx \<noteq> cursor_type then Some (False, ctx)
              else
                (case struct_scoreboard_add_name cursor ctx of
                   None \<Rightarrow> None
                 | Some ctx' \<Rightarrow> Some (True, ctx')))))"

text \<open>
  \<open>index_typedef\<close>: a typedef of a composite already in the type map gets a typename
  row of kind typedef, unless the lookup finds one or fails. The name is borrowed
  (\<open>cf_str_borrow\<close> asserts the length bound).
\<close>

definition index_typedef :: "cxcursor \<Rightarrow> index_ctx \<Rightarrow> index_ctx option" where
  "index_typedef cursor ctx =
     (case get_clang_type (clang_getCanonicalType (c_underlying cursor)) of
        None \<Rightarrow> None
      | Some old_id \<Rightarrow>
          (case cf_map8_lookup (type_map ctx) old_id of
             None \<Rightarrow> Some ctx
           | Some old_ref \<Rightarrow>
               (if length (c_spelling cursor) > CF_STR_MAX_LEN then None
                else
                  (let rcd = \<lparr>tn_kind = name_kind_typedef, tn_base_type = old_ref,
                              tn_name = c_spelling cursor\<rparr> in
                   (case cf_db_typename_lookup (ctx_db ctx) (ctx_loc ctx) rcd of
                      Panic \<Rightarrow> None
                    | Ok db_entry_ref \<Rightarrow> Some ctx
                    | Err e \<Rightarrow>
                        (if e \<noteq> ENOENT then Some ctx
                         else
                           (case cf_db_typename_insert (ctx_heap ctx) (ctx_db ctx)
                                   (ctx_loc ctx) rcd of
                              (Panic, db', h') \<Rightarrow> None
                            | (r, db', h') \<Rightarrow>
                                Some (ctx\<lparr>ctx_db := db', ctx_heap := h'\<rparr>))))))))"

text \<open>
  \<open>index_ast_node\<close>, the visitor of the top level. A record waiting for its name is
  settled by the next indexable node: named by it or not, the scoreboard is committed and
  reset; a node taken as the name is not indexed again.
\<close>

definition index_ast_node ::
  "ast \<Rightarrow> cxcursor \<Rightarrow> index_ctx \<Rightarrow> (visit_result \<times> index_ctx) option" where
  "index_ast_node node parent ctx0 =
     (case node of Node cursor kids \<Rightarrow>
        (case cursor_is_indexable cursor of
           None \<Rightarrow> None
         | Some False \<Rightarrow> Some (CXChildVisit_Continue, ctx0)
         | Some True \<Rightarrow>
             (let ctx = update_location ctx0 cursor in
              case (if last_struct ctx \<noteq> 0 then
                      (case special_index_struct_name cursor ctx of
                         None \<Rightarrow> None
                       | Some (skip, ctx1) \<Rightarrow>
                           (case commit_struct_scoreboard (struct_sb ctx1) ctx1 of
                              None \<Rightarrow> None
                            | Some ctx2 \<Rightarrow>
                                Some (skip, ctx2\<lparr>struct_sb :=
                                          reset_struct_scoreboard (struct_sb ctx2),
                                        last_struct := 0\<rparr>)))
                    else Some (False, ctx)) of
                None \<Rightarrow> None
              | Some (True, ctx3) \<Rightarrow> Some (CXChildVisit_Continue, ctx3)
              | Some (False, ctx3) \<Rightarrow>
                  (if c_kind cursor = CXCursor_StructDecl \<or> c_kind cursor = CXCursor_UnionDecl
                      \<or> c_kind cursor = CXCursor_EnumDecl then
                     (case index_struct node ctx3 of
                        None \<Rightarrow> None
                      | Some (False, ctx4) \<Rightarrow> Some (CXChildVisit_Continue, ctx4)
                      | Some (True, ctx4) \<Rightarrow>
                          (case get_clang_type (c_type cursor) of
                             None \<Rightarrow> None
                           | Some t \<Rightarrow> Some (CXChildVisit_Continue, ctx4\<lparr>last_struct := t\<rparr>)))
                   else if c_kind cursor = CXCursor_TypedefDecl then
                     (case index_typedef cursor ctx3 of
                        None \<Rightarrow> None
                      | Some ctx4 \<Rightarrow> Some (CXChildVisit_Recurse, ctx4))
                   else Some (CXChildVisit_Recurse, ctx3)))))"

text \<open>
  ... and for the path kept in the context (the top level of the translation unit), where
  the finaliser does nothing.
\<close>

definition tu_iterate_children_cb ::
  "ast \<Rightarrow> cxcursor \<Rightarrow> index_ctx \<Rightarrow> (visit_result \<times> index_ctx) option" where
  "tu_iterate_children_cb node parent ctx =
     (case node of Node cursor kids \<Rightarrow>
        (case ascend (\<lambda>c x. x) parent (parent_stack (ctx_path ctx)) ctx of
           None \<Rightarrow> None
         | Some (stack, ctx1) \<Rightarrow>
             (let ctx2 = ctx1\<lparr>ctx_path := \<lparr>parent_stack = stack,
                                           path_count = path_count (ctx_path ctx) + 1\<rparr>\<rparr>
              in case index_ast_node node parent ctx2 of
                None \<Rightarrow> None
              | Some (ret, ctx3) \<Rightarrow>
                  Some (ret,
                    if ret = CXChildVisit_Recurse
                    then ctx3\<lparr>ctx_path := (ctx_path ctx3)
                              \<lparr>parent_stack := cursor # parent_stack (ctx_path ctx3)\<rparr>\<rparr>
                    else ctx3))))"

text \<open>\<open>index_tu\<close>: the traversal of the children of the root cursor.\<close>

definition index_tu :: "ast \<Rightarrow> index_ctx \<Rightarrow> index_ctx option" where
  "index_tu tu ctx =
     (case tu of Node root kids \<Rightarrow>
        (let ctx1 = ctx\<lparr>ctx_path := (ctx_path ctx)
                      \<lparr>parent_stack := root # parent_stack (ctx_path ctx)\<rparr>\<rparr>
         in case clang_visitChildren tu_iterate_children_cb root kids ctx1 of
           None \<Rightarrow> None
         | Some (broken, ctx2) \<Rightarrow>
             (case parent_stack (ctx_path ctx2) of
                [] \<Rightarrow> None
              | tp # below \<Rightarrow>
                  Some (ctx2\<lparr>ctx_path := (ctx_path ctx2)\<lparr>parent_stack := below\<rparr>\<rparr>))))"

text \<open>
  \<open>make_index_ctx\<close>: the context is zeroed, the maps, the path and the scoreboard are
  made empty. The file map is filled by \<open>index_includes\<close> before \<open>index_tu\<close> runs.
\<close>

definition make_struct_scoreboard :: struct_scoreboard where
  "make_struct_scoreboard =
     \<lparr>sb_path = empty_path, current_parent_stack = [], sb_loc = zero_loc, new_types = [],
      sb_members = [], sb_type_uses = [], unnamed_types = []\<rparr>"

definition make_index_ctx :: "cf_db \<Rightarrow> heap \<Rightarrow> index_ctx" where
  "make_index_ctx db h =
     \<lparr>ctx_db = db, ctx_heap = h, file_map = [], type_map = [], ctx_path = empty_path,
      ctx_loc = zero_loc, struct_sb = make_struct_scoreboard, last_struct = 0\<rparr>"

section \<open>Notions used to state the properties\<close>

text \<open>An entry whose name the in-memory store takes as equal to the key.\<close>

definition key_match :: "string \<Rightarrow> db_typename \<Rightarrow> bool" where
  "key_match key e = name_matches key (tn_name e)"

text \<open>The answers of \<open>k\<close> successive \<open>next\<close> calls on a cursor (\<open>None\<close>: a trap).\<close>

fun next_results :: "nat \<Rightarrow> cf_db \<Rightarrow> db_typename_iter \<Rightarrow> bool list option" where
  "next_results 0 db it = Some []"
| "next_results (Suc k) db it =
     (case db_typename_iter_next db it of
        None \<Rightarrow> None
      | Some (b, it') \<Rightarrow> map_option ((#) b) (next_results k db it'))"

text \<open>
  What the specification asks of a plain-name type search, given the underlying type
  references of all matching rows: not found without a match, the common reference when
  all agree, ambiguous otherwise.
\<close>

definition spec_resolve :: "u64 list \<Rightarrow> u64 res" where
  "spec_resolve refs =
     (case refs of
        [] \<Rightarrow> Err ENOENT
      | x # xs \<Rightarrow> if list_all (\<lambda>y. y = x) xs then Ok x else Err EMLINK)"

text \<open>
  A result row of the on-disk store that deserialises and passes sanitisation, and the
  typename entry it deserialises to.
\<close>

definition row_ok :: "sql_row \<Rightarrow> bool" where
  "row_ok row =
     (case fst (exec_find_typename_query row) of
        Ok (name, loc) \<Rightarrow> fst (sanitize_typename name)
      | _ \<Rightarrow> False)"

definition row_entry :: "sql_row \<Rightarrow> db_typename" where
  "row_entry row =
     (case fst (exec_find_typename_query row) of
        Ok (name, loc) \<Rightarrow> name
      | _ \<Rightarrow> zero_typename)"

definition row_loc :: "sql_row \<Rightarrow> loc_ctx" where
  "row_loc row =
     (case fst (exec_find_typename_query row) of
        Ok (name, loc) \<Rightarrow> loc
      | _ \<Rightarrow> zero_loc)"

text \<open>
  What \<open>next\<close> answers when the statement steps onto a row: true for a row that
  deserialises and passes sanitisation, false for one that fails either, nothing when
  deserialising it trips the assertion.
\<close>

definition row_answer :: "sql_row \<Rightarrow> bool option" where
  "row_answer row =
     (case fst (exec_find_typename_query row) of
        Panic \<Rightarrow> None
      | Err e \<Rightarrow> Some False
      | Ok (name, loc) \<Rightarrow> Some (fst (sanitize_typename name)))"

text \<open>A fresh cursor of the on-disk store for a bound pattern.\<close>

definition sql_cursor :: "sql_val \<Rightarrow> sqlite_db_typename_iter" where
  "sql_cursor pat =
     \<lparr>stmt = \<lparr>st_pattern = pat, st_pending = None\<rparr>, cur_name = zero_typename,
      cur_loc = zero_loc\<rparr>"

text \<open>\<open>n\<close> successive add-file calls with one path: the results in order, the final store.\<close>

fun add_file_times ::
  "nat \<Rightarrow> filesys \<Rightarrow> heap \<Rightarrow> cf_db \<Rightarrow> string \<Rightarrow> u64 res list \<times> cf_db \<times> heap" where
  "add_file_times 0 fs h db path = ([], db, h)"
| "add_file_times (Suc n) fs h db path =
     (case cf_db_add_file fs h db path of
        (r, db', h') \<Rightarrow>
          (case add_file_times n fs h' db' path of (rs, db'', h'') \<Rightarrow> (r # rs, db'', h'')))"

text \<open>The path the on-disk store files an input path under, and the rows holding a path.\<close>

definition canonical_path :: "filesys \<Rightarrow> sqlite_db \<Rightarrow> string \<Rightarrow> string" where
  "canonical_path fs db path_in =
     (case fs_realpath fs (c_string path_in) of
        Inl e \<Rightarrow> []
      | Inr cleaned \<Rightarrow> take (buf_len db) (c_string cleaned))"

definition file_entries :: "sqlite_db \<Rightarrow> string \<Rightarrow> sql_row list" where
  "file_entries db path = filter (\<lambda>r. sql_eq (sql_col r 1) (SqlText path)) (file_table (sql db))"

subsection \<open>Example stores\<close>

text \<open>A heap on which every allocation succeeds, a source location, and small stores.\<close>

definition heap_ok :: heap where
  "heap_ok = \<lparr>script = [], stale_loc = (0, 0, 0, 0, 0)\<rparr>"

definition loc_1_1 :: loc_ctx where
  "loc_1_1 = \<lparr>loc_file = 1, loc_func = 0, loc_scope = 0, loc_line = 1, loc_column = 1\<rparr>"

definition fs_plain :: filesys where
  "fs_plain = \<lparr>fs_realpath = (\<lambda>p. Inr p), fs_access = (\<lambda>p. None)\<rparr>"

definition mem_store :: "db_typename list \<Rightarrow> mem_db" where
  "mem_store tns =
     mem_db_open\<lparr>typenames := \<lparr>items = tns, capacity = 8\<rparr>,
                 locs_typename := \<lparr>items = replicate (length tns) loc_1_1, capacity = 8\<rparr>\<rparr>"

definition tn_row :: "string \<Rightarrow> u64 \<Rightarrow> u64 \<Rightarrow> sql_row" where
  "tn_row name kind base =
     [SqlText name, SqlInt kind, SqlInt base, SqlInt 1, SqlInt 0, SqlInt 0, SqlInt 1, SqlInt 1]"

text \<open>The same row with a file identifier of one's choice.\<close>

definition tn_row_file :: "string \<Rightarrow> u64 \<Rightarrow> u64 \<Rightarrow> u64 \<Rightarrow> sql_row" where
  "tn_row_file name kind base file =
     [SqlText name, SqlInt kind, SqlInt base, SqlInt file, SqlInt 0, SqlInt 0, SqlInt 1, SqlInt 1]"

definition sql_store :: "sql_row list \<Rightarrow> sqlite_db" where
  "sql_store tns =
     \<lparr>sql = \<lparr>file_table = [], type_table = [], typename_table = tns, type_use_table = [],
              member_table = []\<rparr>,
      readonly = False, buf_len = 4096\<rparr>"

text \<open>
  A scoreboard as the traversal of
  \<open>struct { struct global { int a; }; int garbage; };\<close>
  leaves it: the outer record (type 5) is staged without a name, \<open>struct global\<close>
  (type 6) with its name, and each member is attributed to its enclosing record.
\<close>

definition staged_outer :: struct_pkg where
  "staged_outer =
     \<lparr>pk_type_id = 5, pk_entry = \<lparr>te_kind = type_kind_struct, te_complete = True\<rparr>,
      pk_name = zero_typename, pk_loc0 = loc_1_1, pk_loc1 = zero_loc\<rparr>"

definition staged_global :: struct_pkg where
  "staged_global =
     \<lparr>pk_type_id = 6, pk_entry = \<lparr>te_kind = type_kind_struct, te_complete = True\<rparr>,
      pk_name = \<lparr>tn_kind = name_kind_direct, tn_base_type = 0, tn_name = ''global''\<rparr>,
      pk_loc0 = loc_1_1, pk_loc1 = loc_1_1\<rparr>"

definition staged_member :: "u64 \<Rightarrow> string \<Rightarrow> member_pkg" where
  "staged_member parent name =
     \<lparr>mp_parent = parent,
      mp_entry = \<lparr>mb_parent = parent, mb_base_type = 0, mb_name = name\<rparr>,
      mp_loc = loc_1_1\<rparr>"

definition outer_global_sb :: struct_scoreboard where
  "outer_global_sb =
     make_struct_scoreboard
       \<lparr>new_types := [staged_outer, staged_global],
        sb_members := [staged_member 6 ''a'', staged_member 5 ''garbage''],
        unnamed_types := [(5, 0)]\<rparr>"

subsection \<open>Declarations as the front end presents them\<close>

text \<open>
  A field of a type that is not indexed, the member row it becomes, and what the
  traversal of such fields leaves unchanged.
\<close>

definition plain_field :: "ast \<Rightarrow> bool" where
  "plain_field f =
     (case f of Node c ks \<Rightarrow>
        c_kind c = CXCursor_FieldDecl \<and> ty_canon_kind (c_type c) = CXType_OtherKind)"

definition field_type_id :: "ast \<Rightarrow> u64" where
  "field_type_id f = (case f of Node c ks \<Rightarrow> ty_canon_id (c_type c))"

definition field_entry :: "u64 \<Rightarrow> ast \<Rightarrow> db_member" where
  "field_entry parent f =
     (case f of Node c ks \<Rightarrow>
        \<lparr>mb_parent = parent, mb_base_type = 0, mb_name = own_name (c_spelling c)\<rparr>)"

definition staged_field :: "u64 \<Rightarrow> ast \<Rightarrow> member_pkg \<Rightarrow> bool" where
  "staged_field parent f m = (mp_parent m = parent \<and> mp_entry m = field_entry parent f)"

definition staged_more :: "index_ctx \<Rightarrow> index_ctx \<Rightarrow> member_pkg list \<Rightarrow> bool" where
  "staged_more ctx ctx' ms =
     (ctx_db ctx' = ctx_db ctx \<and> ctx_heap ctx' = ctx_heap ctx \<and> file_map ctx' = file_map ctx
      \<and> type_map ctx' = type_map ctx \<and> ctx_path ctx' = ctx_path ctx
      \<and> last_struct ctx' = last_struct ctx
      \<and> current_parent_stack (struct_sb ctx') = current_parent_stack (struct_sb ctx)
      \<and> new_types (struct_sb ctx') = new_types (struct_sb ctx)
      \<and> unnamed_types (struct_sb ctx') = unnamed_types (struct_sb ctx)
      \<and> sb_type_uses (struct_sb ctx') = sb_type_uses (struct_sb ctx)
      \<and> sb_members (struct_sb ctx') = sb_members (struct_sb ctx) @ ms)"

text \<open>A scoreboard with nothing staged.\<close>

definition fresh_sb :: "struct_scoreboard \<Rightarrow> bool" where
  "fresh_sb sb =
     (parent_stack (sb_path sb) = [] \<and> current_parent_stack sb = [] \<and> new_types sb = []
      \<and> sb_members sb = [] \<and> sb_type_uses sb = [] \<and> unnamed_types sb = [])"

text \<open>The type a typedef or a variable declares a name for, and the kind of that name.\<close>

definition declared_type :: "cxcursor \<Rightarrow> cxtype" where
  "declared_type c = (if c_kind c = CXCursor_VarDecl then c_type c else c_underlying c)"

definition declared_name_kind :: "cxcursor \<Rightarrow> u32" where
  "declared_name_kind c =
     (if c_kind c = CXCursor_VarDecl then name_kind_var else name_kind_typedef)"

text \<open>Example cursors: an \<open>int\<close> field and record types.\<close>

definition int_type :: cxtype where
  "int_type = \<lparr>ty_kind = CXType_OtherKind, ty_canon_kind = CXType_OtherKind, ty_canon_id = 100,
      ty_incomplete = False\<rparr>"

definition record_type :: "u64 \<Rightarrow> cxtype" where
  "record_type i = \<lparr>ty_kind = CXType_Record, ty_canon_kind = CXType_Record, ty_canon_id = i,
      ty_incomplete = False\<rparr>"

definition no_type :: cxtype where
  "no_type = \<lparr>ty_kind = CXType_Invalid, ty_canon_kind = CXType_Invalid, ty_canon_id = 0,
      ty_incomplete = False\<rparr>"

definition cursor_at :: "nat \<Rightarrow> cursor_kind \<Rightarrow> cxtype \<Rightarrow> string \<Rightarrow> string \<Rightarrow> cxcursor" where
  "cursor_at i k t name pretty =
     \<lparr>c_id = i, c_kind = k, c_type = t, c_underlying = no_type, c_spelling = name,
      c_anonymous = False, c_pretty = pretty, c_file = 7, c_line = of_nat i, c_column = 1\<rparr>"

definition int_field :: "nat \<Rightarrow> string \<Rightarrow> ast" where
  "int_field i name = Node (cursor_at i CXCursor_FieldDecl int_type name []) []"

definition tu_root :: cxcursor where
  "tu_root = cursor_at 0 CXCursor_OtherKind no_type [] []"

text \<open>\<open>typedef struct { int a; int b; } T;\<close> and \<open>struct { int a; int b; } v;\<close>\<close>

definition unnamed_struct :: ast where
  "unnamed_struct =
     Node (cursor_at 1 CXCursor_StructDecl (record_type 5) [] ''struct {...}'')
       [int_field 2 ''a'', int_field 3 ''b'']"

definition tu_typedef :: ast where
  "tu_typedef = Node tu_root
     [unnamed_struct,
      Node ((cursor_at 4 CXCursor_TypedefDecl (record_type 5) ''T'' [])
              \<lparr>c_underlying := record_type 5\<rparr>) []]"

definition tu_var :: ast where
  "tu_var = Node tu_root
     [unnamed_struct, Node (cursor_at 4 CXCursor_VarDecl (record_type 5) ''v'' []) []]"



section \<open>Properties\<close>

text \<open>
  C10. On the all-digit token 18446744073709551616 (which is \<open>2 ^ 64\<close>, not
  representable in 64 bits) \<open>str2uint64\<close> returns true with the value 0: the
  last addition wraps around.
\<close>

theorem str2uint64_wraps:
  "list_all is_digit ''18446744073709551616''
   \<and> digits_value 0 ''18446744073709551616'' = 2 ^ 64
   \<and> str2uint64 ''18446744073709551616'' = Some 0"
  by (simp add: str2uint64_def mul_overflow_def char2int_def is_digit_def)

subsection \<open>The in-memory typename cursor\<close>

lemma key_match_iff:
  "key_match key e \<longleftrightarrow>
     (length (tn_name e) = length key \<and> strncmp_eq key (tn_name e) (length key))"
  by (auto simp: key_match_def name_matches_def)

lemma iter_next_loop_step:
  "i < length tns \<Longrightarrow> iter_next_loop tns key i =
     (if key_match key (tns ! i) then Some i else iter_next_loop tns key (Suc i))"
  by (subst iter_next_loop.simps) (auto simp: key_match_iff)

lemma iter_next_loop_end:
  "\<not> i < length tns \<Longrightarrow> iter_next_loop tns key i = None"
  by (subst iter_next_loop.simps) simp

lemma iter_next_loop_None:
  "iter_next_loop tns key i = None \<Longrightarrow> filter (key_match key) (drop i tns) = []"
proof (induction "length tns - i" arbitrary: i)
  case 0
  then show ?case by simp
next
  case (Suc n)
  then have lt: "i < length tns" by simp
  have d: "drop i tns = tns ! i # drop (Suc i) tns"
    using lt by (simp add: Cons_nth_drop_Suc)
  from Suc.prems lt have nm: "\<not> key_match key (tns ! i)"
    by (simp add: iter_next_loop_step split: if_splits)
  with Suc.prems lt have "iter_next_loop tns key (Suc i) = None"
    by (simp add: iter_next_loop_step)
  moreover have "n = length tns - Suc i" using Suc.hyps(2) by simp
  ultimately have "filter (key_match key) (drop (Suc i) tns) = []"
    using Suc.hyps(1) by blast
  with d nm show ?case by simp
qed

lemma iter_next_loop_Some:
  "iter_next_loop tns key i = Some j \<Longrightarrow>
     i \<le> j \<and> j < length tns \<and>
     filter (key_match key) (drop i tns) = tns ! j # filter (key_match key) (drop (Suc j) tns)"
proof (induction "length tns - i" arbitrary: i)
  case 0
  then show ?case by (simp add: iter_next_loop_end)
next
  case (Suc n)
  then have lt: "i < length tns" by simp
  have d: "drop i tns = tns ! i # drop (Suc i) tns"
    using lt by (simp add: Cons_nth_drop_Suc)
  show ?case
  proof (cases "key_match key (tns ! i)")
    case True
    with Suc.prems lt have "j = i" by (simp add: iter_next_loop_step)
    with True d lt show ?thesis by simp
  next
    case False
    with Suc.prems lt have r: "iter_next_loop tns key (Suc i) = Some j"
      by (simp add: iter_next_loop_step)
    moreover have "n = length tns - Suc i" using Suc.hyps(2) by simp
    ultimately have "Suc i \<le> j \<and> j < length tns \<and>
       filter (key_match key) (drop (Suc i) tns) =
         tns ! j # filter (key_match key) (drop (Suc j) tns)"
      using Suc.hyps(1) by blast
    with d False show ?thesis by simp
  qed
qed

lemma unat_of_nat_Suc64:
  assumes "j < n" "n < 2 ^ 64"
  shows "unat ((of_nat j :: 64 word) + 1) = Suc j"
proof -
  from assms have "Suc j < 2 ^ 64" by simp
  then have "unat (of_nat (Suc j) :: 64 word) = Suc j"
    by (simp add: unat_of_nat take_bit_nat_eq_self del: of_nat_Suc)
  then show ?thesis by (simp add: add.commute)
qed

lemma mem_next_results:
  assumes len: "length (items (typenames db)) < 2 ^ 64"
  shows "unat (it_i it + 1) = start \<Longrightarrow> start \<le> length (items (typenames db)) \<Longrightarrow>
    next_results k (db_kind_mem db) (iter_mem it) =
      Some (replicate
              (min (length (filter (key_match (it_key it)) (drop start (items (typenames db))))) k)
              True
            @ replicate
              (k - length (filter (key_match (it_key it)) (drop start (items (typenames db)))))
              False)"
proof (induction k arbitrary: it start)
  case 0
  then show ?case by simp
next
  case (Suc k)
  let ?tns = "items (typenames db)"
  show ?case
  proof (cases "iter_next_loop ?tns (it_key it) start")
    case None
    then have f: "filter (key_match (it_key it)) (drop start ?tns) = []"
      by (rule iter_next_loop_None)
    have nx: "db_typename_iter_next (db_kind_mem db) (iter_mem it) = Some (False, iter_mem it)"
      using None Suc.prems by (simp add: db_typename_iter_next_def mem_db_typename_iter_next_def)
    from Suc.IH[OF Suc.prems] f nx show ?thesis by simp
  next
    case (Some j)
    from iter_next_loop_Some[OF Some] have j: "start \<le> j" "j < length ?tns"
      and f: "filter (key_match (it_key it)) (drop start ?tns) =
              ?tns ! j # filter (key_match (it_key it)) (drop (Suc j) ?tns)" by auto
    let ?it' = "it\<lparr>it_i := of_nat j\<rparr>"
    have nx: "db_typename_iter_next (db_kind_mem db) (iter_mem it) = Some (True, iter_mem ?it')"
      using Some Suc.prems by (simp add: db_typename_iter_next_def mem_db_typename_iter_next_def)
    have u: "unat (it_i ?it' + 1) = Suc j" using unat_of_nat_Suc64[OF j(2) len] by simp
    have "Suc j \<le> length ?tns" using j by simp
    from Suc.IH[OF u this] have
      "next_results k (db_kind_mem db) (iter_mem ?it') =
        Some (replicate
                (min (length (filter (key_match (it_key it)) (drop (Suc j) ?tns))) k) True
              @ replicate
                (k - length (filter (key_match (it_key it)) (drop (Suc j) ?tns))) False)"
      by simp
    with nx f show ?thesis by simp
  qed
qed

lemma mem_find_loop:
  assumes len: "length (items (typenames db)) < 2 ^ 64"
    and al: "length (items (locs_typename db)) = length (items (typenames db))"
  shows "unat (it_i it + 1) = start \<Longrightarrow> start \<le> length (items (typenames db)) \<Longrightarrow>
    length (items (typenames db)) - start < fuel \<Longrightarrow>
    find_one_type_loop fuel (db_kind_mem db) (iter_mem it) ident =
      Some (if list_all (\<lambda>y. y = ident)
                 (map tn_base_type
                    (filter (key_match (it_key it)) (drop start (items (typenames db)))))
            then Ok ident else Err EMLINK)"
proof (induction fuel arbitrary: it start)
  case 0
  then show ?case by simp
next
  case (Suc fuel)
  let ?tns = "items (typenames db)"
  show ?case
  proof (cases "iter_next_loop ?tns (it_key it) start")
    case None
    then have f: "filter (key_match (it_key it)) (drop start ?tns) = []"
      by (rule iter_next_loop_None)
    have nx: "db_typename_iter_next (db_kind_mem db) (iter_mem it) = Some (False, iter_mem it)"
      using None Suc.prems by (simp add: db_typename_iter_next_def mem_db_typename_iter_next_def)
    from f nx show ?thesis by simp
  next
    case (Some j)
    from iter_next_loop_Some[OF Some] have j: "start \<le> j" "j < length ?tns"
      and f: "filter (key_match (it_key it)) (drop start ?tns) =
              ?tns ! j # filter (key_match (it_key it)) (drop (Suc j) ?tns)" by auto
    let ?it' = "it\<lparr>it_i := of_nat j\<rparr>"
    have nx: "db_typename_iter_next (db_kind_mem db) (iter_mem it) = Some (True, iter_mem ?it')"
      using Some Suc.prems by (simp add: db_typename_iter_next_def mem_db_typename_iter_next_def)
    have uj: "unat (of_nat j :: 64 word) = j"
      using j(2) len by (simp add: unat_of_nat take_bit_nat_eq_self)
    have pk: "db_typename_iter_peek (db_kind_mem db) (iter_mem ?it') =
        Some (?tns ! j, items (locs_typename db) ! j)"
      using j(2) al uj
      by (simp add: db_typename_iter_peek_def mem_db_typename_iter_peek_def cf_vec_at_def)
    have u: "unat (it_i ?it' + 1) = Suc j" using unat_of_nat_Suc64[OF j(2) len] by simp
    have le: "Suc j \<le> length ?tns" using j by simp
    have fl: "length ?tns - Suc j < fuel" using Suc.prems j by simp
    from Suc.IH[OF u le fl] have ih:
      "find_one_type_loop fuel (db_kind_mem db) (iter_mem ?it') ident =
        Some (if list_all (\<lambda>y. y = ident)
                 (map tn_base_type (filter (key_match (it_key it)) (drop (Suc j) ?tns)))
            then Ok ident else Err EMLINK)"
      by simp
    show ?thesis using nx pk ih f by simp
  qed
qed

lemma mem_find_one_type:
  assumes len: "length (items (typenames db)) < 2 ^ 64"
    and al: "length (items (locs_typename db)) = length (items (typenames db))"
    and fuel: "length (items (typenames db)) \<le> fuel"
  shows "find_one_type fuel (db_kind_mem db) key =
     Some (spec_resolve (map tn_base_type (filter (key_match key) (items (typenames db)))))"
proof -
  let ?tns = "items (typenames db)"
  let ?it = "mem_db_typename_find db key"
  have fd: "cf_db_typename_find (db_kind_mem db) key = Ok (iter_mem ?it)"
    by (simp add: cf_db_typename_find_def)
  have u0: "unat (it_i ?it + 1) = 0" by (simp add: mem_db_typename_find_def)
  have k: "it_key ?it = key" by (simp add: mem_db_typename_find_def)
  show ?thesis
  proof (cases "iter_next_loop ?tns key 0")
    case None
    then have f: "filter (key_match key) ?tns = []"
      using iter_next_loop_None[of ?tns key 0] by simp
    have nx: "db_typename_iter_next (db_kind_mem db) (iter_mem ?it) = Some (False, iter_mem ?it)"
      using None u0 k by (simp add: db_typename_iter_next_def mem_db_typename_iter_next_def)
    show ?thesis using fd nx f by (simp add: find_one_type_def spec_resolve_def)
  next
    case (Some j)
    from iter_next_loop_Some[OF Some] have j: "j < length ?tns"
      and f: "filter (key_match key) ?tns = ?tns ! j # filter (key_match key) (drop (Suc j) ?tns)"
      by auto
    let ?it' = "?it\<lparr>it_i := of_nat j\<rparr>"
    have nx: "db_typename_iter_next (db_kind_mem db) (iter_mem ?it) = Some (True, iter_mem ?it')"
      using Some u0 k by (simp add: db_typename_iter_next_def mem_db_typename_iter_next_def)
    have uj: "unat (of_nat j :: 64 word) = j"
      using j len by (simp add: unat_of_nat take_bit_nat_eq_self)
    have pk: "db_typename_iter_peek (db_kind_mem db) (iter_mem ?it') =
        Some (?tns ! j, items (locs_typename db) ! j)"
      using j al uj
      by (simp add: db_typename_iter_peek_def mem_db_typename_iter_peek_def cf_vec_at_def)
    have u: "unat (it_i ?it' + 1) = Suc j" using unat_of_nat_Suc64[OF j len] by simp
    have le: "Suc j \<le> length ?tns" using j by simp
    have fl: "length ?tns - Suc j < fuel" using fuel j by simp
    have k': "it_key ?it' = key" by (simp add: mem_db_typename_find_def)
    from mem_find_loop[OF len al u le fl, of "tn_base_type (?tns ! j)"] k'
    have lp: "find_one_type_loop fuel (db_kind_mem db) (iter_mem ?it') (tn_base_type (?tns ! j)) =
        Some (if list_all (\<lambda>y. y = tn_base_type (?tns ! j))
                 (map tn_base_type (filter (key_match key) (drop (Suc j) ?tns)))
            then Ok (tn_base_type (?tns ! j)) else Err EMLINK)"
      by simp
    show ?thesis using fd nx pk lp f by (simp add: find_one_type_def spec_resolve_def)
  qed
qed

subsection \<open>The on-disk typename cursor\<close>

lemma stmt_rows_pending [simp]: "stmt_rows db (st\<lparr>st_pending := Some rs\<rparr>) = rs"
  by (simp add: stmt_rows_def)

lemma stmt_rows_reset [simp]:
  "stmt_rows db (st\<lparr>st_pending := None\<rparr>) = run_find_typenames db (st_pattern st)"
  by (simp add: stmt_rows_def)

lemma step_done:
  "stmt_rows db st = [] \<Longrightarrow> sqlite3_step db st = (SQLITE_DONE, st\<lparr>st_pending := None\<rparr>)"
  by (simp add: sqlite3_step_def)

lemma step_row:
  "stmt_rows db st = row # rest \<Longrightarrow>
   sqlite3_step db st = (SQLITE_ROW row, st\<lparr>st_pending := Some rest\<rparr>)"
  by (simp add: sqlite3_step_def)

lemma row_ok_answer: "row_ok row = (row_answer row = Some True)"
  by (simp add: row_ok_def row_answer_def split: res.splits prod.splits)

lemma sql_next_ok:
  "stmt_rows (sql db) (stmt it) = row # rest \<Longrightarrow> row_ok row \<Longrightarrow>
   db_typename_iter_next (db_kind_sql db) (iter_sql it) =
     Some (True, iter_sql (it\<lparr>stmt := (stmt it)\<lparr>st_pending := Some rest\<rparr>,
                               cur_name := row_entry row, cur_loc := row_loc row\<rparr>))"
  by (cases "exec_find_typename_query row")
     (auto simp: db_typename_iter_next_def sql_db_typename_iter_next_def step_row row_ok_def
        row_entry_def row_loc_def Let_def split: res.splits prod.splits bool.splits)

lemma sql_next_end:
  "stmt_rows (sql db) (stmt it) = [] \<Longrightarrow>
   db_typename_iter_next (db_kind_sql db) (iter_sql it) =
     Some (False, iter_sql (it\<lparr>stmt := (stmt it)\<lparr>st_pending := None\<rparr>\<rparr>))"
  by (simp add: db_typename_iter_next_def sql_db_typename_iter_next_def step_done)

lemma sql_next_bad:
  "stmt_rows (sql db) (stmt it) = row # rest \<Longrightarrow> row_answer row = Some False \<Longrightarrow>
   \<exists>it'. db_typename_iter_next (db_kind_sql db) (iter_sql it) = Some (False, iter_sql it')
         \<and> stmt it' = (stmt it)\<lparr>st_pending := Some rest\<rparr>"
  by (cases "exec_find_typename_query row")
     (auto simp: db_typename_iter_next_def sql_db_typename_iter_next_def step_row
        row_answer_def Let_def split: res.splits prod.splits bool.splits)

lemma sql_next_trap:
  "stmt_rows (sql db) (stmt it) = row # rest \<Longrightarrow> row_answer row = None \<Longrightarrow>
   db_typename_iter_next (db_kind_sql db) (iter_sql it) = None"
  by (cases "exec_find_typename_query row")
     (auto simp: db_typename_iter_next_def sql_db_typename_iter_next_def step_row
        row_answer_def Let_def split: res.splits prod.splits bool.splits)

lemma sql_peek: "db_typename_iter_peek (db_kind_sql db) (iter_sql it) = Some (cur_name it, cur_loc it)"
  by (simp add: db_typename_iter_peek_def sql_db_typename_iter_peek_def)

lemma sql_find_loop:
  assumes "stmt_rows (sql db) (stmt it) = good @ rest"
    and "list_all row_ok good"
    and "rest = [] \<or> row_answer (hd rest) = Some False"
    and "length good < fuel"
  shows "find_one_type_loop fuel (db_kind_sql db) (iter_sql it) ident =
      Some (if list_all (\<lambda>y. y = ident) (map (\<lambda>r. tn_base_type (row_entry r)) good)
            then Ok ident else Err EMLINK)"
  using assms
proof (induction good arbitrary: fuel it)
  case Nil
  then obtain f where fuel: "fuel = Suc f" by (cases fuel) auto
  show ?case
  proof (cases rest)
    case Nil
    with Nil.prems(1) have "stmt_rows (sql db) (stmt it) = []" by simp
    from sql_next_end[OF this] show ?thesis by (simp add: fuel)
  next
    case (Cons b bs)
    with Nil.prems(1,3) have r: "stmt_rows (sql db) (stmt it) = b # bs"
      and a: "row_answer b = Some False" by simp_all
    from sql_next_bad[OF r a] show ?thesis by (auto simp add: fuel)
  qed
next
  case (Cons g gs)
  then obtain f where fuel: "fuel = Suc f" by (cases fuel) auto
  from Cons.prems have r: "stmt_rows (sql db) (stmt it) = g # (gs @ rest)"
    and ok: "row_ok g" and oks: "list_all row_ok gs" and lf: "length gs < f"
    by (simp_all add: fuel)
  let ?it' = "it\<lparr>stmt := (stmt it)\<lparr>st_pending := Some (gs @ rest)\<rparr>,
                  cur_name := row_entry g, cur_loc := row_loc g\<rparr>"
  have nx: "db_typename_iter_next (db_kind_sql db) (iter_sql it) = Some (True, iter_sql ?it')"
    by (rule sql_next_ok[OF r ok])
  have r': "stmt_rows (sql db) (stmt ?it') = gs @ rest" by simp
  from Cons.IH[OF r' oks Cons.prems(3) lf]
  have ih: "find_one_type_loop f (db_kind_sql db) (iter_sql ?it') ident =
      Some (if list_all (\<lambda>y. y = ident) (map (\<lambda>r. tn_base_type (row_entry r)) gs)
            then Ok ident else Err EMLINK)" .
  show ?case using nx ih by (simp add: fuel sql_peek)
qed

lemma sql_find_loop_trap:
  assumes "stmt_rows (sql db) (stmt it) = good @ b # rest"
    and "list_all row_ok good"
    and "row_answer b = None"
    and "list_all (\<lambda>y. y = ident) (map (\<lambda>r. tn_base_type (row_entry r)) good)"
    and "length good < fuel"
  shows "find_one_type_loop fuel (db_kind_sql db) (iter_sql it) ident = Some Panic"
  using assms
proof (induction good arbitrary: fuel it)
  case Nil
  then obtain f where fuel: "fuel = Suc f" by (cases fuel) auto
  from Nil.prems(1) have r: "stmt_rows (sql db) (stmt it) = b # rest" by simp
  from sql_next_trap[OF r Nil.prems(3)] show ?case by (simp add: fuel)
next
  case (Cons g gs)
  then obtain f where fuel: "fuel = Suc f" by (cases fuel) auto
  from Cons.prems have r: "stmt_rows (sql db) (stmt it) = g # (gs @ b # rest)"
    and ok: "row_ok g" and oks: "list_all row_ok gs" and lf: "length gs < f"
    and same: "tn_base_type (row_entry g) = ident"
    and sames: "list_all (\<lambda>y. y = ident) (map (\<lambda>r. tn_base_type (row_entry r)) gs)"
    by (simp_all add: fuel)
  let ?it' = "it\<lparr>stmt := (stmt it)\<lparr>st_pending := Some (gs @ b # rest)\<rparr>,
                  cur_name := row_entry g, cur_loc := row_loc g\<rparr>"
  have nx: "db_typename_iter_next (db_kind_sql db) (iter_sql it) = Some (True, iter_sql ?it')"
    by (rule sql_next_ok[OF r ok])
  have r': "stmt_rows (sql db) (stmt ?it') = gs @ b # rest" by simp
  from Cons.IH[OF r' oks Cons.prems(3) sames lf]
  have ih: "find_one_type_loop f (db_kind_sql db) (iter_sql ?it') ident = Some Panic" .
  show ?case using nx ih same by (simp add: fuel sql_peek)
qed

lemma sql_find_cursor:
  "find_typenames (sql s) key = Ok st \<Longrightarrow>
   cf_db_typename_find (db_kind_sql s) key =
     Ok (iter_sql \<lparr>stmt = st, cur_name = zero_typename, cur_loc = zero_loc\<rparr>)"
  by (simp add: cf_db_typename_find_def sql_db_typename_find_def)

lemma sql_find_one_type:
  assumes fd: "find_typenames (sql s) key = Ok st"
    and rows: "stmt_rows (sql s) st = good @ rest"
    and ok: "list_all row_ok good"
    and bad: "rest = [] \<or> row_answer (hd rest) = Some False"
    and fuel: "length good \<le> fuel"
  shows "find_one_type fuel (db_kind_sql s) key =
     Some (spec_resolve (map (\<lambda>r. tn_base_type (row_entry r)) good))"
proof -
  let ?it = "\<lparr>stmt = st, cur_name = zero_typename, cur_loc = zero_loc\<rparr>"
  note f = sql_find_cursor[OF fd]
  have r0: "stmt_rows (sql s) (stmt ?it) = good @ rest" using rows by simp
  show ?thesis
  proof (cases good)
    case Nil
    show ?thesis
    proof (cases rest)
      case Nil
      with r0 \<open>good = []\<close> have "stmt_rows (sql s) (stmt ?it) = []" by simp
      from sql_next_end[OF this] show ?thesis using f \<open>good = []\<close>
        by (simp add: find_one_type_def spec_resolve_def)
    next
      case (Cons b bs)
      with r0 bad \<open>good = []\<close> have r: "stmt_rows (sql s) (stmt ?it) = b # bs"
        and a: "row_answer b = Some False" by simp_all
      from sql_next_bad[OF r a] show ?thesis using f \<open>good = []\<close>
        by (auto simp add: find_one_type_def spec_resolve_def)
    qed
  next
    case (Cons g gs)
    from ok Cons have gok: "row_ok g" and oks: "list_all row_ok gs" by auto
    from r0 Cons have r: "stmt_rows (sql s) (stmt ?it) = g # (gs @ rest)" by simp
    let ?it' = "?it\<lparr>stmt := (stmt ?it)\<lparr>st_pending := Some (gs @ rest)\<rparr>,
                    cur_name := row_entry g, cur_loc := row_loc g\<rparr>"
    have nx: "db_typename_iter_next (db_kind_sql s) (iter_sql ?it) = Some (True, iter_sql ?it')"
      by (rule sql_next_ok[OF r gok])
    have r': "stmt_rows (sql s) (stmt ?it') = gs @ rest" by simp
    have lf: "length gs < fuel" using fuel Cons by simp
    from sql_find_loop[OF r' oks bad lf]
    have lp: "find_one_type_loop fuel (db_kind_sql s) (iter_sql ?it') (tn_base_type (row_entry g)) =
        Some (if list_all (\<lambda>y. y = tn_base_type (row_entry g))
                  (map (\<lambda>r. tn_base_type (row_entry r)) gs)
              then Ok (tn_base_type (row_entry g)) else Err EMLINK)" .
    show ?thesis using f nx lp Cons by (simp add: find_one_type_def spec_resolve_def sql_peek)
  qed
qed

lemma sql_find_one_type_trap:
  assumes fd: "find_typenames (sql s) key = Ok st"
    and rows: "stmt_rows (sql s) st = good @ b # rest"
    and ok: "list_all row_ok good"
    and trap: "row_answer b = None"
    and same: "spec_resolve (map (\<lambda>r. tn_base_type (row_entry r)) good) \<noteq> Err EMLINK"
    and fuel: "length good \<le> fuel"
  shows "find_one_type fuel (db_kind_sql s) key = Some Panic"
proof -
  let ?it = "\<lparr>stmt = st, cur_name = zero_typename, cur_loc = zero_loc\<rparr>"
  note f = sql_find_cursor[OF fd]
  have r0: "stmt_rows (sql s) (stmt ?it) = good @ b # rest" using rows by simp
  show ?thesis
  proof (cases good)
    case Nil
    with r0 have "stmt_rows (sql s) (stmt ?it) = b # rest" by simp
    from sql_next_trap[OF this trap] show ?thesis using f
      by (simp add: find_one_type_def)
  next
    case (Cons g gs)
    from ok Cons have gok: "row_ok g" and oks: "list_all row_ok gs" by auto
    from r0 Cons have r: "stmt_rows (sql s) (stmt ?it) = g # (gs @ b # rest)" by simp
    let ?it' = "?it\<lparr>stmt := (stmt ?it)\<lparr>st_pending := Some (gs @ b # rest)\<rparr>,
                    cur_name := row_entry g, cur_loc := row_loc g\<rparr>"
    have nx: "db_typename_iter_next (db_kind_sql s) (iter_sql ?it) = Some (True, iter_sql ?it')"
      by (rule sql_next_ok[OF r gok])
    have r': "stmt_rows (sql s) (stmt ?it') = gs @ b # rest" by simp
    have lf: "length gs < fuel" using fuel Cons by simp
    from same Cons
    have sames: "list_all (\<lambda>y. y = tn_base_type (row_entry g))
                   (map (\<lambda>r. tn_base_type (row_entry r)) gs)"
      by (simp add: spec_resolve_def split: if_splits)
    from sql_find_loop_trap[OF r' oks trap sames lf]
    have lp: "find_one_type_loop fuel (db_kind_sql s) (iter_sql ?it') (tn_base_type (row_entry g))
                = Some Panic" .
    show ?thesis using f nx lp by (simp add: find_one_type_def sql_peek)
  qed
qed

lemma sql_next_dep:
  assumes "stmt it = stmt it2"
  shows "(case db_typename_iter_next (db_kind_sql db) (iter_sql it) of
            None \<Rightarrow> db_typename_iter_next (db_kind_sql db) (iter_sql it2) = None
          | Some (b, n) \<Rightarrow>
              \<exists>i i2. n = iter_sql i \<and> stmt i = stmt i2
                \<and> db_typename_iter_next (db_kind_sql db) (iter_sql it2) = Some (b, iter_sql i2))"
  using assms
  by (auto simp: db_typename_iter_next_def sql_db_typename_iter_next_def Let_def
        split: step_result.splits option.splits prod.splits res.splits bool.splits)

lemma sql_next_results_dep:
  "stmt it = stmt it2 \<Longrightarrow>
   next_results k (db_kind_sql db) (iter_sql it) = next_results k (db_kind_sql db) (iter_sql it2)"
proof (induction k arbitrary: it it2)
  case 0
  show ?case by simp
next
  case (Suc k)
  show ?case
  proof (cases "db_typename_iter_next (db_kind_sql db) (iter_sql it)")
    case None
    with sql_next_dep[OF Suc.prems, of db] show ?thesis by simp
  next
    case (Some bn)
    obtain b n where bn: "bn = (b, n)" by (cases bn)
    with sql_next_dep[OF Suc.prems, of db] Some obtain i i2 where
      n: "n = iter_sql i" and st: "stmt i = stmt i2" and
      nx2: "db_typename_iter_next (db_kind_sql db) (iter_sql it2) = Some (b, iter_sql i2)"
      by auto
    from Suc.IH[OF st] show ?thesis using Some bn n nx2 by simp
  qed
qed

lemma sql_next_results_pass:
  assumes "stmt_rows (sql db) (stmt it) = rows" and "list_all row_ok rows"
  shows "next_results (length rows + 1 + k) (db_kind_sql db) (iter_sql it) =
     map_option (\<lambda>bs. replicate (length rows) True @ False # bs)
       (next_results k (db_kind_sql db)
          (iter_sql (it\<lparr>stmt := (stmt it)\<lparr>st_pending := None\<rparr>\<rparr>)))"
  using assms
proof (induction rows arbitrary: it)
  case Nil
  from sql_next_end[OF Nil.prems(1)] show ?case by simp
next
  case (Cons r rs)
  from Cons.prems have ok: "row_ok r" and oks: "list_all row_ok rs" by simp_all
  let ?it' = "it\<lparr>stmt := (stmt it)\<lparr>st_pending := Some rs\<rparr>,
                  cur_name := row_entry r, cur_loc := row_loc r\<rparr>"
  have nx: "db_typename_iter_next (db_kind_sql db) (iter_sql it) = Some (True, iter_sql ?it')"
    by (rule sql_next_ok[OF Cons.prems(1) ok])
  have r': "stmt_rows (sql db) (stmt ?it') = rs" by simp
  have dep: "next_results k (db_kind_sql db)
               (iter_sql (?it'\<lparr>stmt := (stmt ?it')\<lparr>st_pending := None\<rparr>\<rparr>)) =
             next_results k (db_kind_sql db)
               (iter_sql (it\<lparr>stmt := (stmt it)\<lparr>st_pending := None\<rparr>\<rparr>))"
    by (rule sql_next_results_dep) simp
  from Cons.IH[OF r' oks] dep nx show ?case
    by (simp add: option.map_comp comp_def)
qed
subsection \<open>Adding files\<close>

lemma select_one_column_err:
  "fst (select_one_column k v) = Inl e \<Longrightarrow> e = EILSEQ"
  by (auto simp: select_one_column_def split: column_kind.splits sql_val.splits if_splits)

lemma select_columns_err:
  "fst (select_columns ks vs) = Inl e \<Longrightarrow> e = EILSEQ"
proof (induction ks vs rule: select_columns.induct)
  case (1 k ks v vs)
  show ?case
  proof (cases "select_one_column k v")
    case (Pair a l)
    show ?thesis
    proof (cases a)
      case (Inl e')
      with Pair "1.prems" have "e = e'" by simp
      moreover from Pair Inl have "e' = EILSEQ" using select_one_column_err[of k v e'] by simp
      ultimately show ?thesis by simp
    next
      case (Inr x)
      with Pair "1.prems" "1.IH"[of a l x] show ?thesis
        by (auto split: prod.splits sum.splits)
    qed
  qed
qed simp_all

lemma select_serial_row_err:
  "fst (select_serial_row ks row) = Inl e \<Longrightarrow> e = EILSEQ"
  by (auto simp: select_serial_row_def select_columns_err split: if_splits)

lemma lookup_one_row_ENOENT:
  "lookup_one_row ks rows = Inl ENOENT \<Longrightarrow> rows = []"
  by (cases rows) (auto simp: lookup_one_row_def dest: select_serial_row_err)

lemma sql_col_simps:
  "sql_col (a # r) 0 = a" "sql_col (a # b # r) (Suc 0) = b" "sql_col [a] (Suc 0) = SqlNull"
  by (simp_all add: sql_col_def)

lemma bind_str: "path \<noteq> [] \<Longrightarrow> bind_one_column column_str (StrVal path) = Inr (SqlText path)"
  by (simp add: bind_one_column_def str_val_def)

lemma bind_null: "bind_one_column column_null v = Inr SqlNull"
  by (simp add: bind_one_column_def)

lemma lookup_file_eq:
  "path \<noteq> [] \<Longrightarrow> lookup_file s path =
     (case lookup_one_row [column_uint64]
             (map (\<lambda>r. [sql_col r 0])
                (filter (\<lambda>r. sql_eq (sql_col r 1) (SqlText path)) (file_table s))) of
        Inl e \<Rightarrow> Err e
      | Inr vals \<Rightarrow> Ok (uint64_val (nth_val vals 0)))"
  by (simp add: lookup_file_def bind_str sql_col_simps)

lemma lookup_file_after_insert:
  assumes "lookup_file s path = Err ENOENT" "insert_file s path = (Ok r, s')"
  shows "lookup_file s' path = Ok r \<and> file_table s' = file_table s @ [[SqlInt r, SqlText path]]
     \<and> filter (\<lambda>r. sql_eq (sql_col r 1) (SqlText path)) (file_table s) = []"
proof -
  from assms(1) have ne: "path \<noteq> []" by (auto simp: lookup_file_def split: if_splits)
  from assms(1) have
    "lookup_one_row [column_uint64]
        (map (\<lambda>r. [sql_col r 0]) (filter (\<lambda>r. sql_eq (sql_col r 1) (SqlText path)) (file_table s)))
      = Inl ENOENT"
    by (simp add: lookup_file_eq[OF ne] split: sum.splits)
  then have "map (\<lambda>r. [sql_col r 0]) (filter (\<lambda>r. sql_eq (sql_col r 1) (SqlText path)) (file_table s)) = []"
    by (rule lookup_one_row_ENOENT)
  then have emp: "filter (\<lambda>r. sql_eq (sql_col r 1) (SqlText path)) (file_table s) = []"
    by simp
  from assms(2) ne have r: "r = next_rowid (file_table s)"
    and s': "s' = s\<lparr>file_table := file_table s @ [[SqlInt r, SqlText path]]\<rparr>"
    by (auto simp: insert_file_def Let_def bind_str bind_null sql_col_simps split: if_splits)
  have "lookup_file s' path = Ok r"
    using emp s'
    by (simp add: lookup_file_eq[OF ne] sql_col_simps sql_eq_def lookup_one_row_def
        select_serial_row_def select_one_column_def uint64_val_def nth_val_def)
  with s' emp show ?thesis by simp
qed

lemma sql_add_file_idem:
  assumes "sql_db_add_file fs db path = (Ok r, db')"
  shows "sql_db_add_file fs db' path = (Ok r, db')"
proof -
  from assms have g: "length path < INT_MAX" "\<not> readonly db"
    by (auto simp: sql_db_add_file_def split: if_splits)
  from assms g obtain cleaned where cl: "clean_path fs db path = Inr cleaned"
    by (auto simp: sql_db_add_file_def split: sum.splits)
  let ?p = "take (buf_len db) (c_string cleaned)"
  from assms g cl have ac: "fs_access fs (c_string cleaned) = None"
    by (auto simp: sql_db_add_file_def Let_def split: option.splits)
  show ?thesis
  proof (cases "lookup_file (sql db) ?p")
    case (Ok r0)
    with assms g cl ac have "r0 = r" "db' = db"
      by (auto simp: sql_db_add_file_def Let_def)
    with assms show ?thesis by simp
  next
    case Panic
    with assms g cl ac show ?thesis by (auto simp: sql_db_add_file_def Let_def)
  next
    case (Err e)
    with assms g cl ac have e: "e = ENOENT"
      by (auto simp: sql_db_add_file_def Let_def split: if_splits)
    with Err assms g cl ac obtain s' where ins: "insert_file (sql db) ?p = (Ok r, s')"
      and d: "db' = db\<lparr>sql := s'\<rparr>"
      by (auto simp: sql_db_add_file_def Let_def split: prod.splits)
    from lookup_file_after_insert[OF _ ins] Err e have "lookup_file s' ?p = Ok r" by simp
    moreover have "clean_path fs db' path = Inr cleaned" using cl d by (simp add: clean_path_def)
    ultimately show ?thesis using g ac d
      by (simp add: sql_db_add_file_def Let_def)
  qed
qed

lemma sql_add_file_entries:
  assumes "sql_db_add_file fs db path = (Ok r, db')"
    and "length (file_entries db (canonical_path fs db path)) \<le> 1"
  shows "length (file_entries db' (canonical_path fs db' path)) = 1"
proof -
  from assms have g: "length path < INT_MAX" "\<not> readonly db"
    by (auto simp: sql_db_add_file_def split: if_splits)
  from assms g obtain cleaned where cl: "clean_path fs db path = Inr cleaned"
    by (auto simp: sql_db_add_file_def split: sum.splits)
  then have rp: "fs_realpath fs (c_string path) = Inr cleaned"
    by (auto simp: clean_path_def split: if_splits)
  let ?p = "take (buf_len db) (c_string cleaned)"
  have cp: "canonical_path fs db path = ?p" using rp by (simp add: canonical_path_def)
  from assms g cl have ac: "fs_access fs (c_string cleaned) = None"
    by (auto simp: sql_db_add_file_def Let_def split: option.splits)
  show ?thesis
  proof (cases "lookup_file (sql db) ?p")
    case (Ok r0)
    with assms g cl ac have d: "db' = db"
      by (auto simp: sql_db_add_file_def Let_def)
    from Ok have ne: "?p \<noteq> []" by (auto simp: lookup_file_def split: if_splits)
    from Ok have "file_entries db ?p \<noteq> []"
      by (auto simp: lookup_file_eq[OF ne] file_entries_def lookup_one_row_def split: sum.splits)
    with assms(2) cp d show ?thesis by (cases "file_entries db ?p") auto
  next
    case Panic
    with assms g cl ac show ?thesis by (auto simp: sql_db_add_file_def Let_def)
  next
    case (Err e)
    with assms g cl ac have e: "e = ENOENT"
      by (auto simp: sql_db_add_file_def Let_def split: if_splits)
    with Err assms g cl ac obtain s' where ins: "insert_file (sql db) ?p = (Ok r, s')"
      and d: "db' = db\<lparr>sql := s'\<rparr>"
      by (auto simp: sql_db_add_file_def Let_def split: prod.splits)
    from lookup_file_after_insert[OF _ ins] Err e
    have "file_table s' = file_table (sql db) @ [[SqlInt r, SqlText ?p]]"
      and "filter (\<lambda>r. sql_eq (sql_col r 1) (SqlText ?p)) (file_table (sql db)) = []" by auto
    then show ?thesis using d rp
      by (simp add: file_entries_def canonical_path_def sql_eq_def sql_col_simps)
  qed
qed

lemma map_upt_Suc_shift:
  "map f [Suc 0..<Suc (Suc n)] = f (Suc 0) # map (\<lambda>i. f (Suc i)) [Suc 0..<Suc n]"
proof -
  have "[Suc 0..<Suc (Suc n)] = Suc 0 # map Suc [Suc 0..<Suc n]"
    by (metis map_Suc_upt upt_conv_Cons zero_less_Suc Suc_less_eq)
  then show ?thesis by (simp add: comp_def del: upt_Suc)
qed

lemma mem_add_file_ok:
  assumes "script h = []" "length path \<le> CF_STR_MAX_LEN"
  shows "\<exists>m'. mem_db_add_file h m path =
           (Ok (of_nat (Suc (length (items (files m))))), m', h)
         \<and> items (files m') = items (files m) @ [path]"
  using assms
  by (cases "path = []")
     (auto simp: mem_db_add_file_def cf_vec_reserve_def cf_malloc_def cf_str_dup_def
        cf_vec_commit_def cf_vec_len_def Let_def)

lemma mem_add_file_times:
  assumes "script h = []" "length path \<le> CF_STR_MAX_LEN"
  shows "\<exists>m'. add_file_times n fs h (db_kind_mem m) path =
           (map (\<lambda>i. Ok (of_nat (length (items (files m)) + i))) [1..<Suc n], db_kind_mem m', h)
         \<and> items (files m') = items (files m) @ replicate n path"
proof (induction n arbitrary: m)
  case 0
  then show ?case by simp
next
  case (Suc n)
  from mem_add_file_ok[OF assms, of m] obtain m1 where
    a: "mem_db_add_file h m path = (Ok (of_nat (Suc (length (items (files m))))), m1, h)"
    and i: "items (files m1) = items (files m) @ [path]" by blast
  from Suc.IH[of m1] obtain m2 where
    b: "add_file_times n fs h (db_kind_mem m1) path =
          (map (\<lambda>i. Ok (of_nat (length (items (files m1)) + i))) [1..<Suc n], db_kind_mem m2, h)"
    and j: "items (files m2) = items (files m1) @ replicate n path" by blast
  have sh: "map (\<lambda>i. Ok (of_nat (length (items (files m)) + i) :: u64)) [Suc 0..<Suc (Suc n)]
      = Ok (of_nat (Suc (length (items (files m))))) #
        map (\<lambda>i. Ok (of_nat (length (items (files m1)) + i))) [Suc 0..<Suc n]"
    using i by (simp add: map_upt_Suc_shift del: upt_Suc of_nat_Suc of_nat_add)
  have "add_file_times (Suc n) fs h (db_kind_mem m) path =
          (map (\<lambda>i. Ok (of_nat (length (items (files m)) + i))) [1..<Suc (Suc n)],
           db_kind_mem m2, h)"
    using a b by (simp add: cf_db_add_file_def sh del: upt_Suc of_nat_Suc of_nat_add)
  moreover have "items (files m2) = items (files m) @ replicate (Suc n) path"
    using i j by (simp add: replicate_app_Cons_same)
  ultimately show ?case by blast
qed

lemma nop_add_file_times:
  "add_file_times n fs h (db_kind_nop d) path =
     (map (\<lambda>i. Ok (file_id d + of_nat i)) [1..<Suc n],
      db_kind_nop (d\<lparr>file_id := file_id d + of_nat n\<rparr>), h)"
proof (induction n arbitrary: d)
  case 0
  then show ?case by simp
next
  case (Suc n)
  have "cf_db_add_file fs h (db_kind_nop d) path =
          (Ok (file_id d + 1), db_kind_nop (d\<lparr>file_id := file_id d + 1\<rparr>), h)"
    by (simp add: cf_db_add_file_def nop_db_add_file_def)
  moreover have "map (\<lambda>i. Ok (file_id d + of_nat i)) [Suc 0..<Suc (Suc n)]
      = Ok (file_id d + 1) # map (\<lambda>i. Ok (file_id d + 1 + of_nat i)) [Suc 0..<Suc n]"
    by (simp add: map_upt_Suc_shift add.assoc add.commute del: upt_Suc)
  ultimately show ?case using Suc.IH[of "d\<lparr>file_id := file_id d + 1\<rparr>"]
    by (simp add: add.assoc add.commute del: upt_Suc)
qed

lemma sql_add_file_times:
  "sql_db_add_file fs d path = (Ok r, d') \<Longrightarrow>
   add_file_times n fs h (db_kind_sql d') path = (replicate n (Ok r), db_kind_sql d', h)"
  by (induction n) (auto simp: sql_add_file_idem cf_db_add_file_def)

subsection \<open>Evaluating the example stores\<close>

lemma exec_row_good: "exec_find_typename_query (tn_row ''foo'' 1 1) =
   (Ok (\<lparr>tn_kind = 1, tn_base_type = 1, tn_name = ''foo''\<rparr>, loc_1_1), [LogInfo])"
  by (simp add: tn_row_def exec_find_typename_query_def select_serial_row_def
      select_one_column_def nth_val_def str_val_def uint32_val_def uint64_val_def loc_1_1_def
      word_sless_alt)

lemma exec_row_good2: "exec_find_typename_query (tn_row ''foo'' 2 2) =
   (Ok (\<lparr>tn_kind = 2, tn_base_type = 2, tn_name = ''foo''\<rparr>, loc_1_1), [LogInfo])"
  by (simp add: tn_row_def exec_find_typename_query_def select_serial_row_def
      select_one_column_def nth_val_def str_val_def uint32_val_def uint64_val_def loc_1_1_def
      word_sless_alt)

lemma exec_row_bad: "exec_find_typename_query (tn_row ''foo'' 7 1) =
   (Ok (\<lparr>tn_kind = 7, tn_base_type = 1, tn_name = ''foo''\<rparr>, loc_1_1), [LogInfo])"
  by (simp add: tn_row_def exec_find_typename_query_def select_serial_row_def
      select_one_column_def nth_val_def str_val_def uint32_val_def uint64_val_def loc_1_1_def
      word_sless_alt)

lemma exec_row_base0: "exec_find_typename_query (tn_row ''foo'' 1 0) =
   (Ok (\<lparr>tn_kind = 1, tn_base_type = 0, tn_name = ''foo''\<rparr>, loc_1_1), [LogInfo])"
  by (simp add: tn_row_def exec_find_typename_query_def select_serial_row_def
      select_one_column_def nth_val_def str_val_def uint32_val_def uint64_val_def loc_1_1_def
      word_sless_alt)

lemma exec_row_file0: "exec_find_typename_query (tn_row_file ''foo'' 1 1 0) =
   (Ok (\<lparr>tn_kind = 1, tn_base_type = 1, tn_name = ''foo''\<rparr>, loc_1_1\<lparr>loc_file := 0\<rparr>),
    [LogInfo])"
  by (simp add: tn_row_file_def exec_find_typename_query_def select_serial_row_def
      select_one_column_def nth_val_def str_val_def uint32_val_def uint64_val_def loc_1_1_def
      word_sless_alt)

lemma select_row_empty:
  "select_serial_row
     [column_str, column_uint32, column_uint64, column_uint64, column_uint64,
      column_uint32, column_uint32, column_uint32] (tn_row [] 1 1) =
   (Inr [StrVal [], IntVal 1, IntVal 1, IntVal 1, IntVal 0, IntVal 0, IntVal 1, IntVal 1],
    [LogCorrupt])"
  by (simp add: tn_row_def select_serial_row_def select_one_column_def word_sless_alt)

lemma exec_row_empty: "exec_find_typename_query (tn_row [] 1 1) = (Panic, [LogCorrupt])"
  by (simp add: exec_find_typename_query_def select_row_empty nth_val_def str_val_def)

lemma sanitize_good:
  "sanitize_typename \<lparr>tn_kind = 1, tn_base_type = 1, tn_name = ''foo''\<rparr> = (True, [])"
  by (simp add: sanitize_typename_def sanitize_typename_kind_def sanitize_rowid_def
      name_kind_direct_def word_sless_alt)

lemma sanitize_good2:
  "sanitize_typename \<lparr>tn_kind = 2, tn_base_type = 2, tn_name = ''foo''\<rparr> = (True, [])"
  by (simp add: sanitize_typename_def sanitize_typename_kind_def sanitize_rowid_def
      name_kind_direct_def name_kind_typedef_def word_sless_alt)

lemma sanitize_bad:
  "sanitize_typename \<lparr>tn_kind = 7, tn_base_type = 1, tn_name = ''foo''\<rparr> = (False, [LogInfo])"
  by (simp add: sanitize_typename_def sanitize_typename_kind_def
      name_kind_direct_def name_kind_typedef_def name_kind_var_def)

lemma kind_1_ok: "sanitize_typename_kind 1"
  by (simp add: sanitize_typename_kind_def name_kind_direct_def)

lemma kind_7_bad: "\<not> sanitize_typename_kind 7"
  by (simp add: sanitize_typename_kind_def name_kind_direct_def name_kind_typedef_def
      name_kind_var_def)

lemma rowid_1_ok: "sanitize_rowid 1"
  by (simp add: sanitize_rowid_def word_sless_alt)

lemma rowid_0_bad: "\<not> sanitize_rowid 0"
  by (simp add: sanitize_rowid_def)

lemma row_ok_good: "row_ok (tn_row ''foo'' 1 1)"
  by (simp add: row_ok_def exec_row_good sanitize_good)

lemma row_ok_good2: "row_ok (tn_row ''foo'' 2 2)"
  by (simp add: row_ok_def exec_row_good2 sanitize_good2)

lemma row_entry_good: "row_entry (tn_row ''foo'' 1 1) = \<lparr>tn_kind = 1, tn_base_type = 1, tn_name = ''foo''\<rparr>"
  by (simp add: row_entry_def exec_row_good)

lemma row_entry_good2: "row_entry (tn_row ''foo'' 2 2) = \<lparr>tn_kind = 2, tn_base_type = 2, tn_name = ''foo''\<rparr>"
  by (simp add: row_entry_def exec_row_good2)

lemma row_answer_bad: "row_answer (tn_row ''foo'' 7 1) = Some False"
  by (simp add: row_answer_def exec_row_bad sanitize_bad)

lemma row_answer_empty: "row_answer (tn_row [] 1 1) = None"
  by (simp add: row_answer_def exec_row_empty)

lemma sql_like_foo: "sql_like ''foo'' ''foo''"
  by (simp add: ascii_lower_def)

lemma sql_like_any_empty: "sql_like ''%'' []"
  by simp

lemma find_key:
  "key \<noteq> [] \<Longrightarrow> find_typenames s key = Ok \<lparr>st_pattern = SqlText key, st_pending = None\<rparr>"
  by (simp add: find_typenames_def bind_one_column_def str_val_def sql_col_def)

lemma tn_row_col0: "sql_col (tn_row n k b) 0 = SqlText n"
  by (simp add: tn_row_def sql_col_def)

lemma run_find_foo:
  "list_all (\<lambda>r. sql_col r 0 = SqlText ''foo'') rows \<Longrightarrow>
   run_find_typenames (sql (sql_store rows)) (SqlText ''foo'') = rows"
proof -
  assume a: "list_all (\<lambda>r. sql_col r 0 = SqlText ''foo'') rows"
  have "filter (\<lambda>r. case (SqlText ''foo'', sql_col r 0) of
                   (SqlText p, SqlText nm) \<Rightarrow> sql_like p nm
                 | _ \<Rightarrow> False) rows = rows"
    using a
    by (induction rows) (auto simp add: sql_like_foo)
  then show ?thesis by (simp add: run_find_typenames_def sql_store_def)
qed

lemma run_find_any_empty:
  "run_find_typenames (sql (sql_store [tn_row [] 1 1])) (SqlText ''%'') = [tn_row [] 1 1]"
  by (simp add: run_find_typenames_def sql_store_def tn_row_def sql_col_def)

lemma key_match_foo: "key_match ''foo'' \<lparr>tn_kind = k, tn_base_type = b, tn_name = ''foo''\<rparr>"
  by (simp add: key_match_def name_matches_def numeral_3_eq_3)


subsection \<open>C8\<close>

text \<open>
  C8 (amended). A type search by plain name resolves over the rows the typename-find
  cursor yields before its first false: not found when there are none, their common type
  reference when they agree, ambiguous otherwise. On the in-memory store (its location
  vector aligned with its typename vector) these are all rows whose name equals the key.
  On the on-disk store they are the rows of the \<open>LIKE\<close> query up to the first row that
  does not deserialise or fails sanitisation; the rows after that one are not looked at.
  When the enumeration reaches a row whose name is an empty text, the search traps.
  \<open>fuel\<close> bounds the \<open>next\<close> calls of the loop: it ends within as many as there are
  rows.
\<close>

theorem find_one_type_resolves:
  "(length (items (typenames m)) < 2 ^ 64 \<longrightarrow>
    length (items (locs_typename m)) = length (items (typenames m)) \<longrightarrow>
    length (items (typenames m)) \<le> fuel \<longrightarrow>
      find_one_type fuel (db_kind_mem m) key =
        Some (spec_resolve (map tn_base_type (filter (key_match key) (items (typenames m))))))
   \<and> (find_typenames (sql s) key = Ok st \<longrightarrow> stmt_rows (sql s) st = good @ rest \<longrightarrow>
       list_all row_ok good \<longrightarrow> (rest = [] \<or> row_answer (hd rest) = Some False) \<longrightarrow>
       length good \<le> fuel \<longrightarrow>
      find_one_type fuel (db_kind_sql s) key =
        Some (spec_resolve (map (\<lambda>r. tn_base_type (row_entry r)) good)))
   \<and> (find_typenames (sql s) key = Ok st \<longrightarrow> stmt_rows (sql s) st = good @ b # rest \<longrightarrow>
       list_all row_ok good \<longrightarrow> row_answer b = None \<longrightarrow>
       spec_resolve (map (\<lambda>r. tn_base_type (row_entry r)) good) \<noteq> Err EMLINK \<longrightarrow>
       length good \<le> fuel \<longrightarrow>
      find_one_type fuel (db_kind_sql s) key = Some Panic)"
  using mem_find_one_type[of m fuel key] sql_find_one_type[of s key st good rest fuel]
    sql_find_one_type_trap[of s key st good b rest fuel]
  by blast

theorem find_one_type_resolves_witness:
  "find_one_type 2
      (db_kind_mem (mem_store [\<lparr>tn_kind = 1, tn_base_type = 1, tn_name = ''foo''\<rparr>,
                               \<lparr>tn_kind = 2, tn_base_type = 1, tn_name = ''foo''\<rparr>])) ''foo''
     = Some (Ok 1)
   \<and> find_one_type 2 (db_kind_sql (sql_store [tn_row ''foo'' 1 1, tn_row ''foo'' 2 2])) ''foo''
     = Some (Err EMLINK)
   \<and> find_one_type 2 (db_kind_sql (sql_store [tn_row [] 1 1])) ''%'' = Some Panic"
proof -
  note t1 = find_one_type_resolves[of
      "mem_store [\<lparr>tn_kind = 1, tn_base_type = 1, tn_name = ''foo''\<rparr>,
                  \<lparr>tn_kind = 2, tn_base_type = 1, tn_name = ''foo''\<rparr>]"
      2 "''foo''" "sql_store [tn_row ''foo'' 1 1, tn_row ''foo'' 2 2]"
      "\<lparr>st_pattern = SqlText ''foo'', st_pending = None\<rparr>"
      "[tn_row ''foo'' 1 1, tn_row ''foo'' 2 2]" "[]"]
  note t2 = find_one_type_resolves[where fuel = 2 and key = "''%''"
      and s = "sql_store [tn_row [] 1 1]"
      and st = "\<lparr>st_pattern = SqlText ''%'', st_pending = None\<rparr>"
      and good = "[]" and b = "tn_row [] 1 1" and rest = "[]"]
  have a: "find_one_type 2
      (db_kind_mem (mem_store [\<lparr>tn_kind = 1, tn_base_type = 1, tn_name = ''foo''\<rparr>,
                               \<lparr>tn_kind = 2, tn_base_type = 1, tn_name = ''foo''\<rparr>])) ''foo''
     = Some (Ok 1)"
    using t1
    by (simp add: mem_store_def mem_db_open_def cf_vec_make_def key_match_foo spec_resolve_def)
  have b: "find_one_type 2 (db_kind_sql (sql_store [tn_row ''foo'' 1 1, tn_row ''foo'' 2 2]))
             ''foo'' = Some (Err EMLINK)"
    using t1
    by (simp add: find_key stmt_rows_def run_find_foo tn_row_col0 row_ok_good row_ok_good2
          row_entry_good row_entry_good2 spec_resolve_def)
  have c: "find_one_type 2 (db_kind_sql (sql_store [tn_row [] 1 1])) ''%'' = Some Panic"
    using t2
    by (simp add: find_key stmt_rows_def run_find_any_empty row_answer_empty spec_resolve_def)
  from a b c show ?thesis by simp
qed

text \<open>
  The on-disk store with the rows \<open>foo\<close> (type 1), a corrupt \<open>foo\<close> (kind 7) and
  \<open>foo\<close> (type 2): the search for \<open>foo\<close> resolves to type 1, although two matching
  rows reference different types. With the corrupt row first, nothing is found.
\<close>

theorem find_one_type_stops_at_corrupt_row:
  "find_one_type 3
     (db_kind_sql (sql_store [tn_row ''foo'' 1 1, tn_row ''foo'' 7 1, tn_row ''foo'' 2 2]))
     ''foo'' = Some (Ok 1)
   \<and> find_one_type 3 (db_kind_sql (sql_store [tn_row ''foo'' 7 1, tn_row ''foo'' 1 1])) ''foo''
     = Some (Err ENOENT)"
proof -
  have r1: "stmt_rows (sql (sql_store [tn_row ''foo'' 1 1, tn_row ''foo'' 7 1, tn_row ''foo'' 2 2]))
              \<lparr>st_pattern = SqlText ''foo'', st_pending = None\<rparr> =
            [tn_row ''foo'' 1 1] @ [tn_row ''foo'' 7 1, tn_row ''foo'' 2 2]"
    by (simp add: stmt_rows_def run_find_foo tn_row_col0)
  have r2: "stmt_rows (sql (sql_store [tn_row ''foo'' 7 1, tn_row ''foo'' 1 1]))
              \<lparr>st_pattern = SqlText ''foo'', st_pending = None\<rparr> =
            [] @ [tn_row ''foo'' 7 1, tn_row ''foo'' 1 1]"
    by (simp add: stmt_rows_def run_find_foo tn_row_col0)
  have k: "''foo'' \<noteq> []" by simp
  from sql_find_one_type[OF find_key[OF k] r1, of 3]
  have a: "find_one_type 3
     (db_kind_sql (sql_store [tn_row ''foo'' 1 1, tn_row ''foo'' 7 1, tn_row ''foo'' 2 2]))
     ''foo'' = Some (Ok 1)"
    by (simp add: row_ok_good row_answer_bad row_entry_good spec_resolve_def)
  from sql_find_one_type[OF find_key[OF k] r2, of 3]
  have b: "find_one_type 3 (db_kind_sql (sql_store [tn_row ''foo'' 7 1, tn_row ''foo'' 1 1]))
     ''foo'' = Some (Err ENOENT)"
    by (simp add: row_answer_bad spec_resolve_def)
  from a b show ?thesis by simp
qed

subsection \<open>C9\<close>

text \<open>
  C9 (amended). On the in-memory store (fewer than \<open>2 ^ 64\<close> rows, not written to
  meanwhile) \<open>next\<close> answers true once per row whose name equals the key and false ever
  after. On the on-disk store a false is not final. The find call gives a statement that
  has not run; one run of it has at most as many rows as the typename table. When the
  rows the statement has yet to return all deserialise and pass sanitisation, \<open>next\<close>
  answers true once per row, then false, and with that false the statement is again one
  that has not run: the calls after it answer as the calls on a statement that was never
  stepped, running the query again. And after a false at a row that does not deserialise
  or fails sanitisation, the following calls go on with the rows after it.
\<close>

theorem typename_cursor_finite:
  "(length (items (typenames m)) < 2 ^ 64 \<longrightarrow>
      cf_db_typename_find (db_kind_mem m) key = Ok (iter_mem (mem_db_typename_find m key))
      \<and> next_results k (db_kind_mem m) (iter_mem (mem_db_typename_find m key))
          = Some (replicate (min (length (filter (key_match key) (items (typenames m)))) k) True
                  @ replicate (k - length (filter (key_match key) (items (typenames m)))) False))
   \<and> (\<exists>st. cf_db_typename_find (db_kind_sql s) key =
               Ok (iter_sql \<lparr>stmt = st, cur_name = zero_typename, cur_loc = zero_loc\<rparr>)
         \<and> st_pending st = None)
   \<and> (st_pending (stmt it) = None \<longrightarrow>
         length (stmt_rows (sql s) (stmt it)) \<le> length (typename_table (sql s)))
   \<and> (stmt_rows (sql s) (stmt it) = rows \<longrightarrow> list_all row_ok rows \<longrightarrow>
         next_results (length rows + 1 + k) (db_kind_sql s) (iter_sql it) =
           map_option (\<lambda>bs. replicate (length rows) True @ False # bs)
             (next_results k (db_kind_sql s)
                (iter_sql (it\<lparr>stmt := (stmt it)\<lparr>st_pending := None\<rparr>\<rparr>))))
   \<and> (stmt_rows (sql s) (stmt it) = row # rest \<longrightarrow> row_answer row = Some False \<longrightarrow>
         (\<exists>it'. db_typename_iter_next (db_kind_sql s) (iter_sql it) = Some (False, iter_sql it')
            \<and> stmt_rows (sql s) (stmt it') = rest))"
proof (intro conjI impI)
  show "cf_db_typename_find (db_kind_mem m) key = Ok (iter_mem (mem_db_typename_find m key))"
    by (simp add: cf_db_typename_find_def)
next
  assume len: "length (items (typenames m)) < 2 ^ 64"
  show "next_results k (db_kind_mem m) (iter_mem (mem_db_typename_find m key))
          = Some (replicate (min (length (filter (key_match key) (items (typenames m)))) k) True
                  @ replicate (k - length (filter (key_match key) (items (typenames m)))) False)"
    using mem_next_results[OF len, of "mem_db_typename_find m key" 0 k]
    by (simp add: mem_db_typename_find_def)
next
  show "\<exists>st. cf_db_typename_find (db_kind_sql s) key =
               Ok (iter_sql \<lparr>stmt = st, cur_name = zero_typename, cur_loc = zero_loc\<rparr>)
         \<and> st_pending st = None"
    by (auto simp add: cf_db_typename_find_def sql_db_typename_find_def find_typenames_def
          bind_one_column_def split: sum.splits)
next
  assume "st_pending (stmt it) = None"
  then show "length (stmt_rows (sql s) (stmt it)) \<le> length (typename_table (sql s))"
    by (simp add: stmt_rows_def run_find_typenames_def)
next
  assume "stmt_rows (sql s) (stmt it) = rows" and "list_all row_ok rows"
  then show "next_results (length rows + 1 + k) (db_kind_sql s) (iter_sql it) =
           map_option (\<lambda>bs. replicate (length rows) True @ False # bs)
             (next_results k (db_kind_sql s)
                (iter_sql (it\<lparr>stmt := (stmt it)\<lparr>st_pending := None\<rparr>\<rparr>)))"
    by (rule sql_next_results_pass)
next
  assume r: "stmt_rows (sql s) (stmt it) = row # rest" and a: "row_answer row = Some False"
  from sql_next_bad[OF r a] obtain it' where
    "db_typename_iter_next (db_kind_sql s) (iter_sql it) = Some (False, iter_sql it')"
    "stmt it' = (stmt it)\<lparr>st_pending := Some rest\<rparr>"
    by blast
  then show "\<exists>it'. db_typename_iter_next (db_kind_sql s) (iter_sql it) = Some (False, iter_sql it')
            \<and> stmt_rows (sql s) (stmt it') = rest"
    by auto
qed

lemma cursor_foo_rows:
  "stmt_rows (sql (sql_store [tn_row ''foo'' 1 1])) (stmt (sql_cursor (SqlText ''foo'')))
     = [tn_row ''foo'' 1 1]"
  by (simp add: sql_cursor_def stmt_rows_def run_find_foo tn_row_col0)

lemma cursor_reset: "(sql_cursor pat)\<lparr>stmt := (stmt (sql_cursor pat))\<lparr>st_pending := None\<rparr>\<rparr> = sql_cursor pat"
  by (simp add: sql_cursor_def)

lemma cursor_foo_first:
  "next_results 1 (db_kind_sql (sql_store [tn_row ''foo'' 1 1]))
     (iter_sql (sql_cursor (SqlText ''foo''))) = Some [True]"
  using sql_next_ok[OF cursor_foo_rows row_ok_good] by simp

theorem typename_cursor_finite_witness:
  "next_results 3
      (db_kind_mem (mem_store [\<lparr>tn_kind = 1, tn_base_type = 1, tn_name = ''foo''\<rparr>]))
      (iter_mem (mem_db_typename_find
         (mem_store [\<lparr>tn_kind = 1, tn_base_type = 1, tn_name = ''foo''\<rparr>]) ''foo''))
     = Some [True, False, False]
   \<and> next_results 2 (db_kind_sql (sql_store [tn_row ''foo'' 1 1]))
        (iter_sql (sql_cursor (SqlText ''foo'')))
     = Some [True, False]"
proof -
  note t = typename_cursor_finite[of
      "mem_store [\<lparr>tn_kind = 1, tn_base_type = 1, tn_name = ''foo''\<rparr>]" "''foo''" 3
      "sql_store [tn_row ''foo'' 1 1]" "sql_cursor (SqlText ''foo'')" "[tn_row ''foo'' 1 1]"]
  note u = typename_cursor_finite[where k = 0 and s = "sql_store [tn_row ''foo'' 1 1]"
      and it = "sql_cursor (SqlText ''foo'')" and rows = "[tn_row ''foo'' 1 1]"]
  have a: "next_results 3
      (db_kind_mem (mem_store [\<lparr>tn_kind = 1, tn_base_type = 1, tn_name = ''foo''\<rparr>]))
      (iter_mem (mem_db_typename_find
         (mem_store [\<lparr>tn_kind = 1, tn_base_type = 1, tn_name = ''foo''\<rparr>]) ''foo''))
     = Some [True, False, False]"
    using t
    by (simp add: mem_store_def mem_db_open_def cf_vec_make_def key_match_foo numeral_3_eq_3)
  from u have "next_results (length [tn_row ''foo'' 1 1] + 1 + 0)
         (db_kind_sql (sql_store [tn_row ''foo'' 1 1])) (iter_sql (sql_cursor (SqlText ''foo'')))
       = map_option (\<lambda>bs. replicate (length [tn_row ''foo'' 1 1]) True @ False # bs)
           (next_results 0 (db_kind_sql (sql_store [tn_row ''foo'' 1 1]))
              (iter_sql ((sql_cursor (SqlText ''foo''))
                 \<lparr>stmt := (stmt (sql_cursor (SqlText ''foo'')))\<lparr>st_pending := None\<rparr>\<rparr>)))"
    using cursor_foo_rows row_ok_good by simp
  then have b: "next_results 2 (db_kind_sql (sql_store [tn_row ''foo'' 1 1]))
        (iter_sql (sql_cursor (SqlText ''foo''))) = Some [True, False]"
    by (simp add: numeral_2_eq_2)
  from a b show ?thesis by simp
qed

text \<open>
  The on-disk cursor for \<open>foo\<close> on a store with the one row \<open>foo\<close>: true, false, and
  true again. And on a corrupt row (kind 7) followed by a well-formed one: false, then
  true.
\<close>

theorem typename_cursor_false_then_true:
  "cf_db_typename_find (db_kind_sql (sql_store [tn_row ''foo'' 1 1])) ''foo''
     = Ok (iter_sql (sql_cursor (SqlText ''foo'')))
   \<and> next_results 4 (db_kind_sql (sql_store [tn_row ''foo'' 1 1]))
        (iter_sql (sql_cursor (SqlText ''foo'')))
     = Some [True, False, True, False]
   \<and> next_results 2 (db_kind_sql (sql_store [tn_row ''foo'' 7 1, tn_row ''foo'' 1 1]))
        (iter_sql (sql_cursor (SqlText ''foo'')))
     = Some [False, True]"
proof -
  have f: "cf_db_typename_find (db_kind_sql (sql_store [tn_row ''foo'' 1 1])) ''foo''
     = Ok (iter_sql (sql_cursor (SqlText ''foo'')))"
    by (simp add: cf_db_typename_find_def sql_db_typename_find_def find_key sql_cursor_def)
  have ok: "list_all row_ok [tn_row ''foo'' 1 1]" by (simp add: row_ok_good)
  have two: "length [tn_row ''foo'' 1 1] + 1 + 0 = 2" by simp
  have four: "length [tn_row ''foo'' 1 1] + 1 + 2 = 4" by simp
  note p0 = sql_next_results_pass[OF cursor_foo_rows ok, of 0, unfolded two cursor_reset]
  note p2 = sql_next_results_pass[OF cursor_foo_rows ok, of 2, unfolded four cursor_reset]
  have a: "next_results 4 (db_kind_sql (sql_store [tn_row ''foo'' 1 1]))
        (iter_sql (sql_cursor (SqlText ''foo''))) = Some [True, False, True, False]"
    using p0 p2 by simp
  have r: "stmt_rows (sql (sql_store [tn_row ''foo'' 7 1, tn_row ''foo'' 1 1]))
             (stmt (sql_cursor (SqlText ''foo''))) = [tn_row ''foo'' 7 1, tn_row ''foo'' 1 1]"
    by (simp add: sql_cursor_def stmt_rows_def run_find_foo tn_row_col0)
  from sql_next_bad[OF r row_answer_bad] obtain it' where
    n1: "db_typename_iter_next (db_kind_sql (sql_store [tn_row ''foo'' 7 1, tn_row ''foo'' 1 1]))
           (iter_sql (sql_cursor (SqlText ''foo''))) = Some (False, iter_sql it')" and
    s1: "stmt it' = (stmt (sql_cursor (SqlText ''foo'')))\<lparr>st_pending := Some [tn_row ''foo'' 1 1]\<rparr>"
    by blast
  have r': "stmt_rows (sql (sql_store [tn_row ''foo'' 7 1, tn_row ''foo'' 1 1])) (stmt it')
              = [tn_row ''foo'' 1 1]"
    by (simp add: s1)
  from sql_next_ok[OF r' row_ok_good]
  have b: "next_results 2 (db_kind_sql (sql_store [tn_row ''foo'' 7 1, tn_row ''foo'' 1 1]))
        (iter_sql (sql_cursor (SqlText ''foo''))) = Some [False, True]"
    using n1 by (simp add: numeral_2_eq_2)
  from f a b show ?thesis by simp
qed


subsection \<open>C6\<close>

lemma sanitize_typename_fails:
  "\<not> sanitize_typename_kind (tn_kind name) \<or> \<not> sanitize_rowid (tn_base_type name) \<Longrightarrow>
   sanitize_typename name = (False, [LogInfo])"
  by (auto simp: sanitize_typename_def)

lemma exec_ok_name:
  "exec_find_typename_query row = (Ok (name, loc), l) \<Longrightarrow> tn_name name \<noteq> []"
  by (auto simp: exec_find_typename_query_def split: prod.splits sum.splits if_splits)

text \<open>
  C6 (amended). The on-disk cursor steps onto a row and deserialises it. When the kind of
  the row is outside the enumeration or its base-type reference is not strictly between 0
  and the largest 64-bit integer, the failure is logged as corrupt and this call of
  \<open>next\<close> answers false; the statement has moved past the row, so it is the following
  call that goes on with the rows after it. No other identifier of the row is checked: with
  kind and base-type reference in range, \<open>next\<close> answers true whatever its file and
  function identifiers are. A row whose name is an empty text does not get as far as
  sanitisation: the assertion at the end of its deserialisation traps.
\<close>

theorem sql_iter_next_corrupt_row:
  "(stmt_rows (sql db) (stmt it) = row # rest \<longrightarrow>
    exec_find_typename_query row = (Ok (name, loc), l) \<longrightarrow>
    \<not> sanitize_typename_kind (tn_kind name) \<or> \<not> sanitize_rowid (tn_base_type name) \<longrightarrow>
      sql_db_typename_iter_next db it =
        Some (False, it\<lparr>stmt := (stmt it)\<lparr>st_pending := Some rest\<rparr>, cur_name := name,
                         cur_loc := loc\<rparr>,
              l @ [LogInfo] @ [LogCorrupt]))
   \<and> (stmt_rows (sql db) (stmt it) = row # rest \<longrightarrow>
      exec_find_typename_query row = (Ok (name, loc), l) \<longrightarrow>
      sanitize_typename_kind (tn_kind name) \<longrightarrow> sanitize_rowid (tn_base_type name) \<longrightarrow>
        sql_db_typename_iter_next db it =
          Some (True, it\<lparr>stmt := (stmt it)\<lparr>st_pending := Some rest\<rparr>, cur_name := name,
                          cur_loc := loc\<rparr>, l))
   \<and> (stmt_rows (sql db) (stmt it) = row # rest \<longrightarrow>
      select_serial_row
        [column_str, column_uint32, column_uint64, column_uint64, column_uint64,
         column_uint32, column_uint32, column_uint32] row = (Inr vals, l) \<longrightarrow>
      str_val (nth_val vals 0) = [] \<longrightarrow>
        sql_db_typename_iter_next db it = None)"
proof (intro conjI impI)
  assume r: "stmt_rows (sql db) (stmt it) = row # rest"
    and e: "exec_find_typename_query row = (Ok (name, loc), l)"
    and b: "\<not> sanitize_typename_kind (tn_kind name) \<or> \<not> sanitize_rowid (tn_base_type name)"
  from sanitize_typename_fails[OF b] step_row[OF r] e
  show "sql_db_typename_iter_next db it =
        Some (False, it\<lparr>stmt := (stmt it)\<lparr>st_pending := Some rest\<rparr>, cur_name := name,
                         cur_loc := loc\<rparr>,
              l @ [LogInfo] @ [LogCorrupt])"
    by (simp add: sql_db_typename_iter_next_def)
next
  assume r: "stmt_rows (sql db) (stmt it) = row # rest"
    and e: "exec_find_typename_query row = (Ok (name, loc), l)"
    and k: "sanitize_typename_kind (tn_kind name)" and i: "sanitize_rowid (tn_base_type name)"
  from exec_ok_name[OF e] k i have "sanitize_typename name = (True, [])"
    by (simp add: sanitize_typename_def)
  with step_row[OF r] e
  show "sql_db_typename_iter_next db it =
          Some (True, it\<lparr>stmt := (stmt it)\<lparr>st_pending := Some rest\<rparr>, cur_name := name,
                          cur_loc := loc\<rparr>, l)"
    by (simp add: sql_db_typename_iter_next_def)
next
  assume r: "stmt_rows (sql db) (stmt it) = row # rest"
    and v: "select_serial_row
        [column_str, column_uint32, column_uint64, column_uint64, column_uint64,
         column_uint32, column_uint32, column_uint32] row = (Inr vals, l)"
    and n: "str_val (nth_val vals 0) = []"
  from v n have "exec_find_typename_query row = (Panic, l)"
    by (simp add: exec_find_typename_query_def)
  with step_row[OF r] show "sql_db_typename_iter_next db it = None"
    by (simp add: sql_db_typename_iter_next_def)
qed

lemma cursor_rows:
  "list_all (\<lambda>r. sql_col r 0 = SqlText ''foo'') rows \<Longrightarrow>
   stmt_rows (sql (sql_store rows)) (stmt (sql_cursor (SqlText ''foo''))) = rows"
  by (simp add: sql_cursor_def stmt_rows_def run_find_foo)

lemma tn_row_file_col0: "sql_col (tn_row_file n k b f) 0 = SqlText n"
  by (simp add: tn_row_file_def sql_col_def)

lemma cursor_rows_empty:
  "stmt_rows (sql (sql_store [tn_row [] 1 1])) (stmt (sql_cursor (SqlText ''%'')))
     = [tn_row [] 1 1]"
  by (simp add: sql_cursor_def stmt_rows_def run_find_any_empty)

theorem sql_iter_next_corrupt_row_witness:
  "sql_db_typename_iter_next (sql_store [tn_row ''foo'' 7 1]) (sql_cursor (SqlText ''foo''))
     = Some (False,
         \<lparr>stmt = \<lparr>st_pattern = SqlText ''foo'', st_pending = Some []\<rparr>,
          cur_name = \<lparr>tn_kind = 7, tn_base_type = 1, tn_name = ''foo''\<rparr>, cur_loc = loc_1_1\<rparr>,
         [LogInfo, LogInfo, LogCorrupt])
   \<and> sql_db_typename_iter_next (sql_store [tn_row ''foo'' 1 0]) (sql_cursor (SqlText ''foo''))
     = Some (False,
         \<lparr>stmt = \<lparr>st_pattern = SqlText ''foo'', st_pending = Some []\<rparr>,
          cur_name = \<lparr>tn_kind = 1, tn_base_type = 0, tn_name = ''foo''\<rparr>, cur_loc = loc_1_1\<rparr>,
         [LogInfo, LogInfo, LogCorrupt])
   \<and> sql_db_typename_iter_next (sql_store [tn_row_file ''foo'' 1 1 0])
        (sql_cursor (SqlText ''foo''))
     = Some (True,
         \<lparr>stmt = \<lparr>st_pattern = SqlText ''foo'', st_pending = Some []\<rparr>,
          cur_name = \<lparr>tn_kind = 1, tn_base_type = 1, tn_name = ''foo''\<rparr>,
          cur_loc = loc_1_1\<lparr>loc_file := 0\<rparr>\<rparr>,
         [LogInfo])
   \<and> sql_db_typename_iter_next (sql_store [tn_row [] 1 1]) (sql_cursor (SqlText ''%'')) = None"
proof -
  note t1 = sql_iter_next_corrupt_row[where db = "sql_store [tn_row ''foo'' 7 1]"
      and it = "sql_cursor (SqlText ''foo'')" and row = "tn_row ''foo'' 7 1" and rest = "[]"
      and name = "\<lparr>tn_kind = 7, tn_base_type = 1, tn_name = ''foo''\<rparr>" and loc = loc_1_1
      and l = "[LogInfo]"]
  note t2 = sql_iter_next_corrupt_row[where db = "sql_store [tn_row ''foo'' 1 0]"
      and it = "sql_cursor (SqlText ''foo'')" and row = "tn_row ''foo'' 1 0" and rest = "[]"
      and name = "\<lparr>tn_kind = 1, tn_base_type = 0, tn_name = ''foo''\<rparr>" and loc = loc_1_1
      and l = "[LogInfo]"]
  note t3 = sql_iter_next_corrupt_row[where db = "sql_store [tn_row_file ''foo'' 1 1 0]"
      and it = "sql_cursor (SqlText ''foo'')" and row = "tn_row_file ''foo'' 1 1 0"
      and rest = "[]"
      and name = "\<lparr>tn_kind = 1, tn_base_type = 1, tn_name = ''foo''\<rparr>"
      and loc = "loc_1_1\<lparr>loc_file := 0\<rparr>" and l = "[LogInfo]"]
  note t4 = sql_iter_next_corrupt_row[where db = "sql_store [tn_row [] 1 1]"
      and it = "sql_cursor (SqlText ''%'')" and row = "tn_row [] 1 1" and rest = "[]"
      and vals = "[StrVal [], IntVal 1, IntVal 1, IntVal 1, IntVal 0, IntVal 0, IntVal 1,
                   IntVal 1]"
      and l = "[LogCorrupt]"]
  have a: "sql_db_typename_iter_next (sql_store [tn_row ''foo'' 7 1])
             (sql_cursor (SqlText ''foo''))
     = Some (False,
         \<lparr>stmt = \<lparr>st_pattern = SqlText ''foo'', st_pending = Some []\<rparr>,
          cur_name = \<lparr>tn_kind = 7, tn_base_type = 1, tn_name = ''foo''\<rparr>, cur_loc = loc_1_1\<rparr>,
         [LogInfo, LogInfo, LogCorrupt])"
    using t1 by (simp add: cursor_rows tn_row_col0 exec_row_bad kind_7_bad) (simp add: sql_cursor_def)
  have b: "sql_db_typename_iter_next (sql_store [tn_row ''foo'' 1 0])
             (sql_cursor (SqlText ''foo''))
     = Some (False,
         \<lparr>stmt = \<lparr>st_pattern = SqlText ''foo'', st_pending = Some []\<rparr>,
          cur_name = \<lparr>tn_kind = 1, tn_base_type = 0, tn_name = ''foo''\<rparr>, cur_loc = loc_1_1\<rparr>,
         [LogInfo, LogInfo, LogCorrupt])"
    using t2 by (simp add: cursor_rows tn_row_col0 exec_row_base0 rowid_0_bad) (simp add: sql_cursor_def)
  have c: "sql_db_typename_iter_next (sql_store [tn_row_file ''foo'' 1 1 0])
        (sql_cursor (SqlText ''foo''))
     = Some (True,
         \<lparr>stmt = \<lparr>st_pattern = SqlText ''foo'', st_pending = Some []\<rparr>,
          cur_name = \<lparr>tn_kind = 1, tn_base_type = 1, tn_name = ''foo''\<rparr>,
          cur_loc = loc_1_1\<lparr>loc_file := 0\<rparr>\<rparr>,
         [LogInfo])"
    using t3
    by (simp add: cursor_rows tn_row_file_col0 exec_row_file0 kind_1_ok rowid_1_ok)
       (simp add: sql_cursor_def)
  have d: "sql_db_typename_iter_next (sql_store [tn_row [] 1 1]) (sql_cursor (SqlText ''%''))
             = None"
    using t4 by (simp add: cursor_rows_empty select_row_empty nth_val_def str_val_def)
  from a b c d show ?thesis by simp
qed

text \<open>
  The cursor on a corrupt row followed by a well-formed row: \<open>next\<close> answers false at
  the corrupt row instead of going on to the well-formed one, which is still to come.
\<close>

theorem sql_iter_next_stops_at_corrupt_row:
  "row_ok (tn_row ''foo'' 1 1)
   \<and> sql_db_typename_iter_next (sql_store [tn_row ''foo'' 7 1, tn_row ''foo'' 1 1])
        (sql_cursor (SqlText ''foo''))
     = Some (False,
         \<lparr>stmt = \<lparr>st_pattern = SqlText ''foo'', st_pending = Some [tn_row ''foo'' 1 1]\<rparr>,
          cur_name = \<lparr>tn_kind = 7, tn_base_type = 1, tn_name = ''foo''\<rparr>,
          cur_loc = loc_1_1\<rparr>,
         [LogInfo, LogInfo, LogCorrupt])"
proof -
  have r: "stmt_rows (sql (sql_store [tn_row ''foo'' 7 1, tn_row ''foo'' 1 1]))
             (stmt (sql_cursor (SqlText ''foo''))) = [tn_row ''foo'' 7 1, tn_row ''foo'' 1 1]"
    by (simp add: cursor_rows tn_row_col0)
  from step_row[OF r] show ?thesis
    by (simp add: sql_db_typename_iter_next_def exec_row_bad sanitize_bad row_ok_good
          sql_cursor_def)
qed

subsection \<open>C7\<close>

text \<open>
  C7. \<open>mem_db_member_insert\<close> on the empty store, with the two vector reservations
  succeeding and the allocation for the copy of the name failing: the call returns
  \<open>ENOMEM\<close>, no member entry is added, and the member location vector has gained an
  entry.
\<close>

theorem mem_db_member_insert_partial_write:
  "(case cf_db_member_insert \<lparr>script = [True, True, False], stale_loc = (0, 0, 0, 0, 0)\<rparr>
          (db_kind_mem mem_db_open) loc_1_1
          \<lparr>mb_parent = 1, mb_base_type = 0, mb_name = ''a''\<rparr> of
      (r, db_kind_mem db', h') \<Rightarrow>
         r = Err ENOMEM \<and> items (members db') = []
         \<and> items (locs_member db') = [zero_loc]
    | _ \<Rightarrow> False)"
  by (simp add: cf_db_member_insert_def mem_db_member_insert_def mem_db_open_def
      cf_vec_reserve_def cf_vec_make_def cf_malloc_def cf_str_dup_def CF_STR_MAX_LEN_def
      cf_vec_commit_def cf_vec_abort_def unwritten_slot_def zero_loc_def)

subsection \<open>C1\<close>

text \<open>
  C1. In-memory store: after a type and its direct name \<open>foo\<close> are inserted in file 1,
  a lookup of \<open>foo\<close> with kind typedef in file 1 succeeds, and its output is 0, the
  index of the typename entry, not the reference 1 of the underlying type. On-disk store:
  with a direct name \<open>foo\<close> (type 1) and a typedef name \<open>foo\<close> (type 2) in file 1,
  the lookup of \<open>foo\<close> with kind typedef is not-found, although the second row matches
  file, name and kind.
\<close>

theorem typename_lookup_kind:
  "(case mem_db_type_insert heap_ok mem_db_open loc_1_1
           \<lparr>te_kind = type_kind_struct, te_complete = True\<rparr> of
      (r1, db1, h1) \<Rightarrow>
        (case mem_db_typename_insert h1 db1 loc_1_1
                \<lparr>tn_kind = name_kind_direct, tn_base_type = 1, tn_name = ''foo''\<rparr> of
           (r2, db2, h2) \<Rightarrow>
             r1 = Ok 1 \<and> r2 = Ok ()
             \<and> cf_db_typename_lookup (db_kind_mem db2) loc_1_1
                  \<lparr>tn_kind = name_kind_typedef, tn_base_type = 0, tn_name = ''foo''\<rparr> = Ok 0))
   \<and> (case sql_db_typename_insert (sql_store []) loc_1_1
              \<lparr>tn_kind = name_kind_direct, tn_base_type = 1, tn_name = ''foo''\<rparr> of
         (r1, db1) \<Rightarrow>
           (case sql_db_typename_insert db1 loc_1_1
                   \<lparr>tn_kind = name_kind_typedef, tn_base_type = 2, tn_name = ''foo''\<rparr> of
              (r2, db2) \<Rightarrow>
                r1 = Ok () \<and> r2 = Ok ()
                \<and> typename_table (sql db2) = [tn_row ''foo'' 1 1, tn_row ''foo'' 2 2]
                \<and> cf_db_typename_lookup (db_kind_sql db2) loc_1_1
                     \<lparr>tn_kind = name_kind_typedef, tn_base_type = 0, tn_name = ''foo''\<rparr>
                   = Err ENOENT))"
proof -
  have m: "(case mem_db_type_insert heap_ok mem_db_open loc_1_1
           \<lparr>te_kind = type_kind_struct, te_complete = True\<rparr> of
      (r1, db1, h1) \<Rightarrow>
        (case mem_db_typename_insert h1 db1 loc_1_1
                \<lparr>tn_kind = name_kind_direct, tn_base_type = 1, tn_name = ''foo''\<rparr> of
           (r2, db2, h2) \<Rightarrow>
             r1 = Ok 1 \<and> r2 = Ok ()
             \<and> cf_db_typename_lookup (db_kind_mem db2) loc_1_1
                  \<lparr>tn_kind = name_kind_typedef, tn_base_type = 0, tn_name = ''foo''\<rparr> = Ok 0))"
    by (simp add: mem_db_type_insert_def mem_db_typename_insert_def mem_db_open_def
        cf_vec_reserve_def cf_vec_make_def heap_ok_def cf_malloc_def cf_str_dup_def
        CF_STR_MAX_LEN_def cf_vec_commit_def cf_vec_abort_def cf_vec_len_def
        cf_db_typename_lookup_def mem_db_typename_lookup_def cf_vec_at_def
        typename_lookup_loop.simps numeral_3_eq_3 loc_1_1_def)
  have i1: "sql_db_typename_insert (sql_store []) loc_1_1
              \<lparr>tn_kind = name_kind_direct, tn_base_type = 1, tn_name = ''foo''\<rparr>
            = (Ok (), sql_store [tn_row ''foo'' 1 1])"
    by (simp add: sql_db_typename_insert_def insert_typename_def sql_store_def loc_cols8_def
        loc_1_1_def bind_one_column_def uint32_val_def uint64_val_def str_val_def INT_MAX_def
        INT64_MAX_def name_kind_direct_def tn_row_def)
  have i2: "sql_db_typename_insert (sql_store [tn_row ''foo'' 1 1]) loc_1_1
              \<lparr>tn_kind = name_kind_typedef, tn_base_type = 2, tn_name = ''foo''\<rparr>
            = (Ok (), sql_store [tn_row ''foo'' 1 1, tn_row ''foo'' 2 2])"
    by (simp add: sql_db_typename_insert_def insert_typename_def sql_store_def loc_cols8_def
        loc_1_1_def bind_one_column_def uint32_val_def uint64_val_def str_val_def INT_MAX_def
        INT64_MAX_def name_kind_typedef_def tn_row_def)
  have lk: "cf_db_typename_lookup (db_kind_sql (sql_store [tn_row ''foo'' 1 1, tn_row ''foo'' 2 2]))
              loc_1_1 \<lparr>tn_kind = name_kind_typedef, tn_base_type = 0, tn_name = ''foo''\<rparr>
            = Err ENOENT"
    by (simp add: cf_db_typename_lookup_def sql_db_typename_lookup_def lookup_typename_def
        sql_store_def loc_1_1_def bind_one_column_def uint64_val_def str_val_def INT64_MAX_def
        tn_row_def sql_col_def sql_eq_def lookup_one_row_def select_serial_row_def
        select_one_column_def nth_val_def uint32_val_def name_kind_typedef_def word_sless_alt)
  have t: "typename_table (sql (sql_store [tn_row ''foo'' 1 1, tn_row ''foo'' 2 2]))
            = [tn_row ''foo'' 1 1, tn_row ''foo'' 2 2]"
    by (simp add: sql_store_def)
  show ?thesis using m i1 i2 lk t by simp
qed

subsection \<open>C3\<close>

text \<open>
  C3 (amended). On the on-disk store, once add-file has succeeded for a path, any number
  of further calls with that path succeed, return the same handle and leave the store as
  it is; the file table then holds exactly one entry for the canonical path, provided it
  held at most one before. The in-memory store (allocations succeeding) and the no-op
  store do not look for an earlier entry: every call returns the next handle, and the
  in-memory store appends one more entry for the path each time.
\<close>

theorem add_file_by_backend:
  "(cf_db_add_file fs h (db_kind_sql d) path = (Ok r, db_kind_sql d', h') \<longrightarrow>
      add_file_times n fs h' (db_kind_sql d') path = (replicate n (Ok r), db_kind_sql d', h')
      \<and> (length (file_entries d (canonical_path fs d path)) \<le> 1 \<longrightarrow>
           length (file_entries d' (canonical_path fs d' path)) = 1))
   \<and> (script h = [] \<longrightarrow> length path \<le> CF_STR_MAX_LEN \<longrightarrow>
        (\<exists>m'. add_file_times n fs h (db_kind_mem m) path =
                 (map (\<lambda>i. Ok (of_nat (length (items (files m)) + i))) [1..<Suc n],
                  db_kind_mem m', h)
              \<and> items (files m') = items (files m) @ replicate n path))
   \<and> add_file_times n fs h (db_kind_nop p) path =
        (map (\<lambda>i. Ok (file_id p + of_nat i)) [1..<Suc n],
         db_kind_nop (p\<lparr>file_id := file_id p + of_nat n\<rparr>), h)"
proof (intro conjI impI)
  assume a: "cf_db_add_file fs h (db_kind_sql d) path = (Ok r, db_kind_sql d', h')"
  then have s: "sql_db_add_file fs d path = (Ok r, d')"
    by (auto simp: cf_db_add_file_def split: prod.splits)
  then show "add_file_times n fs h' (db_kind_sql d') path
      = (replicate n (Ok r), db_kind_sql d', h')"
    by (rule sql_add_file_times)
  assume "length (file_entries d (canonical_path fs d path)) \<le> 1"
  with s show "length (file_entries d' (canonical_path fs d' path)) = 1"
    by (rule sql_add_file_entries)
next
  assume "script h = []" "length path \<le> CF_STR_MAX_LEN"
  then show "\<exists>m'. add_file_times n fs h (db_kind_mem m) path =
                 (map (\<lambda>i. Ok (of_nat (length (items (files m)) + i))) [1..<Suc n],
                  db_kind_mem m', h)
              \<and> items (files m') = items (files m) @ replicate n path"
    by (rule mem_add_file_times)
next
  show "add_file_times n fs h (db_kind_nop p) path =
        (map (\<lambda>i. Ok (file_id p + of_nat i)) [1..<Suc n],
         db_kind_nop (p\<lparr>file_id := file_id p + of_nat n\<rparr>), h)"
    by (rule nop_add_file_times)
qed

lemma sql_add_first:
  "cf_db_add_file fs_plain heap_ok (db_kind_sql (sql_store [])) ''/t.c'' =
     (Ok 1, db_kind_sql ((sql_store [])\<lparr>sql := (sql (sql_store []))
                            \<lparr>file_table := [[SqlInt 1, SqlText ''/t.c'']]\<rparr>\<rparr>), heap_ok)"
  by (simp add: cf_db_add_file_def sql_db_add_file_def sql_store_def INT_MAX_def clean_path_def
      fs_plain_def c_string_def lookup_file_def bind_one_column_def str_val_def
      lookup_one_row_def insert_file_def next_rowid_def max_rowid_def sql_col_def
      word_sless_alt)

theorem add_file_by_backend_witness:
  "add_file_times 2 fs_plain heap_ok
      (db_kind_sql ((sql_store [])\<lparr>sql := (sql (sql_store []))
                            \<lparr>file_table := [[SqlInt 1, SqlText ''/t.c'']]\<rparr>\<rparr>)) ''/t.c''
     = ([Ok 1, Ok 1],
        db_kind_sql ((sql_store [])\<lparr>sql := (sql (sql_store []))
                            \<lparr>file_table := [[SqlInt 1, SqlText ''/t.c'']]\<rparr>\<rparr>), heap_ok)
   \<and> (\<exists>m'. add_file_times 2 fs_plain heap_ok (db_kind_mem mem_db_open) ''/t.c''
               = ([Ok 1, Ok 2], db_kind_mem m', heap_ok)
            \<and> items (files m') = [''/t.c'', ''/t.c''])"
proof -
  let ?d' = "(sql_store [])\<lparr>sql := (sql (sql_store []))
                            \<lparr>file_table := [[SqlInt 1, SqlText ''/t.c'']]\<rparr>\<rparr>"
  note t = add_file_by_backend[of fs_plain heap_ok "sql_store []" "''/t.c''" 1 ?d'
      heap_ok 2 mem_db_open]
  have h: "script heap_ok = []" by (simp add: heap_ok_def)
  have l: "length ''/t.c'' \<le> CF_STR_MAX_LEN" by (simp add: CF_STR_MAX_LEN_def)
  from t sql_add_first have
    "add_file_times 2 fs_plain heap_ok (db_kind_sql ?d') ''/t.c''
       = (replicate 2 (Ok 1), db_kind_sql ?d', heap_ok)"
    by blast
  then have a: "add_file_times 2 fs_plain heap_ok (db_kind_sql ?d') ''/t.c''
       = ([Ok 1, Ok 1], db_kind_sql ?d', heap_ok)"
    by (simp add: numeral_2_eq_2)
  from t h l obtain m' where
    "add_file_times 2 fs_plain heap_ok (db_kind_mem mem_db_open) ''/t.c'' =
         (map (\<lambda>i. Ok (of_nat (length (items (files mem_db_open)) + i))) [1..<Suc 2],
          db_kind_mem m', heap_ok)"
    and i: "items (files m') = items (files mem_db_open) @ replicate 2 ''/t.c''"
    by blast
  then have b: "add_file_times 2 fs_plain heap_ok (db_kind_mem mem_db_open) ''/t.c''
       = ([Ok 1, Ok 2], db_kind_mem m', heap_ok)"
    by (simp add: mem_db_open_def cf_vec_make_def numeral_2_eq_2 upt_rec)
  from i have c: "items (files m') = [''/t.c'', ''/t.c'']"
    by (simp add: mem_db_open_def cf_vec_make_def numeral_2_eq_2)
  from a b c show ?thesis by blast
qed

text \<open>
  Two add-file calls with one path on the empty in-memory store: both succeed, the
  handles are 1 and 2, and the file vector holds the path twice.
\<close>

theorem mem_add_file_twice:
  "add_file_times 2 fs_plain heap_ok (db_kind_mem mem_db_open) ''/t.c'' =
     ([Ok 1, Ok 2],
      db_kind_mem (mem_db_open\<lparr>files := \<lparr>items = [''/t.c'', ''/t.c''], capacity = 8\<rparr>\<rparr>),
      heap_ok)"
  by (simp add: numeral_2_eq_2 cf_db_add_file_def mem_db_add_file_def mem_db_open_def
      cf_vec_reserve_def cf_vec_make_def heap_ok_def cf_malloc_def cf_str_dup_def
      CF_STR_MAX_LEN_def cf_vec_commit_def cf_vec_len_def)

subsection \<open>Committing the scoreboard\<close>

lemma commit_members_skip:
  "commit_members nm ms ctx =
   commit_members nm (filter (\<lambda>m. cf_map8_lookup nm (mp_parent m) \<noteq> None) ms) ctx"
proof (induction ms arbitrary: ctx)
  case Nil
  show ?case by simp
next
  case (Cons m ms)
  show ?case
  proof (cases "cf_map8_lookup nm (mp_parent m)")
    case None
    then show ?thesis using Cons.IH by (simp add: translate_struct_type_def)
  next
    case (Some r)
    then show ?thesis using Cons.IH
      by (simp add: translate_struct_type_def split: option.splits)
  qed
qed

lemma commit_type_uses_skip:
  "commit_type_uses nm us ctx =
   commit_type_uses nm (filter (\<lambda>u. cf_map8_lookup nm (up_where u) \<noteq> None) us) ctx"
proof (induction us arbitrary: ctx)
  case Nil
  show ?case by simp
next
  case (Cons u us)
  show ?case
  proof (cases "cf_map8_lookup nm (up_where u)")
    case None
    then show ?thesis using Cons.IH by (simp add: translate_struct_type_def)
  next
    case (Some r)
    then show ?thesis using Cons.IH
      by (simp add: translate_struct_type_def split: option.splits)
  qed
qed

lemma commit_one_struct_scratch:
  assumes "commit_one_struct pkg nm ctx = Some (nm', ctx')"
  shows "nm' = nm \<or>
         (\<exists>r. nm' = nm @ [(pk_type_id pkg, r)] \<and> r \<noteq> 0 \<and>
              cf_db_typename_lookup (ctx_db ctx) (pk_loc1 pkg) (pk_name pkg) = Err ENOENT \<and>
              fst (cf_db_type_insert (ctx_heap ctx) (ctx_db ctx) (pk_loc0 pkg) (pk_entry pkg)) = Ok r)"
  using assms
  by (auto simp add: commit_one_struct_def type_map_insert_def cf_map8_insert_def
           split: res.splits option.splits if_splits prod.splits)

lemma commit_one_struct_found:
  assumes "cf_db_typename_lookup (ctx_db ctx) (pk_loc1 pkg) (pk_name pkg) = Ok r"
      and "commit_one_struct pkg nm ctx = Some (nm', ctx')"
  shows "nm' = nm"
  using assms
  by (auto simp add: commit_one_struct_def split: option.splits)

lemma commit_new_types_keys:
  assumes "commit_new_types unnamed pkgs nm0 ctx = Some (nm, ctx')"
  shows "\<exists>added. nm = nm0 @ added \<and>
           (\<forall>kv \<in> set added. \<exists>pkg \<in> set pkgs. pk_type_id pkg = fst kv \<and>
                cf_map8_lookup unnamed (fst kv) = None)"
  using assms
proof (induction pkgs arbitrary: nm0 ctx)
  case Nil
  then show ?case by simp
next
  case (Cons p ps)
  show ?case
  proof (cases "cf_map8_lookup unnamed (pk_type_id p)")
    case (Some d)
    with Cons.prems have "commit_new_types unnamed ps nm0 ctx = Some (nm, ctx')"
      by (simp split: if_splits)
    from Cons.IH[OF this] show ?thesis by auto
  next
    case None
    with Cons.prems obtain nm1 ctx1 where
      s: "commit_one_struct p nm0 ctx = Some (nm1, ctx1)" and
      r: "commit_new_types unnamed ps nm1 ctx1 = Some (nm, ctx')"
      by (auto split: if_splits option.splits)
    from Cons.IH[OF r] obtain added where
      a: "nm = nm1 @ added" and
      b: "\<forall>kv \<in> set added. \<exists>pkg \<in> set ps. pk_type_id pkg = fst kv \<and>
                cf_map8_lookup unnamed (fst kv) = None"
      by blast
    from commit_one_struct_scratch[OF s]
    have "nm1 = nm0 \<or> (\<exists>r. nm1 = nm0 @ [(pk_type_id p, r)])" by blast
    then show ?thesis
    proof
      assume "nm1 = nm0"
      with a b show ?thesis by auto
    next
      assume "\<exists>r. nm1 = nm0 @ [(pk_type_id p, r)]"
      then obtain r where "nm1 = nm0 @ [(pk_type_id p, r)]" ..
      with a have "nm = nm0 @ ((pk_type_id p, r) # added)" by simp
      moreover have "\<forall>kv \<in> set ((pk_type_id p, r) # added).
                \<exists>pkg \<in> set (p # ps). pk_type_id pkg = fst kv \<and>
                cf_map8_lookup unnamed (fst kv) = None"
        using b None by auto
      ultimately show ?thesis by blast
    qed
  qed
qed

lemma heap_ok_malloc: "cf_malloc heap_ok = (True, heap_ok)"
  by (simp add: cf_malloc_def heap_ok_def)

lemma global_new_types:
  "\<exists>c. commit_new_types [(5, 0)] [staged_outer, staged_global] []
          (make_index_ctx (db_kind_mem mem_db_open) heap_ok) = Some ([(6, 1)], c)"
  by (simp add: staged_outer_def staged_global_def make_index_ctx_def commit_one_struct_def
        cf_db_typename_lookup_def mem_db_typename_lookup_def mem_db_open_def cf_vec_make_def
        cf_vec_len_def cf_db_type_insert_def mem_db_type_insert_def cf_vec_reserve_def
        heap_ok_malloc cf_vec_commit_def cf_db_typename_insert_def mem_db_typename_insert_def
        cf_str_dup_def CF_STR_MAX_LEN_def type_map_insert_def cf_map8_insert_def)


lemma global_commit_result:
  "\<exists>c. commit_struct_scoreboard outer_global_sb
          (make_index_ctx (db_kind_mem mem_db_open) heap_ok) = Some c
      \<and> (\<exists>d. ctx_db c = db_kind_mem d
           \<and> items (members d) = [\<lparr>mb_parent = 1, mb_base_type = 0, mb_name = ''a''\<rparr>]
           \<and> items (user_types d) = [\<lparr>te_kind = type_kind_struct, te_complete = True\<rparr>])"
  by (simp add: outer_global_sb_def make_struct_scoreboard_def staged_member_def
        commit_struct_scoreboard_def
        staged_outer_def staged_global_def make_index_ctx_def commit_one_struct_def
        cf_db_typename_lookup_def mem_db_typename_lookup_def mem_db_open_def cf_vec_make_def
        cf_vec_len_def cf_db_type_insert_def mem_db_type_insert_def cf_vec_reserve_def
        heap_ok_malloc cf_vec_commit_def cf_db_typename_insert_def mem_db_typename_insert_def
        cf_str_dup_def CF_STR_MAX_LEN_def type_map_insert_def cf_map8_insert_def
        translate_struct_type_def translate_member_type_def commit_one_member_def
        cf_db_member_insert_def mem_db_member_insert_def)

text \<open>
  C2. In a commit of the scoreboard, a staged member or type use is inserted only if the
  canonical type of its enclosing record is in the scratch map of that commit: the commit
  equals the commit of the scoreboard without the members and uses whose enclosing record
  is not in the scratch map. Every key of the scratch map is the type of a staged record
  that is not in \<open>unnamed_types\<close>. One step adds to the scratch map only the record at
  hand, with the reference of the type row just inserted, after its name was looked up and
  not found; a record found in the store leaves the scratch map as it is.
\<close>

theorem commit_members_need_new_parent:
  assumes "commit_new_types (unnamed_types sb) (new_types sb) [] ctx = Some (nm, ctx1)"
  shows "commit_struct_scoreboard sb ctx =
         commit_struct_scoreboard
           (sb\<lparr>sb_members := filter (\<lambda>m. cf_map8_lookup nm (mp_parent m) \<noteq> None) (sb_members sb),
               sb_type_uses := filter (\<lambda>u. cf_map8_lookup nm (up_where u) \<noteq> None)
                                 (sb_type_uses sb)\<rparr>) ctx
       \<and> (\<forall>kv \<in> set nm. \<exists>pkg \<in> set (new_types sb).
              pk_type_id pkg = fst kv \<and> cf_map8_lookup (unnamed_types sb) (fst kv) = None)
       \<and> (\<forall>pkg m c m' c'. commit_one_struct pkg m c = Some (m', c') \<longrightarrow>
              (m' = m \<or>
               (\<exists>r. m' = m @ [(pk_type_id pkg, r)] \<and> r \<noteq> 0 \<and>
                  cf_db_typename_lookup (ctx_db c) (pk_loc1 pkg) (pk_name pkg) = Err ENOENT \<and>
                  fst (cf_db_type_insert (ctx_heap c) (ctx_db c) (pk_loc0 pkg) (pk_entry pkg))
                    = Ok r))
              \<and> ((\<exists>r. cf_db_typename_lookup (ctx_db c) (pk_loc1 pkg) (pk_name pkg) = Ok r)
                   \<longrightarrow> m' = m))"
proof (intro conjI allI impI)
  show "commit_struct_scoreboard sb ctx =
         commit_struct_scoreboard
           (sb\<lparr>sb_members := filter (\<lambda>m. cf_map8_lookup nm (mp_parent m) \<noteq> None) (sb_members sb),
               sb_type_uses := filter (\<lambda>u. cf_map8_lookup nm (up_where u) \<noteq> None)
                                 (sb_type_uses sb)\<rparr>) ctx"
    using assms
    by (simp add: commit_struct_scoreboard_def
          commit_members_skip[of nm "sb_members sb", symmetric]
          commit_type_uses_skip[of nm "sb_type_uses sb", symmetric] del: not_None_eq
          cong: option.case_cong)
next
  from commit_new_types_keys[OF assms]
  show "\<forall>kv \<in> set nm. \<exists>pkg \<in> set (new_types sb).
              pk_type_id pkg = fst kv \<and> cf_map8_lookup (unnamed_types sb) (fst kv) = None"
    by simp
next
  fix pkg m c m' c'
  assume "commit_one_struct pkg m c = Some (m', c')"
  from commit_one_struct_scratch[OF this]
  show "m' = m \<or>
               (\<exists>r. m' = m @ [(pk_type_id pkg, r)] \<and> r \<noteq> 0 \<and>
                  cf_db_typename_lookup (ctx_db c) (pk_loc1 pkg) (pk_name pkg) = Err ENOENT \<and>
                  fst (cf_db_type_insert (ctx_heap c) (ctx_db c) (pk_loc0 pkg) (pk_entry pkg))
                    = Ok r)" .
next
  fix pkg m c m' c'
  assume a: "commit_one_struct pkg m c = Some (m', c')"
     and b: "\<exists>r. cf_db_typename_lookup (ctx_db c) (pk_loc1 pkg) (pk_name pkg) = Ok r"
  from b obtain r where "cf_db_typename_lookup (ctx_db c) (pk_loc1 pkg) (pk_name pkg) = Ok r" ..
  from commit_one_struct_found[OF this a] show "m' = m" .
qed


theorem commit_members_need_new_parent_witness:
  "commit_struct_scoreboard outer_global_sb (make_index_ctx (db_kind_mem mem_db_open) heap_ok) =
   commit_struct_scoreboard (outer_global_sb\<lparr>sb_members := [staged_member 6 ''a'']\<rparr>)
     (make_index_ctx (db_kind_mem mem_db_open) heap_ok)"
proof -
  from global_new_types obtain c where
    "commit_new_types (unnamed_types outer_global_sb) (new_types outer_global_sb) []
       (make_index_ctx (db_kind_mem mem_db_open) heap_ok) = Some ([(6, 1)], c)"
    by (auto simp add: outer_global_sb_def make_struct_scoreboard_def)
  from commit_members_need_new_parent[OF this]
  show ?thesis
    by (simp add: outer_global_sb_def make_struct_scoreboard_def staged_member_def)
qed

section \<open>Traversal of records\<close>

subsection \<open>Fields\<close>

lemma plain_field_Node:
  "plain_field (Node c ks) =
     (c_kind c = CXCursor_FieldDecl \<and> ty_canon_kind (c_type c) = CXType_OtherKind)"
  by (simp add: plain_field_def)

lemma field_type_id_Node: "field_type_id (Node c ks) = ty_canon_id (c_type c)"
  by (simp add: field_type_id_def)

lemma field_entry_Node:
  "field_entry parent (Node c ks) =
     \<lparr>mb_parent = parent, mb_base_type = 0, mb_name = own_name (c_spelling c)\<rparr>"
  by (simp add: field_entry_def)

lemma update_location_keeps:
  "ctx_db (update_location ctx c) = ctx_db ctx"
  "ctx_heap (update_location ctx c) = ctx_heap ctx"
  "file_map (update_location ctx c) = file_map ctx"
  "type_map (update_location ctx c) = type_map ctx"
  "ctx_path (update_location ctx c) = ctx_path ctx"
  "last_struct (update_location ctx c) = last_struct ctx"
  "struct_sb (update_location ctx c) = struct_sb ctx"
  by (simp_all add: update_location_def split: option.splits)

lemma get_clang_type_canon:
  "ty_canon_kind t \<noteq> CXType_Invalid \<Longrightarrow>
   get_clang_type (clang_getCanonicalType t) = Some (ty_canon_id t)"
  by (simp add: get_clang_type_def clang_getCanonicalType_def)

lemma index_member_plain:
  assumes "c_kind c = CXCursor_FieldDecl"
      and "ty_canon_kind (c_type c) = CXType_OtherKind"
      and "cf_map8_lookup (unnamed_types sb) (ty_canon_id (c_type c)) = None"
      and "ty_canon_kind (c_type q) \<noteq> CXType_Invalid"
  shows "index_member c q sb =
         Some (sb\<lparr>sb_members := sb_members sb @
            [\<lparr>mp_parent = ty_canon_id (c_type q),
              mp_entry = \<lparr>mb_parent = ty_canon_id (c_type q), mb_base_type = 0,
                          mb_name = own_name (c_spelling c)\<rparr>,
              mp_loc = sb_loc sb\<rparr>]\<rparr>)"
  using assms
  by (simp add: index_member_def build_member_record_def maybe_build_typename_def
        build_member_type_use_def var_is_indexable_def type_is_indexable_def
        get_clang_type_def clang_getCanonicalType_def)

lemma field_step:
  assumes k: "c_kind c = CXCursor_FieldDecl"
      and t: "ty_canon_kind (c_type c) = CXType_OtherKind"
      and u: "cf_map8_lookup (unnamed_types (struct_sb ctx)) (ty_canon_id (c_type c)) = None"
      and a: "ascend index_struct_finalizer p (parent_stack (sb_path (struct_sb ctx))) ctx
                = Some (p # below, ctx)"
      and cp: "current_parent_stack (struct_sb ctx) = q # qs"
      and qt: "ty_canon_kind (c_type q) \<noteq> CXType_Invalid"
  shows "\<exists>ctx' m. sb_iterate_children_cb (Node c ks) p ctx = Some (CXChildVisit_Continue, ctx')
           \<and> staged_more ctx ctx' [m] \<and> staged_field (ty_canon_id (c_type q)) (Node c ks) m
           \<and> parent_stack (sb_path (struct_sb ctx')) = p # below"
proof -
  define ctx2 where "ctx2 = ctx\<lparr>struct_sb := (struct_sb ctx)
       \<lparr>sb_path := \<lparr>parent_stack = p # below,
                    path_count = path_count (sb_path (struct_sb ctx)) + 1\<rparr>\<rparr>\<rparr>"
  define sb1 where "sb1 = (struct_sb (update_location ctx2 c))\<lparr>sb_loc := ctx_loc (update_location ctx2 c)\<rparr>"
  have u1: "cf_map8_lookup (unnamed_types sb1) (ty_canon_id (c_type c)) = None"
    using u by (simp add: sb1_def ctx2_def update_location_keeps)
  have cp1: "current_parent_stack sb1 = q # qs"
    using cp by (simp add: sb1_def ctx2_def update_location_keeps)
  have cb2: "index_type_children_cb2 c sb1 =
      Some (CXChildVisit_Continue, sb1\<lparr>sb_members := sb_members sb1 @
            [\<lparr>mp_parent = ty_canon_id (c_type q),
              mp_entry = \<lparr>mb_parent = ty_canon_id (c_type q), mb_base_type = 0,
                          mb_name = own_name (c_spelling c)\<rparr>,
              mp_loc = sb_loc sb1\<rparr>]\<rparr>)"
    by (simp add: index_type_children_cb2_def k cp1 index_member_plain[OF k t u1 qt])
  have anon: "\<not> (ty_kind (c_type c) \<noteq> CXType_Invalid \<and> type_is_indexable (c_type c)
                \<and> c_anonymous c \<and> get_clang_type (c_type c) = None)"
    using t by (simp add: get_clang_type_def)
  have cb: "index_type_children_cb (Node c ks) p ctx2 =
      Some (CXChildVisit_Continue, (update_location ctx2 c)\<lparr>struct_sb :=
         sb1\<lparr>sb_members := sb_members sb1 @
            [\<lparr>mp_parent = ty_canon_id (c_type q),
              mp_entry = \<lparr>mb_parent = ty_canon_id (c_type q), mb_base_type = 0,
                          mb_name = own_name (c_spelling c)\<rparr>,
              mp_loc = sb_loc sb1\<rparr>]\<rparr>\<rparr>)"
    using anon cb2 unfolding index_type_children_cb_def sb1_def[symmetric]
    by (simp add: Let_def sb1_def[symmetric])
  have "sb_iterate_children_cb (Node c ks) p ctx =
      Some (CXChildVisit_Continue, (update_location ctx2 c)\<lparr>struct_sb :=
         sb1\<lparr>sb_members := sb_members sb1 @
            [\<lparr>mp_parent = ty_canon_id (c_type q),
              mp_entry = \<lparr>mb_parent = ty_canon_id (c_type q), mb_base_type = 0,
                          mb_name = own_name (c_spelling c)\<rparr>,
              mp_loc = sb_loc sb1\<rparr>]\<rparr>\<rparr>)"
    using a cb unfolding sb_iterate_children_cb_def ctx2_def[symmetric]
    by (simp add: Let_def ctx2_def[symmetric])
  moreover have "staged_more ctx ((update_location ctx2 c)\<lparr>struct_sb :=
         sb1\<lparr>sb_members := sb_members sb1 @
            [\<lparr>mp_parent = ty_canon_id (c_type q),
              mp_entry = \<lparr>mb_parent = ty_canon_id (c_type q), mb_base_type = 0,
                          mb_name = own_name (c_spelling c)\<rparr>,
              mp_loc = sb_loc sb1\<rparr>]\<rparr>\<rparr>)
          [\<lparr>mp_parent = ty_canon_id (c_type q),
              mp_entry = \<lparr>mb_parent = ty_canon_id (c_type q), mb_base_type = 0,
                          mb_name = own_name (c_spelling c)\<rparr>,
              mp_loc = sb_loc sb1\<rparr>]"
    by (simp add: staged_more_def sb1_def ctx2_def update_location_keeps)
  moreover have "staged_field (ty_canon_id (c_type q)) (Node c ks)
          \<lparr>mp_parent = ty_canon_id (c_type q),
              mp_entry = \<lparr>mb_parent = ty_canon_id (c_type q), mb_base_type = 0,
                          mb_name = own_name (c_spelling c)\<rparr>,
              mp_loc = sb_loc sb1\<rparr>"
    by (simp add: staged_field_def field_entry_Node)
  moreover have "parent_stack (sb_path (struct_sb ((update_location ctx2 c)\<lparr>struct_sb :=
         sb1\<lparr>sb_members := sb_members sb1 @
            [\<lparr>mp_parent = ty_canon_id (c_type q),
              mp_entry = \<lparr>mb_parent = ty_canon_id (c_type q), mb_base_type = 0,
                          mb_name = own_name (c_spelling c)\<rparr>,
              mp_loc = sb_loc sb1\<rparr>]\<rparr>\<rparr>))) = p # below"
    by (simp add: sb1_def ctx2_def update_location_keeps)
  ultimately show ?thesis by blast
qed

lemma staged_more_refl: "staged_more ctx ctx []"
  by (simp add: staged_more_def)

lemma staged_more_trans:
  "staged_more c1 c2 ms \<Longrightarrow> staged_more c2 c3 ms' \<Longrightarrow> staged_more c1 c3 (ms @ ms')"
  by (simp add: staged_more_def)

lemma fields_visit:
  assumes "list_all plain_field fs"
      and "list_all (\<lambda>f. cf_map8_lookup (unnamed_types (struct_sb ctx)) (field_type_id f) = None) fs"
      and "ascend index_struct_finalizer p (parent_stack (sb_path (struct_sb ctx))) ctx
                = Some (p # below, ctx)"
      and "current_parent_stack (struct_sb ctx) = q # qs"
      and "ty_canon_kind (c_type q) \<noteq> CXType_Invalid"
  shows "\<exists>ctx' ms. clang_visitChildren sb_iterate_children_cb p fs ctx = Some (False, ctx')
           \<and> staged_more ctx ctx' ms
           \<and> list_all2 (staged_field (ty_canon_id (c_type q))) fs ms
           \<and> ascend index_struct_finalizer p (parent_stack (sb_path (struct_sb ctx'))) ctx'
                = Some (p # below, ctx')
           \<and> parent_stack (sb_path (struct_sb ctx')) =
               (if fs = [] then parent_stack (sb_path (struct_sb ctx)) else p # below)"
  using assms
proof (induction fs arbitrary: ctx)
  case Nil
  then show ?case using staged_more_refl by auto
next
  case (Cons f fs)
  obtain c ks where f: "f = Node c ks" by (cases f)
  from Cons.prems(1) f have k: "c_kind c = CXCursor_FieldDecl"
    and t: "ty_canon_kind (c_type c) = CXType_OtherKind"
    and rest: "list_all plain_field fs"
    by (simp_all add: plain_field_Node)
  from Cons.prems(2) f
  have u: "cf_map8_lookup (unnamed_types (struct_sb ctx)) (ty_canon_id (c_type c)) = None"
    and urest: "list_all (\<lambda>f. cf_map8_lookup (unnamed_types (struct_sb ctx)) (field_type_id f) = None) fs"
    by (simp_all add: field_type_id_Node)
  from field_step[OF k t u Cons.prems(3) Cons.prems(4) Cons.prems(5), of ks]
  obtain ctx1 m where
    s1: "sb_iterate_children_cb (Node c ks) p ctx = Some (CXChildVisit_Continue, ctx1)" and
    m1: "staged_more ctx ctx1 [m]" and
    f1: "staged_field (ty_canon_id (c_type q)) (Node c ks) m" and
    p1: "parent_stack (sb_path (struct_sb ctx1)) = p # below"
    by blast
  from m1 have un: "unnamed_types (struct_sb ctx1) = unnamed_types (struct_sb ctx)"
    and cp: "current_parent_stack (struct_sb ctx1) = current_parent_stack (struct_sb ctx)"
    by (simp_all add: staged_more_def)
  have a1: "ascend index_struct_finalizer p (parent_stack (sb_path (struct_sb ctx1))) ctx1
                = Some (p # below, ctx1)"
    by (simp add: p1)
  from Cons.IH[OF rest _ a1 _ Cons.prems(5)] urest un cp Cons.prems(4)
  obtain ctx' ms where
    v: "clang_visitChildren sb_iterate_children_cb p fs ctx1 = Some (False, ctx')" and
    m2: "staged_more ctx1 ctx' ms" and
    f2: "list_all2 (staged_field (ty_canon_id (c_type q))) fs ms" and
    a2: "ascend index_struct_finalizer p (parent_stack (sb_path (struct_sb ctx'))) ctx'
                = Some (p # below, ctx')" and
    p2: "parent_stack (sb_path (struct_sb ctx')) =
               (if fs = [] then parent_stack (sb_path (struct_sb ctx1)) else p # below)"
    by auto
  from p2 p1 have p3: "parent_stack (sb_path (struct_sb ctx')) = p # below" by simp
  have "clang_visitChildren sb_iterate_children_cb p (f # fs) ctx = Some (False, ctx')"
    by (simp add: f s1 v)
  moreover from staged_more_trans[OF m1 m2] have "staged_more ctx ctx' (m # ms)" by simp
  moreover from f1 f2 f have "list_all2 (staged_field (ty_canon_id (c_type q))) (f # fs) (m # ms)"
    by simp
  ultimately show ?case using a2 p3 by auto
qed


lemma fresh_make: "fresh_sb make_struct_scoreboard"
  by (simp add: fresh_sb_def make_struct_scoreboard_def empty_path_def)

subsection \<open>Staging a record\<close>

lemma get_name_unnamed:
  "c_kind s = CXCursor_StructDecl \<Longrightarrow> \<not> c_anonymous s \<Longrightarrow> take 8 (c_pretty s) = ''struct {''
   \<Longrightarrow> get_struct_name_kind s = Some struct_name_unnamed"
  by (simp add: get_struct_name_kind_def)



lemma record_unnamed:
  assumes "c_kind s = CXCursor_StructDecl"
      and "ty_canon_kind (c_type s) = CXType_Record"
      and "get_struct_name_kind s = Some struct_name_unnamed"
  shows "index_struct_record s sb =
         Some (sb\<lparr>new_types := new_types sb @
                 [\<lparr>pk_type_id = ty_canon_id (c_type s),
                   pk_entry = \<lparr>te_kind = type_kind_struct, te_complete = True\<rparr>,
                   pk_name = zero_typename, pk_loc0 = sb_loc sb, pk_loc1 = zero_loc\<rparr>],
                unnamed_types := cf_map8_insert (unnamed_types sb) (ty_canon_id (c_type s))
                   (of_nat (length (new_types sb)))\<rparr>)"
  using assms
  by (simp add: index_struct_record_def Let_def type_is_indexable_def get_clang_type_def
        clang_getCanonicalType_def extract_type_kind_def)



text \<open>children of a top-level record whose members are plain fields\<close>

lemma children_plain:
  assumes cp: "current_parent_stack (struct_sb ctx) = []"
      and tk: "ty_canon_kind (c_type s) \<noteq> CXType_Invalid"
      and fs: "list_all plain_field fs"
      and un: "list_all (\<lambda>f. cf_map8_lookup (unnamed_types (struct_sb ctx)) (field_type_id f) = None) fs"
  shows "\<exists>ctx' ms. index_struct_children (Node s fs) ctx = Some ctx'
           \<and> ctx_db ctx' = ctx_db ctx \<and> ctx_heap ctx' = ctx_heap ctx
           \<and> file_map ctx' = file_map ctx \<and> type_map ctx' = type_map ctx
           \<and> ctx_path ctx' = ctx_path ctx \<and> last_struct ctx' = last_struct ctx
           \<and> new_types (struct_sb ctx') = new_types (struct_sb ctx)
           \<and> unnamed_types (struct_sb ctx') = unnamed_types (struct_sb ctx)
           \<and> sb_type_uses (struct_sb ctx') = sb_type_uses (struct_sb ctx)
           \<and> sb_members (struct_sb ctx') = sb_members (struct_sb ctx) @ ms
           \<and> list_all2 (staged_field (ty_canon_id (c_type s))) fs ms"
proof -
  define ctx1 where "ctx1 = ctx\<lparr>struct_sb := (struct_sb ctx)
                      \<lparr>current_parent_stack := s # current_parent_stack (struct_sb ctx),
                       sb_path := (sb_path (struct_sb ctx))
                          \<lparr>parent_stack := s # parent_stack (sb_path (struct_sb ctx))\<rparr>\<rparr>\<rparr>"
  have a: "ascend index_struct_finalizer s (parent_stack (sb_path (struct_sb ctx1))) ctx1
             = Some (s # parent_stack (sb_path (struct_sb ctx)), ctx1)"
    by (simp add: ctx1_def)
  have c: "current_parent_stack (struct_sb ctx1) = s # []"
    by (simp add: ctx1_def cp)
  have u: "list_all (\<lambda>f. cf_map8_lookup (unnamed_types (struct_sb ctx1)) (field_type_id f) = None) fs"
    using un by (simp add: ctx1_def)
  from fields_visit[OF fs u a c tk]
  obtain ctx2 ms where
    v: "clang_visitChildren sb_iterate_children_cb s fs ctx1 = Some (False, ctx2)" and
    m: "staged_more ctx1 ctx2 ms" and
    l: "list_all2 (staged_field (ty_canon_id (c_type s))) fs ms" and
    a2: "ascend index_struct_finalizer s (parent_stack (sb_path (struct_sb ctx2))) ctx2
                = Some (s # parent_stack (sb_path (struct_sb ctx)), ctx2)"
    by blast
  from a2 obtain tp below where st: "parent_stack (sb_path (struct_sb ctx2)) = tp # below"
    by (cases "parent_stack (sb_path (struct_sb ctx2))") auto
  have r: "index_struct_children (Node s fs) ctx =
        Some (ctx2\<lparr>struct_sb := (struct_sb ctx2)
                          \<lparr>sb_path := (sb_path (struct_sb ctx2))\<lparr>parent_stack := below\<rparr>\<rparr>\<rparr>)"
    using v st unfolding index_struct_children_def ctx1_def[symmetric]
    by (simp add: Let_def ctx1_def[symmetric])
  from m show ?thesis using r l
    by (simp add: staged_more_def ctx1_def)
qed

subsection \<open>Committing a staged record to the in-memory store\<close>

lemma malloc_ok: "script h = [] \<Longrightarrow> cf_malloc h = (True, h)"
  by (simp add: cf_malloc_def)

lemma reserve_ok:
  "script h = [] \<Longrightarrow> \<exists>v'. cf_vec_reserve h v = (Some v', h) \<and> items v' = items v"
  by (simp add: cf_vec_reserve_def malloc_ok)

lemma own_name_len: "length (own_name n) \<le> CF_STR_MAX_LEN"
  by (simp add: own_name_def)

lemma str_dup_ok:
  "script h = [] \<Longrightarrow> length n \<le> CF_STR_MAX_LEN \<Longrightarrow> cf_str_dup h n = (Inr n, h)"
  by (simp add: cf_str_dup_def malloc_ok)

lemma mem_type_insert_ok:
  assumes "script h = []"
  shows "\<exists>ev lv. mem_db_type_insert h d loc e =
           (Ok (of_nat (Suc (length (items (user_types d))))),
            d\<lparr>user_types := ev, locs_type := lv\<rparr>, h)
         \<and> items ev = items (user_types d) @ [e]"
proof -
  from reserve_ok[OF assms] obtain v1 where
    r1: "cf_vec_reserve h (user_types d) = (Some v1, h)" and i1: "items v1 = items (user_types d)"
    by blast
  from reserve_ok[OF assms] obtain v2 where
    r2: "cf_vec_reserve h (locs_type d) = (Some v2, h)" and i2: "items v2 = items (locs_type d)"
    by blast
  show ?thesis
    by (intro exI[of _ "cf_vec_commit v1 e"] exI[of _ "cf_vec_commit v2 loc"])
       (simp add: mem_db_type_insert_def r1 r2 Let_def cf_vec_commit_def cf_vec_len_def i1)
qed

lemma mem_typename_insert_ok:
  assumes "script h = []" and "length (tn_name e) \<le> CF_STR_MAX_LEN"
  shows "\<exists>ev lv. mem_db_typename_insert h d loc e =
           (Ok (), d\<lparr>typenames := ev, locs_typename := lv\<rparr>, h)
         \<and> items ev = items (typenames d) @ [e]"
proof -
  from reserve_ok[OF assms(1)] obtain v1 where
    r1: "cf_vec_reserve h (typenames d) = (Some v1, h)" and i1: "items v1 = items (typenames d)"
    by blast
  from reserve_ok[OF assms(1)] obtain v2 where
    r2: "cf_vec_reserve h (locs_typename d) = (Some v2, h)"
    by blast
  show ?thesis
    by (intro exI[of _ "cf_vec_commit v1 e"] exI[of _ "cf_vec_commit v2 loc"])
       (simp add: mem_db_typename_insert_def r1 r2 str_dup_ok[OF assms] cf_vec_commit_def i1)
qed

lemma mem_member_insert_ok:
  assumes "script h = []" and "length (mb_name e) \<le> CF_STR_MAX_LEN"
  shows "\<exists>ev lv. mem_db_member_insert h d loc e =
           (Ok (), d\<lparr>members := ev, locs_member := lv\<rparr>, h)
         \<and> items ev = items (members d) @ [e]"
proof -
  from reserve_ok[OF assms(1)] obtain v1 where
    r1: "cf_vec_reserve h (members d) = (Some v1, h)" and i1: "items v1 = items (members d)"
    by blast
  from reserve_ok[OF assms(1)] obtain v2 where
    r2: "cf_vec_reserve h (locs_member d) = (Some v2, h)"
    by blast
  show ?thesis
    by (intro exI[of _ "cf_vec_commit v1 e"] exI[of _ "cf_vec_commit v2 loc"])
       (simp add: mem_db_member_insert_def r1 r2 str_dup_ok[OF assms] cf_vec_commit_def i1)
qed

lemma commit_members_mem:
  assumes "script (ctx_heap ctx) = []"
      and "ctx_db ctx = db_kind_mem d"
      and "cf_map8_lookup nm pid = Some ref" and "ref \<noteq> 0"
      and "list_all2 (staged_field pid) fs ms"
  shows "\<exists>ev lv. commit_members nm ms ctx =
            Some (ctx\<lparr>ctx_db := db_kind_mem (d\<lparr>members := ev, locs_member := lv\<rparr>)\<rparr>)
          \<and> items ev = items (members d) @ map (field_entry ref) fs"
  using assms
proof (induction fs arbitrary: ms ctx d)
  case Nil
  then have "ms = []" by simp
  moreover have "ctx\<lparr>ctx_db := db_kind_mem (d\<lparr>members := members d, locs_member := locs_member d\<rparr>)\<rparr> = ctx"
    using Nil.prems(2) by simp
  ultimately show ?case
    by (intro exI[of _ "members d"] exI[of _ "locs_member d"]) simp
next
  case (Cons f fs)
  from Cons.prems(5) obtain m ms' where ms: "ms = m # ms'"
    and sf: "staged_field pid f m" and rest: "list_all2 (staged_field pid) fs ms'"
    by (auto simp add: list_all2_Cons1)
  obtain c ks where f: "f = Node c ks" by (cases f)
  from sf f have mp: "mp_parent m = pid"
    and me: "mp_entry m = \<lparr>mb_parent = pid, mb_base_type = 0, mb_name = own_name (c_spelling c)\<rparr>"
    by (simp_all add: staged_field_def field_entry_Node)
  have len: "length (mb_name (field_entry ref f)) \<le> CF_STR_MAX_LEN"
    by (simp add: f field_entry_Node own_name_len)
  from mem_member_insert_ok[OF Cons.prems(1) len, of d "mp_loc m"]
  obtain ev lv where
    ins: "mem_db_member_insert (ctx_heap ctx) d (mp_loc m) (field_entry ref f) =
           (Ok (), d\<lparr>members := ev, locs_member := lv\<rparr>, ctx_heap ctx)" and
    iev: "items ev = items (members d) @ [field_entry ref f]"
    by blast
  define ctx1 where "ctx1 = ctx\<lparr>ctx_db := db_kind_mem (d\<lparr>members := ev, locs_member := lv\<rparr>)\<rparr>"
  have one: "commit_one_member
               (m\<lparr>mp_entry := (mp_entry m)\<lparr>mb_parent := ref, mb_base_type := 0\<rparr>\<rparr>) ctx = Some ctx1"
    using Cons.prems(2) Cons.prems(4) ins
    by (simp add: commit_one_member_def cf_db_member_insert_def me f field_entry_Node ctx1_def)
  have step: "commit_members nm (m # ms') ctx = commit_members nm ms' ctx1"
    using one Cons.prems(3)
    by (simp add: translate_struct_type_def translate_member_type_def mp me)
  have h1: "script (ctx_heap ctx1) = []" using Cons.prems(1) by (simp add: ctx1_def)
  have d1: "ctx_db ctx1 = db_kind_mem (d\<lparr>members := ev, locs_member := lv\<rparr>)"
    by (simp add: ctx1_def)
  from Cons.IH[OF h1 d1 Cons.prems(3) Cons.prems(4) rest]
  obtain ev' lv' where
    r: "commit_members nm ms' ctx1 =
          Some (ctx1\<lparr>ctx_db := db_kind_mem (d\<lparr>members := ev, locs_member := lv\<rparr>
                   \<lparr>members := ev', locs_member := lv'\<rparr>)\<rparr>)" and
    i: "items ev' = items (members (d\<lparr>members := ev, locs_member := lv\<rparr>))
                     @ map (field_entry ref) fs"
    by blast
  have "commit_members nm ms ctx =
          Some (ctx\<lparr>ctx_db := db_kind_mem (d\<lparr>members := ev', locs_member := lv'\<rparr>)\<rparr>)"
    using step r by (simp add: ms ctx1_def)
  moreover have "items ev' = items (members d) @ map (field_entry ref) (f # fs)"
    using i iev by simp
  ultimately show ?case by blast
qed

lemma commit_one_struct_mem_new:
  assumes id: "pk_type_id pkg \<noteq> 0"
      and db: "ctx_db ctx = db_kind_mem d"
      and tn: "items (typenames d) = []"
      and ty: "items (user_types d) = []"
      and h: "script (ctx_heap ctx) = []"
      and len: "length (tn_name (pk_name pkg)) \<le> CF_STR_MAX_LEN"
  shows "\<exists>ev lv ev' lv'. commit_one_struct pkg [] ctx =
            Some ([(pk_type_id pkg, 1)],
                  ctx\<lparr>ctx_db := db_kind_mem (d\<lparr>user_types := ev, locs_type := lv,
                                                typenames := ev', locs_typename := lv'\<rparr>)\<rparr>)
          \<and> items ev = [pk_entry pkg]
          \<and> items ev' = [(pk_name pkg)\<lparr>tn_base_type := 1\<rparr>]"
proof -
  have lk: "cf_db_typename_lookup (db_kind_mem d) (pk_loc1 pkg) (pk_name pkg) = Err ENOENT"
    by (simp add: cf_db_typename_lookup_def mem_db_typename_lookup_def cf_vec_len_def tn)
  from mem_type_insert_ok[OF h, of d "pk_loc0 pkg" "pk_entry pkg"]
  obtain ev lv where
    ti: "mem_db_type_insert (ctx_heap ctx) d (pk_loc0 pkg) (pk_entry pkg) =
           (Ok 1, d\<lparr>user_types := ev, locs_type := lv\<rparr>, ctx_heap ctx)" and
    iev: "items ev = [pk_entry pkg]"
    by (auto simp add: ty)
  have len': "length (tn_name ((pk_name pkg)\<lparr>tn_base_type := 1\<rparr>)) \<le> CF_STR_MAX_LEN"
    using len by simp
  from mem_typename_insert_ok[OF h len', of "d\<lparr>user_types := ev, locs_type := lv\<rparr>" "pk_loc1 pkg"]
  obtain ev' lv' where
    ni: "mem_db_typename_insert (ctx_heap ctx) (d\<lparr>user_types := ev, locs_type := lv\<rparr>)
           (pk_loc1 pkg) ((pk_name pkg)\<lparr>tn_base_type := 1\<rparr>) =
           (Ok (), d\<lparr>user_types := ev, locs_type := lv, typenames := ev',
                     locs_typename := lv'\<rparr>, ctx_heap ctx)" and
    iev': "items ev' = [(pk_name pkg)\<lparr>tn_base_type := 1\<rparr>]"
    by (auto simp add: tn)
  have "commit_one_struct pkg [] ctx =
            Some ([(pk_type_id pkg, 1)],
                  ctx\<lparr>ctx_db := db_kind_mem (d\<lparr>user_types := ev, locs_type := lv,
                                                typenames := ev', locs_typename := lv'\<rparr>)\<rparr>)"
    using id
    by (simp add: commit_one_struct_def lk cf_db_type_insert_def db ti
          cf_db_typename_insert_def ni type_map_insert_def cf_map8_insert_def)
  with iev iev' show ?thesis by blast
qed

lemma commit_mem_single:
  assumes nt: "new_types sb = [pkg]"
      and un: "unnamed_types sb = []"
      and tu: "sb_type_uses sb = []"
      and ms: "list_all2 (staged_field (pk_type_id pkg)) fs (sb_members sb)"
      and id: "pk_type_id pkg \<noteq> 0"
      and db: "ctx_db ctx = db_kind_mem d"
      and tn: "items (typenames d) = []"
      and ty: "items (user_types d) = []"
      and h: "script (ctx_heap ctx) = []"
      and len: "length (tn_name (pk_name pkg)) \<le> CF_STR_MAX_LEN"
  shows "\<exists>d'. commit_struct_scoreboard sb ctx =
            Some (ctx\<lparr>ctx_db := db_kind_mem d',
                      type_map := type_map ctx @ [(pk_type_id pkg, 1)]\<rparr>)
          \<and> items (user_types d') = [pk_entry pkg]
          \<and> items (typenames d') = [(pk_name pkg)\<lparr>tn_base_type := 1\<rparr>]
          \<and> items (members d') = items (members d) @ map (field_entry 1) fs
          \<and> items (type_uses d') = items (type_uses d)"
proof -
  from commit_one_struct_mem_new[OF id db tn ty h len]
  obtain ev lv ev' lv' where
    one: "commit_one_struct pkg [] ctx =
            Some ([(pk_type_id pkg, 1)],
                  ctx\<lparr>ctx_db := db_kind_mem (d\<lparr>user_types := ev, locs_type := lv,
                                                typenames := ev', locs_typename := lv'\<rparr>)\<rparr>)" and
    iev: "items ev = [pk_entry pkg]" and
    iev': "items ev' = [(pk_name pkg)\<lparr>tn_base_type := 1\<rparr>]"
    by blast
  define d1 where "d1 = d\<lparr>user_types := ev, locs_type := lv,
                           typenames := ev', locs_typename := lv'\<rparr>"
  define ctx1 where "ctx1 = ctx\<lparr>ctx_db := db_kind_mem d1\<rparr>"
  have nts: "commit_new_types (unnamed_types sb) (new_types sb) [] ctx =
               Some ([(pk_type_id pkg, 1)], ctx1)"
    using id one by (simp add: nt un ctx1_def d1_def)
  have h1: "script (ctx_heap ctx1) = []" using h by (simp add: ctx1_def)
  have db1: "ctx_db ctx1 = db_kind_mem d1" by (simp add: ctx1_def)
  have lk: "cf_map8_lookup [(pk_type_id pkg, 1)] (pk_type_id pkg) = Some 1" by simp
  have one_ne: "(1::u64) \<noteq> 0" by simp
  from commit_members_mem[OF h1 db1 lk one_ne ms]
  obtain mv lv2 where
    cm: "commit_members [(pk_type_id pkg, 1)] (sb_members sb) ctx1 =
            Some (ctx1\<lparr>ctx_db := db_kind_mem (d1\<lparr>members := mv, locs_member := lv2\<rparr>)\<rparr>)" and
    im: "items mv = items (members d1) @ map (field_entry 1) fs"
    by blast
  define d2 where "d2 = d1\<lparr>members := mv, locs_member := lv2\<rparr>"
  have mg: "merge_type_map [(pk_type_id pkg, 1)] (type_map ctx) =
              Some (type_map ctx @ [(pk_type_id pkg, 1)])"
    using id by (simp add: type_map_insert_def cf_map8_insert_def)
  have tm1: "type_map (ctx1\<lparr>ctx_db := db_kind_mem d2\<rparr>) = type_map ctx"
    by (simp add: ctx1_def)
  have fin: "ctx1\<lparr>ctx_db := db_kind_mem d2, type_map := type_map ctx @ [(pk_type_id pkg, 1)]\<rparr>
             = ctx\<lparr>ctx_db := db_kind_mem d2,
                      type_map := type_map ctx @ [(pk_type_id pkg, 1)]\<rparr>"
    by (simp add: ctx1_def)
  have "commit_struct_scoreboard sb ctx =
            Some (ctx\<lparr>ctx_db := db_kind_mem d2,
                      type_map := type_map ctx @ [(pk_type_id pkg, 1)]\<rparr>)"
    by (simp add: commit_struct_scoreboard_def nts cm[folded d2_def] tu tm1 mg fin
          del: merge_type_map.simps)
  moreover have "items (user_types d2) = [pk_entry pkg]"
    by (simp add: d2_def d1_def iev)
  moreover have "items (typenames d2) = [(pk_name pkg)\<lparr>tn_base_type := 1\<rparr>]"
    by (simp add: d2_def d1_def iev')
  moreover have "items (members d2) = items (members d) @ map (field_entry 1) fs"
    using im by (simp add: d2_def d1_def)
  moreover have "items (type_uses d2) = items (type_uses d)"
    by (simp add: d2_def d1_def)
  ultimately show ?thesis by blast
qed

subsection \<open>Records named by the next declaration\<close>

lemma index_struct_unnamed:
  assumes fresh: "fresh_sb (struct_sb ctx)"
      and k: "c_kind s = CXCursor_StructDecl"
      and tk: "ty_canon_kind (c_type s) = CXType_Record"
      and nm: "get_struct_name_kind s = Some struct_name_unnamed"
      and fs: "list_all plain_field fs"
      and ids: "list_all (\<lambda>f. field_type_id f \<noteq> ty_canon_id (c_type s)) fs"
  shows "\<exists>ctx'. index_struct (Node s fs) ctx = Some (True, ctx')
           \<and> ctx_db ctx' = ctx_db ctx \<and> ctx_heap ctx' = ctx_heap ctx
           \<and> file_map ctx' = file_map ctx \<and> type_map ctx' = type_map ctx
           \<and> ctx_path ctx' = ctx_path ctx \<and> last_struct ctx' = last_struct ctx
           \<and> new_types (struct_sb ctx') =
                 [\<lparr>pk_type_id = ty_canon_id (c_type s),
                   pk_entry = \<lparr>te_kind = type_kind_struct, te_complete = True\<rparr>,
                   pk_name = zero_typename, pk_loc0 = ctx_loc ctx, pk_loc1 = zero_loc\<rparr>]
           \<and> unnamed_types (struct_sb ctx') = [(ty_canon_id (c_type s), 0)]
           \<and> sb_type_uses (struct_sb ctx') = []
           \<and> list_all2 (staged_field (ty_canon_id (c_type s))) fs (sb_members (struct_sb ctx'))"
proof -
  define sb0 where "sb0 = (struct_sb ctx)\<lparr>sb_loc := ctx_loc ctx\<rparr>"
  define pkg where "pkg = \<lparr>pk_type_id = ty_canon_id (c_type s),
                   pk_entry = \<lparr>te_kind = type_kind_struct, te_complete = True\<rparr>,
                   pk_name = zero_typename, pk_loc0 = ctx_loc ctx, pk_loc1 = zero_loc\<rparr>"
  define sb1 where "sb1 = sb0\<lparr>new_types := [pkg],
                              unnamed_types := [(ty_canon_id (c_type s), 0)]\<rparr>"
  define ctx1 where "ctx1 = ctx\<lparr>struct_sb := sb1\<rparr>"
  from fresh have f0: "new_types sb0 = []" "unnamed_types sb0 = []" "sb_members sb0 = []"
    "sb_type_uses sb0 = []" "current_parent_stack sb0 = []"
    by (simp_all add: fresh_sb_def sb0_def)
  have l0: "sb_loc sb0 = ctx_loc ctx" by (simp add: sb0_def)
  have rec: "index_struct_record s sb0 = Some sb1"
    using record_unnamed[OF k tk nm, of sb0]
    by (simp add: f0 l0 sb1_def pkg_def cf_map8_insert_def)
  have cp: "current_parent_stack (struct_sb ctx1) = []"
    by (simp add: ctx1_def sb1_def f0)
  have tk': "ty_canon_kind (c_type s) \<noteq> CXType_Invalid" using tk by simp
  have un: "list_all (\<lambda>f. cf_map8_lookup (unnamed_types (struct_sb ctx1)) (field_type_id f) = None) fs"
    using ids by (auto simp add: ctx1_def sb1_def list_all_iff)
  from children_plain[OF cp tk' fs un]
  obtain ctx2 ms where
    ch: "index_struct_children (Node s fs) ctx1 = Some ctx2" and
    keep: "ctx_db ctx2 = ctx_db ctx1" "ctx_heap ctx2 = ctx_heap ctx1"
          "file_map ctx2 = file_map ctx1" "type_map ctx2 = type_map ctx1"
          "ctx_path ctx2 = ctx_path ctx1" "last_struct ctx2 = last_struct ctx1" and
    nt: "new_types (struct_sb ctx2) = new_types (struct_sb ctx1)" and
    ut: "unnamed_types (struct_sb ctx2) = unnamed_types (struct_sb ctx1)" and
    us: "sb_type_uses (struct_sb ctx2) = sb_type_uses (struct_sb ctx1)" and
    mb: "sb_members (struct_sb ctx2) = sb_members (struct_sb ctx1) @ ms" and
    st: "list_all2 (staged_field (ty_canon_id (c_type s))) fs ms"
    by blast
  have nt2: "new_types (struct_sb ctx2) = [pkg]" using nt by (simp add: ctx1_def sb1_def)
  have ut2: "unnamed_types (struct_sb ctx2) = [(ty_canon_id (c_type s), 0)]"
    using ut by (simp add: ctx1_def sb1_def)
  have fr: "length (new_types (struct_sb ctx)) = 0" using fresh by (simp add: fresh_sb_def)
  have ti: "type_is_indexable (clang_getCanonicalType (c_type s))"
    using tk by (simp add: type_is_indexable_def clang_getCanonicalType_def)
  note rec' = rec[unfolded sb0_def]
  note ch' = ch[unfolded ctx1_def]
  have "index_struct (Node s fs) ctx = Some (True, ctx2)"
    using fr nt2 ut2
    by (simp add: index_struct_def Let_def get_clang_type_canon[OF tk'] ti rec' ch' pkg_def)
  moreover have "sb_members (struct_sb ctx2) = ms" using mb by (simp add: ctx1_def sb1_def f0)
  moreover have "sb_type_uses (struct_sb ctx2) = []" using us by (simp add: ctx1_def sb1_def f0)
  ultimately show ?thesis using keep nt2 ut2 st
    by (simp add: ctx1_def pkg_def)
qed


lemma special_name_ok:
  assumes tk: "c_kind t = CXCursor_TypedefDecl \<or> c_kind t = CXCursor_VarDecl"
      and tt: "ty_canon_kind (declared_type t) = CXType_Record"
      and ti: "ty_canon_id (declared_type t) = sid"
      and ls: "last_struct ctx = sid" and nz: "sid \<noteq> 0"
      and nt: "new_types (struct_sb ctx) = [pkg]" and pid: "pk_type_id pkg = sid"
      and un: "unnamed_types (struct_sb ctx) = [(sid, 0)]"
  shows "special_index_struct_name t ctx =
     Some (True, ctx\<lparr>struct_sb := (struct_sb ctx)
        \<lparr>new_types := [pkg\<lparr>pk_name := \<lparr>tn_kind = declared_name_kind t, tn_base_type = 0,
                                          tn_name = own_name (c_spelling t)\<rparr>,
                              pk_loc1 := ctx_loc ctx\<rparr>],
         unnamed_types := []\<rparr>\<rparr>)"
proof -
  have tci: "ty_canon_kind (declared_type t) \<noteq> CXType_Invalid" using tt by simp
  have g: "get_clang_type (clang_getCanonicalType
                (if c_kind t = CXCursor_VarDecl then c_type t else c_underlying t)) = Some sid"
    using get_clang_type_canon[OF tci] ti by (simp add: declared_type_def)
  have an: "struct_scoreboard_add_name t ctx =
     Some (ctx\<lparr>struct_sb := (struct_sb ctx)
        \<lparr>new_types := [pkg\<lparr>pk_name := \<lparr>tn_kind = declared_name_kind t, tn_base_type = 0,
                                          tn_name = own_name (c_spelling t)\<rparr>,
                              pk_loc1 := ctx_loc ctx\<rparr>],
         unnamed_types := []\<rparr>\<rparr>)"
    using tk nt pid un
    by (auto simp add: struct_scoreboard_add_name_def Let_def declared_name_kind_def)
  show ?thesis
    using tk ls nz g an
    by (auto simp add: special_index_struct_name_def)
qed

lemma indexable_struct:
  "c_kind s = CXCursor_StructDecl \<Longrightarrow> ty_kind (c_type s) = CXType_Record \<Longrightarrow>
   \<not> ty_incomplete (c_type s) \<Longrightarrow> cursor_is_indexable s = Some True"
  by (simp add: cursor_is_indexable_def user_type_is_indexable_def type_is_indexable_def)

lemma indexable_name:
  "c_kind t = CXCursor_TypedefDecl \<or> c_kind t = CXCursor_VarDecl \<Longrightarrow>
   ty_canon_kind (declared_type t) = CXType_Record \<Longrightarrow> cursor_is_indexable t = Some True"
  by (auto simp add: cursor_is_indexable_def typedef_is_indexable_def var_is_indexable_def
        type_is_indexable_def clang_getCanonicalType_def declared_type_def)

text \<open>the top-level visitor on an unnamed record with plain fields\<close>

lemma node_unnamed:
  assumes ps: "parent_stack (ctx_path ctx) = root # below"
      and ls: "last_struct ctx = 0"
      and fresh: "fresh_sb (struct_sb ctx)"
      and k: "c_kind s = CXCursor_StructDecl"
      and tr: "ty_kind (c_type s) = CXType_Record"
      and tk: "ty_canon_kind (c_type s) = CXType_Record"
      and inc: "\<not> ty_incomplete (c_type s)"
      and na: "\<not> c_anonymous s" and pr: "take 8 (c_pretty s) = ''struct {''"
      and fs: "list_all plain_field fs"
      and ids: "list_all (\<lambda>f. field_type_id f \<noteq> ty_canon_id (c_type s)) fs"
  shows "\<exists>ctx' loc0. tu_iterate_children_cb (Node s fs) root ctx = Some (CXChildVisit_Continue, ctx')
           \<and> ctx_db ctx' = ctx_db ctx \<and> ctx_heap ctx' = ctx_heap ctx
           \<and> type_map ctx' = type_map ctx
           \<and> parent_stack (ctx_path ctx') = root # below
           \<and> last_struct ctx' = ty_canon_id (c_type s)
           \<and> new_types (struct_sb ctx') =
                 [\<lparr>pk_type_id = ty_canon_id (c_type s),
                   pk_entry = \<lparr>te_kind = type_kind_struct, te_complete = True\<rparr>,
                   pk_name = zero_typename, pk_loc0 = loc0, pk_loc1 = zero_loc\<rparr>]
           \<and> unnamed_types (struct_sb ctx') = [(ty_canon_id (c_type s), 0)]
           \<and> sb_type_uses (struct_sb ctx') = []
           \<and> list_all2 (staged_field (ty_canon_id (c_type s))) fs (sb_members (struct_sb ctx'))"
proof -
  define ctx2 where "ctx2 = ctx\<lparr>ctx_path := \<lparr>parent_stack = root # below,
                                           path_count = path_count (ctx_path ctx) + 1\<rparr>\<rparr>"
  define ctx3 where "ctx3 = update_location ctx2 s"
  have f3: "fresh_sb (struct_sb ctx3)" using fresh
    by (simp add: ctx3_def ctx2_def update_location_keeps)
  from index_struct_unnamed[OF f3 k tk get_name_unnamed[OF k na pr] fs ids]
  obtain ctx4 where
    ist: "index_struct (Node s fs) ctx3 = Some (True, ctx4)" and
    keep: "ctx_db ctx4 = ctx_db ctx3" "ctx_heap ctx4 = ctx_heap ctx3"
          "type_map ctx4 = type_map ctx3" "ctx_path ctx4 = ctx_path ctx3" and
    nt: "new_types (struct_sb ctx4) =
                 [\<lparr>pk_type_id = ty_canon_id (c_type s),
                   pk_entry = \<lparr>te_kind = type_kind_struct, te_complete = True\<rparr>,
                   pk_name = zero_typename, pk_loc0 = ctx_loc ctx3, pk_loc1 = zero_loc\<rparr>]" and
    ut: "unnamed_types (struct_sb ctx4) = [(ty_canon_id (c_type s), 0)]" and
    us: "sb_type_uses (struct_sb ctx4) = []" and
    st: "list_all2 (staged_field (ty_canon_id (c_type s))) fs (sb_members (struct_sb ctx4))"
    by blast
  have l3: "last_struct ctx3 = 0" using ls by (simp add: ctx3_def ctx2_def update_location_keeps)
  have g: "get_clang_type (c_type s) = Some (ty_canon_id (c_type s))"
    using tr tk by (simp add: get_clang_type_def)
  have node: "index_ast_node (Node s fs) root ctx2 =
      Some (CXChildVisit_Continue, ctx4\<lparr>last_struct := ty_canon_id (c_type s)\<rparr>)"
    using indexable_struct[OF k tr inc] l3 ist g k
    by (simp add: index_ast_node_def Let_def ctx3_def[symmetric])
  have "tu_iterate_children_cb (Node s fs) root ctx =
      Some (CXChildVisit_Continue, ctx4\<lparr>last_struct := ty_canon_id (c_type s)\<rparr>)"
    using ps node unfolding tu_iterate_children_cb_def ctx2_def[symmetric]
    by (simp add: Let_def ctx2_def[symmetric])
  then show ?thesis using keep nt ut us st
    by (auto simp add: ctx3_def ctx2_def update_location_keeps)
qed

lemma node_name:
  assumes ps: "parent_stack (ctx_path ctx) = root # below"
      and tk: "c_kind t = CXCursor_TypedefDecl \<or> c_kind t = CXCursor_VarDecl"
      and tt: "ty_canon_kind (declared_type t) = CXType_Record"
      and ti: "ty_canon_id (declared_type t) = sid"
      and ls: "last_struct ctx = sid" and nz: "sid \<noteq> 0"
      and nt: "new_types (struct_sb ctx) = [pkg]" and pid: "pk_type_id pkg = sid"
      and un: "unnamed_types (struct_sb ctx) = [(sid, 0)]"
      and us: "sb_type_uses (struct_sb ctx) = []"
      and st: "list_all2 (staged_field sid) fs (sb_members (struct_sb ctx))"
      and db: "ctx_db ctx = db_kind_mem d"
      and tn: "items (typenames d) = []"
      and ty: "items (user_types d) = []"
      and h: "script (ctx_heap ctx) = []"
  shows "\<exists>ctx' d'. tu_iterate_children_cb (Node t ks) root ctx = Some (CXChildVisit_Continue, ctx')
           \<and> ctx_db ctx' = db_kind_mem d'
           \<and> items (user_types d') = [pk_entry pkg]
           \<and> items (typenames d') =
                [\<lparr>tn_kind = declared_name_kind t, tn_base_type = 1,
                  tn_name = own_name (c_spelling t)\<rparr>]
           \<and> items (members d') = items (members d) @ map (field_entry 1) fs
           \<and> parent_stack (ctx_path ctx') = root # below"
proof -
  define ctx2 where "ctx2 = ctx\<lparr>ctx_path := \<lparr>parent_stack = root # below,
                                           path_count = path_count (ctx_path ctx) + 1\<rparr>\<rparr>"
  define ctx3 where "ctx3 = update_location ctx2 t"
  define pkg' where "pkg' = pkg\<lparr>pk_name := \<lparr>tn_kind = declared_name_kind t, tn_base_type = 0,
                                          tn_name = own_name (c_spelling t)\<rparr>,
                              pk_loc1 := ctx_loc ctx3\<rparr>"
  define sbC where "sbC = (struct_sb ctx3)\<lparr>new_types := [pkg'], unnamed_types := []\<rparr>"
  define ctxC where "ctxC = ctx3\<lparr>struct_sb := sbC\<rparr>"
  have ls3: "last_struct ctx3 = sid" using ls by (simp add: ctx3_def ctx2_def update_location_keeps)
  have nt3: "new_types (struct_sb ctx3) = [pkg]"
    using nt by (simp add: ctx3_def ctx2_def update_location_keeps)
  have un3: "unnamed_types (struct_sb ctx3) = [(sid, 0)]"
    using un by (simp add: ctx3_def ctx2_def update_location_keeps)
  from special_name_ok[OF tk tt ti ls3 nz nt3 pid un3]
  have sp: "special_index_struct_name t ctx3 = Some (True, ctxC)"
    by (simp add: ctxC_def sbC_def pkg'_def)
  have ntC: "new_types (struct_sb ctxC) = [pkg']" by (simp add: ctxC_def sbC_def)
  have unC: "unnamed_types (struct_sb ctxC) = []" by (simp add: ctxC_def sbC_def)
  have usC: "sb_type_uses (struct_sb ctxC) = []"
    using us by (simp add: ctxC_def sbC_def ctx3_def ctx2_def update_location_keeps)
  have stC: "list_all2 (staged_field (pk_type_id pkg')) fs (sb_members (struct_sb ctxC))"
    using st pid by (simp add: ctxC_def sbC_def pkg'_def ctx3_def ctx2_def update_location_keeps)
  have idC: "pk_type_id pkg' \<noteq> 0" using pid nz by (simp add: pkg'_def)
  have dbC: "ctx_db ctxC = db_kind_mem d"
    using db by (simp add: ctxC_def ctx3_def ctx2_def update_location_keeps)
  have hC: "script (ctx_heap ctxC) = []"
    using h by (simp add: ctxC_def ctx3_def ctx2_def update_location_keeps)
  have lenC: "length (tn_name (pk_name pkg')) \<le> CF_STR_MAX_LEN"
    by (simp add: pkg'_def own_name_len)
  from commit_mem_single[OF ntC unC usC stC idC dbC tn ty hC lenC]
  obtain d' where
    cm: "commit_struct_scoreboard (struct_sb ctxC) ctxC =
            Some (ctxC\<lparr>ctx_db := db_kind_mem d',
                      type_map := type_map ctxC @ [(pk_type_id pkg', 1)]\<rparr>)" and
    r1: "items (user_types d') = [pk_entry pkg']" and
    r2: "items (typenames d') = [(pk_name pkg')\<lparr>tn_base_type := 1\<rparr>]" and
    r3: "items (members d') = items (members d) @ map (field_entry 1) fs"
    by blast
  define ctxD where "ctxD = ctxC\<lparr>ctx_db := db_kind_mem d',
                      type_map := type_map ctxC @ [(pk_type_id pkg', 1)]\<rparr>"
  have ls2: "last_struct (update_location ctx2 t) \<noteq> 0" using ls3 nz by (simp add: ctx3_def)
  have node: "index_ast_node (Node t ks) root ctx2 =
      Some (CXChildVisit_Continue,
            ctxD\<lparr>struct_sb := reset_struct_scoreboard (struct_sb ctxD), last_struct := 0\<rparr>)"
    using indexable_name[OF tk tt] ls2 sp[unfolded ctx3_def] cm[folded ctxD_def]
    by (simp add: index_ast_node_def Let_def)
  have "tu_iterate_children_cb (Node t ks) root ctx =
      Some (CXChildVisit_Continue,
            ctxD\<lparr>struct_sb := reset_struct_scoreboard (struct_sb ctxD), last_struct := 0\<rparr>)"
    using ps node unfolding tu_iterate_children_cb_def ctx2_def[symmetric]
    by (simp add: Let_def ctx2_def[symmetric])
  moreover have "ctx_db (ctxD\<lparr>struct_sb := reset_struct_scoreboard (struct_sb ctxD),
                              last_struct := 0\<rparr>) = db_kind_mem d'"
    by (simp add: ctxD_def)
  moreover have "parent_stack (ctx_path (ctxD\<lparr>struct_sb := reset_struct_scoreboard (struct_sb ctxD),
                              last_struct := 0\<rparr>)) = root # below"
    by (simp add: ctxD_def ctxC_def ctx3_def ctx2_def update_location_keeps)
  moreover have "items (user_types d') = [pk_entry pkg]" using r1 by (simp add: pkg'_def)
  moreover have "items (typenames d') =
                [\<lparr>tn_kind = declared_name_kind t, tn_base_type = 1,
                  tn_name = own_name (c_spelling t)\<rparr>]"
    using r2 by (simp add: pkg'_def)
  ultimately show ?thesis using r3 by blast
qed

text \<open>
  C4. A translation unit whose top level holds an unnamed record \<open>struct { \<dots> }\<close> with
  plain fields, followed by the typedef or the file-scope variable that declares a name
  for it (\<open>typedef struct { \<dots> } T;\<close> and \<open>struct { \<dots> } v;\<close>; the front end shows the
  record first, then the declaration naming it), ingested into an in-memory store without
  types and typenames: the traversal succeeds and leaves exactly one type row (a complete
  struct) and exactly one typename row, of kind typedef (for the variable: var), with the
  declared name and referencing that type row; there is no direct-name row. Each field has
  become a member row of that type.
\<close>

theorem unnamed_record_named_by_next:
  assumes s_kind: "c_kind s = CXCursor_StructDecl"
      and s_type: "ty_kind (c_type s) = CXType_Record" "ty_canon_kind (c_type s) = CXType_Record"
                  "\<not> ty_incomplete (c_type s)" "ty_canon_id (c_type s) \<noteq> 0"
      and s_unnamed: "\<not> c_anonymous s" "take 8 (c_pretty s) = ''struct {''"
      and fields: "list_all plain_field fs"
                  "list_all (\<lambda>f. field_type_id f \<noteq> ty_canon_id (c_type s)) fs"
      and t_kind: "c_kind t = CXCursor_TypedefDecl \<or> c_kind t = CXCursor_VarDecl"
      and t_type: "ty_canon_kind (declared_type t) = CXType_Record"
                  "ty_canon_id (declared_type t) = ty_canon_id (c_type s)"
      and t_name: "length (c_spelling t) \<le> CF_STR_MAX_LEN"
      and store: "items (user_types d) = []" "items (typenames d) = []"
      and heap: "script h = []"
  shows "\<exists>ctx' d'. index_tu (Node root [Node s fs, Node t ks])
                      ((make_index_ctx (db_kind_mem d) h)\<lparr>file_map := fm\<rparr>) = Some ctx'
           \<and> ctx_db ctx' = db_kind_mem d'
           \<and> items (user_types d') = [\<lparr>te_kind = type_kind_struct, te_complete = True\<rparr>]
           \<and> items (typenames d') =
                [\<lparr>tn_kind = (if c_kind t = CXCursor_VarDecl then name_kind_var
                             else name_kind_typedef),
                  tn_base_type = 1, tn_name = c_spelling t\<rparr>]
           \<and> items (members d') = items (members d) @ map (field_entry 1) fs"
proof -
  define ctx0 where "ctx0 = (make_index_ctx (db_kind_mem d) h)\<lparr>file_map := fm\<rparr>"
  define ctx1 where "ctx1 = ctx0\<lparr>ctx_path := (ctx_path ctx0)
                      \<lparr>parent_stack := root # parent_stack (ctx_path ctx0)\<rparr>\<rparr>"
  have ps1: "parent_stack (ctx_path ctx1) = root # []"
    by (simp add: ctx1_def ctx0_def make_index_ctx_def empty_path_def)
  have ls1: "last_struct ctx1 = 0" by (simp add: ctx1_def ctx0_def make_index_ctx_def)
  have fr1: "fresh_sb (struct_sb ctx1)"
    by (simp add: ctx1_def ctx0_def make_index_ctx_def fresh_make)
  from node_unnamed[OF ps1 ls1 fr1 s_kind s_type(1) s_type(2) s_type(3) s_unnamed fields]
  obtain ctx2 loc0 where
    n1: "tu_iterate_children_cb (Node s fs) root ctx1 = Some (CXChildVisit_Continue, ctx2)" and
    db2: "ctx_db ctx2 = ctx_db ctx1" and h2: "ctx_heap ctx2 = ctx_heap ctx1" and
    ps2: "parent_stack (ctx_path ctx2) = root # []" and
    ls2: "last_struct ctx2 = ty_canon_id (c_type s)" and
    nt2: "new_types (struct_sb ctx2) =
                 [\<lparr>pk_type_id = ty_canon_id (c_type s),
                   pk_entry = \<lparr>te_kind = type_kind_struct, te_complete = True\<rparr>,
                   pk_name = zero_typename, pk_loc0 = loc0, pk_loc1 = zero_loc\<rparr>]" and
    un2: "unnamed_types (struct_sb ctx2) = [(ty_canon_id (c_type s), 0)]" and
    us2: "sb_type_uses (struct_sb ctx2) = []" and
    st2: "list_all2 (staged_field (ty_canon_id (c_type s))) fs (sb_members (struct_sb ctx2))"
    by blast
  have dbm: "ctx_db ctx2 = db_kind_mem d"
    using db2 by (simp add: ctx1_def ctx0_def make_index_ctx_def)
  have hs: "script (ctx_heap ctx2) = []"
    using h2 heap by (simp add: ctx1_def ctx0_def make_index_ctx_def)
  have pid: "pk_type_id \<lparr>pk_type_id = ty_canon_id (c_type s),
                   pk_entry = \<lparr>te_kind = type_kind_struct, te_complete = True\<rparr>,
                   pk_name = zero_typename, pk_loc0 = loc0, pk_loc1 = zero_loc\<rparr>
               = ty_canon_id (c_type s)" by simp
  from node_name[OF ps2 t_kind t_type(1) t_type(2) ls2 s_type(4) nt2 pid un2 us2 st2 dbm
         store(2) store(1) hs, of ks]
  obtain ctx3 d' where
    n2: "tu_iterate_children_cb (Node t ks) root ctx2 = Some (CXChildVisit_Continue, ctx3)" and
    db3: "ctx_db ctx3 = db_kind_mem d'" and
    r1: "items (user_types d') = [\<lparr>te_kind = type_kind_struct, te_complete = True\<rparr>]" and
    r2: "items (typenames d') =
                [\<lparr>tn_kind = declared_name_kind t, tn_base_type = 1,
                  tn_name = own_name (c_spelling t)\<rparr>]" and
    r3: "items (members d') = items (members d) @ map (field_entry 1) fs" and
    ps3: "parent_stack (ctx_path ctx3) = root # []"
    by auto
  have v: "clang_visitChildren tu_iterate_children_cb root [Node s fs, Node t ks] ctx1
             = Some (False, ctx3)"
    by (simp add: n1 n2)
  have "index_tu (Node root [Node s fs, Node t ks]) ctx0 =
          Some (ctx3\<lparr>ctx_path := (ctx_path ctx3)\<lparr>parent_stack := []\<rparr>\<rparr>)"
    using v ps3 unfolding index_tu_def ctx1_def[symmetric]
    by (simp add: Let_def ctx1_def[symmetric])
  moreover have "ctx_db (ctx3\<lparr>ctx_path := (ctx_path ctx3)\<lparr>parent_stack := []\<rparr>\<rparr>) = db_kind_mem d'"
    using db3 by simp
  moreover have "items (typenames d') =
                [\<lparr>tn_kind = (if c_kind t = CXCursor_VarDecl then name_kind_var
                             else name_kind_typedef),
                  tn_base_type = 1, tn_name = c_spelling t\<rparr>]"
    using r2 t_name by (simp add: declared_name_kind_def own_name_def)
  ultimately show ?thesis using r1 r3 unfolding ctx0_def by blast
qed

lemma plain_int_field: "plain_field (int_field i n)"
  by (simp add: int_field_def plain_field_Node cursor_at_def int_type_def)

lemma int_field_id: "field_type_id (int_field i n) = 100"
  by (simp add: int_field_def field_type_id_Node cursor_at_def int_type_def)

lemma int_field_entry:
  "field_entry p (int_field i n) = \<lparr>mb_parent = p, mb_base_type = 0, mb_name = own_name n\<rparr>"
  by (simp add: int_field_def field_entry_Node cursor_at_def)

lemma own_name_short: "length n \<le> 10 \<Longrightarrow> own_name n = n"
  by (simp add: own_name_def CF_STR_MAX_LEN_def)

theorem unnamed_record_named_by_next_witness:
  "(\<exists>ctx' d'. index_tu tu_typedef
        ((make_index_ctx (db_kind_mem mem_db_open) heap_ok)\<lparr>file_map := [(7, 1)]\<rparr>) = Some ctx'
      \<and> ctx_db ctx' = db_kind_mem d'
      \<and> items (user_types d') = [\<lparr>te_kind = type_kind_struct, te_complete = True\<rparr>]
      \<and> items (typenames d') =
           [\<lparr>tn_kind = name_kind_typedef, tn_base_type = 1, tn_name = ''T''\<rparr>]
      \<and> items (members d') = [\<lparr>mb_parent = 1, mb_base_type = 0, mb_name = ''a''\<rparr>,
                               \<lparr>mb_parent = 1, mb_base_type = 0, mb_name = ''b''\<rparr>])
   \<and> (\<exists>ctx' d'. index_tu tu_var
        ((make_index_ctx (db_kind_mem mem_db_open) heap_ok)\<lparr>file_map := [(7, 1)]\<rparr>) = Some ctx'
      \<and> ctx_db ctx' = db_kind_mem d'
      \<and> items (user_types d') = [\<lparr>te_kind = type_kind_struct, te_complete = True\<rparr>]
      \<and> items (typenames d') = [\<lparr>tn_kind = name_kind_var, tn_base_type = 1, tn_name = ''v''\<rparr>]
      \<and> items (members d') = [\<lparr>mb_parent = 1, mb_base_type = 0, mb_name = ''a''\<rparr>,
                               \<lparr>mb_parent = 1, mb_base_type = 0, mb_name = ''b''\<rparr>])"
proof -
  note t1 = unnamed_record_named_by_next[where
      s = "cursor_at 1 CXCursor_StructDecl (record_type 5) [] ''struct {...}''"
      and fs = "[int_field 2 ''a'', int_field 3 ''b'']"
      and t = "(cursor_at 4 CXCursor_TypedefDecl (record_type 5) ''T'' [])
                 \<lparr>c_underlying := record_type 5\<rparr>"
      and d = mem_db_open and h = heap_ok and root = tu_root and ks = "[]"
      and fm = "[(7, 1)]"]
  note t2 = unnamed_record_named_by_next[where
      s = "cursor_at 1 CXCursor_StructDecl (record_type 5) [] ''struct {...}''"
      and fs = "[int_field 2 ''a'', int_field 3 ''b'']"
      and t = "cursor_at 4 CXCursor_VarDecl (record_type 5) ''v'' []"
      and d = mem_db_open and h = heap_ok and root = tu_root and ks = "[]"
      and fm = "[(7, 1)]"]
  have a: "\<exists>ctx' d'. index_tu tu_typedef
        ((make_index_ctx (db_kind_mem mem_db_open) heap_ok)\<lparr>file_map := [(7, 1)]\<rparr>) = Some ctx'
      \<and> ctx_db ctx' = db_kind_mem d'
      \<and> items (user_types d') = [\<lparr>te_kind = type_kind_struct, te_complete = True\<rparr>]
      \<and> items (typenames d') =
           [\<lparr>tn_kind = name_kind_typedef, tn_base_type = 1, tn_name = ''T''\<rparr>]
      \<and> items (members d') = [\<lparr>mb_parent = 1, mb_base_type = 0, mb_name = ''a''\<rparr>,
                               \<lparr>mb_parent = 1, mb_base_type = 0, mb_name = ''b''\<rparr>]"
    using t1
    by (simp add: tu_typedef_def unnamed_struct_def cursor_at_def record_type_def
          plain_int_field int_field_id int_field_entry own_name_short declared_type_def
          CF_STR_MAX_LEN_def mem_db_open_def cf_vec_make_def heap_ok_def)
  have b: "\<exists>ctx' d'. index_tu tu_var
        ((make_index_ctx (db_kind_mem mem_db_open) heap_ok)\<lparr>file_map := [(7, 1)]\<rparr>) = Some ctx'
      \<and> ctx_db ctx' = db_kind_mem d'
      \<and> items (user_types d') = [\<lparr>te_kind = type_kind_struct, te_complete = True\<rparr>]
      \<and> items (typenames d') = [\<lparr>tn_kind = name_kind_var, tn_base_type = 1, tn_name = ''v''\<rparr>]
      \<and> items (members d') = [\<lparr>mb_parent = 1, mb_base_type = 0, mb_name = ''a''\<rparr>,
                               \<lparr>mb_parent = 1, mb_base_type = 0, mb_name = ''b''\<rparr>]"
    using t2
    by (simp add: tu_var_def unnamed_struct_def cursor_at_def record_type_def
          plain_int_field int_field_id int_field_entry own_name_short declared_type_def
          CF_STR_MAX_LEN_def mem_db_open_def cf_vec_make_def heap_ok_def)
  from a b show ?thesis by blast
qed

subsection \<open>Anonymous nested records\<close>






end
